theory Spec2Isabelle
  imports Complex_Main
begin

section \<open>JavaScript numbers\<close>

text \<open>
  The optimisers compute with JavaScript numbers, the values of IEEE 754 binary64. A
  number is modelled as a finite value, one of the two infinities, or NaN. A finite
  value is a real number. Every arithmetic operation on finite values computes the exact
  result and rounds it to binary64 (to the nearest value, ties to even, a magnitude
  of \<open>2 ^ 1024\<close> or more becoming an infinity), so the finite values that an
  operation returns are binary64 values. The arithmetic on the special values follows
  IEEE 754 as JavaScript has it (\<open>Infinity - Infinity\<close> and
  \<open>0 * Infinity\<close> are NaN, NaN is absorbing, every comparison with NaN is
  false). The sign of zero is not modelled.
\<close>

datatype jsnum = Num real | PosInf | NegInf | NaN

subsection \<open>Rounding to binary64\<close>

text \<open>\<open>2 ^ e\<close> for an integer \<open>e\<close>.\<close>

definition pow2 :: "int \<Rightarrow> real" where
  "pow2 e = (if 0 \<le> e then 2 ^ nat e else 1 / 2 ^ nat (- e))"

text \<open>
  The integer \<open>e\<close> with \<open>2 ^ e \<le> x < 2 ^ (e + 1)\<close> for a positive
  \<open>x\<close>, found by halving a value that is at least 1 and by doubling one that is
  below 1.
\<close>

function log2_ge1 :: "real \<Rightarrow> int" where
  "log2_ge1 x = (if x < 2 then 0 else log2_ge1 (x / 2) + 1)"
  by pat_completeness auto
termination
proof (relation "measure (\<lambda>x. nat \<lfloor>x\<rfloor>)")
  fix x :: real assume "\<not> x < 2"
  then have "\<lfloor>x / 2\<rfloor> < \<lfloor>x\<rfloor>" "0 < \<lfloor>x\<rfloor>" by linarith+
  then show "(x / 2, x) \<in> measure (\<lambda>x. nat \<lfloor>x\<rfloor>)" by simp
qed simp

function log2_lt1 :: "real \<Rightarrow> int" where
  "log2_lt1 x = (if x \<le> 0 \<or> 1 \<le> x then 0 else log2_lt1 (2 * x) - 1)"
  by pat_completeness auto
termination
proof (relation "measure (\<lambda>x. nat \<lceil>1 / x\<rceil>)")
  fix x :: real assume a: "\<not> (x \<le> 0 \<or> 1 \<le> x)"
  then have x: "0 < x" "x < 1" by simp_all
  then have y: "1 < 1 / x" by simp
  have c: "2 \<le> \<lceil>1 / x\<rceil>" using y by linarith
  have "1 / (2 * x) = (1 / x) / 2" by simp
  also have "\<dots> \<le> of_int \<lceil>1 / x\<rceil> / 2" by (simp add: divide_right_mono)
  also have "\<dots> \<le> of_int \<lceil>1 / x\<rceil> - 1" using c by simp
  finally have "\<lceil>1 / (2 * x)\<rceil> < \<lceil>1 / x\<rceil>" by (simp add: ceiling_less_iff)
  moreover have "0 < \<lceil>1 / x\<rceil>" using y by linarith
  ultimately show "(2 * x, x) \<in> measure (\<lambda>x. nat \<lceil>1 / x\<rceil>)" by simp
qed simp

declare log2_ge1.simps [simp del] log2_lt1.simps [simp del]

definition floor_log2 :: "real \<Rightarrow> int" where
  "floor_log2 x = (if 1 \<le> x then log2_ge1 x else log2_lt1 x)"

text \<open>The nearest integer, the even one of the two when they are equally near.\<close>

definition round_half_even :: "real \<Rightarrow> int" where
  "round_half_even q =
     (let f = \<lfloor>q\<rfloor>; d = q - of_int f in
      if d < 1 / 2 then f else if 1 / 2 < d then f + 1 else if even f then f else f + 1)"

text \<open>
  The exponent of the binary64 values around \<open>x\<close>: that of \<open>x\<close>
  itself, and \<open>- 1022\<close>, the one of the subnormal values, when \<open>x\<close>
  is smaller.
\<close>

definition exponent64 :: "real \<Rightarrow> int" where
  "exponent64 x = max (floor_log2 \<bar>x\<bar>) (- 1022)"

text \<open>
  The binary64 values with the exponent \<open>e\<close> are the multiples of
  \<open>2 ^ (e - 52)\<close>; \<open>round64 x\<close> is the one nearest to \<open>x\<close>,
  or an infinity.
\<close>

definition round64 :: "real \<Rightarrow> jsnum" where
  "round64 x =
     (let ulp = pow2 (exponent64 x - 52);
          y = of_int (round_half_even (x / ulp)) * ulp
      in if pow2 1024 \<le> \<bar>y\<bar> then (if 0 < x then PosInf else NegInf) else Num y)"

subsection \<open>Arithmetic\<close>

fun isFinite :: "jsnum \<Rightarrow> bool" where
  "isFinite (Num r) = True"
| "isFinite PosInf = False"
| "isFinite NegInf = False"
| "isFinite NaN = False"

text \<open>The sign of a number that is not NaN, used for products and quotients with an infinity.\<close>

fun signum :: "jsnum \<Rightarrow> int" where
  "signum (Num r) = (if r < 0 then - 1 else if r = 0 then 0 else 1)"
| "signum PosInf = 1"
| "signum NegInf = - 1"
| "signum NaN = 0"

definition infinity_of_sign :: "int \<Rightarrow> jsnum" where
  "infinity_of_sign s = (if s = 0 then NaN else if 0 < s then PosInf else NegInf)"

instantiation jsnum :: "{plus, uminus, minus, times, inverse, abs, ord}"
begin

fun plus_jsnum :: "jsnum \<Rightarrow> jsnum \<Rightarrow> jsnum" where
  "Num a + Num b = round64 (a + b)"
| "NaN + v = NaN"
| "u + NaN = NaN"
| "PosInf + NegInf = NaN"
| "NegInf + PosInf = NaN"
| "PosInf + v = PosInf"
| "u + PosInf = PosInf"
| "NegInf + v = NegInf"
| "u + NegInf = NegInf"

fun uminus_jsnum :: "jsnum \<Rightarrow> jsnum" where
  "- Num a = Num (- a)"
| "- PosInf = NegInf"
| "- NegInf = PosInf"
| "- NaN = NaN"

definition minus_jsnum :: "jsnum \<Rightarrow> jsnum \<Rightarrow> jsnum" where
  "u - v = u + (- v)" for u v :: jsnum

fun times_jsnum :: "jsnum \<Rightarrow> jsnum \<Rightarrow> jsnum" where
  "Num a * Num b = round64 (a * b)"
| "NaN * v = NaN"
| "u * NaN = NaN"
| "u * v = infinity_of_sign (signum u * signum v)"

text \<open>
  A finite zero divisor is read as \<open>+0\<close>. No division of the optimisers has a
  zero divisor: each one is guarded by a comparison with \<open>EPSILON\<close> or adds
  \<open>ADAM_EPSILON\<close> to a square root.
\<close>

fun divide_jsnum :: "jsnum \<Rightarrow> jsnum \<Rightarrow> jsnum" where
  "divide_jsnum (Num a) (Num b) = (if b = 0 then infinity_of_sign (signum (Num a)) else round64 (a / b))"
| "divide_jsnum NaN v = NaN"
| "divide_jsnum u NaN = NaN"
| "divide_jsnum (Num a) v = Num 0"
| "divide_jsnum u (Num b) = infinity_of_sign (if b < 0 then - signum u else signum u)"
| "divide_jsnum u v = NaN"

definition inverse_jsnum :: "jsnum \<Rightarrow> jsnum" where
  "inverse_jsnum u = divide (Num 1) u"

fun abs_jsnum :: "jsnum \<Rightarrow> jsnum" where
  "\<bar>Num a\<bar> = Num \<bar>a\<bar>"
| "\<bar>PosInf\<bar> = PosInf"
| "\<bar>NegInf\<bar> = PosInf"
| "\<bar>NaN\<bar> = NaN"

fun less_jsnum :: "jsnum \<Rightarrow> jsnum \<Rightarrow> bool" where
  "Num a < Num b \<longleftrightarrow> a < b"
| "NaN < v \<longleftrightarrow> False"
| "u < NaN \<longleftrightarrow> False"
| "NegInf < NegInf \<longleftrightarrow> False"
| "NegInf < v \<longleftrightarrow> True"
| "PosInf < v \<longleftrightarrow> False"
| "u < PosInf \<longleftrightarrow> True"
| "u < NegInf \<longleftrightarrow> False"

definition less_eq_jsnum :: "jsnum \<Rightarrow> jsnum \<Rightarrow> bool" where
  "u \<le> v \<longleftrightarrow> u < v \<or> (u = v \<and> u \<noteq> NaN)" for u v :: jsnum

instance ..

end

text \<open>\<open>Math.sqrt\<close>.\<close>

fun Math_sqrt :: "jsnum \<Rightarrow> jsnum" where
  "Math_sqrt (Num a) = (if a < 0 then NaN else round64 (sqrt a))"
| "Math_sqrt PosInf = PosInf"
| "Math_sqrt NegInf = NaN"
| "Math_sqrt NaN = NaN"

text \<open>
  The operator \<open>**\<close>, for an exponent that is a natural number (the optimisers
  raise to \<open>i + 1\<close> only). ECMAScript leaves the accuracy of the result to the
  implementation; it is taken to be the power, rounded.
\<close>

fun js_pow :: "jsnum \<Rightarrow> nat \<Rightarrow> jsnum" where
  "js_pow u 0 = Num 1"
| "js_pow (Num a) n = round64 (a ^ n)"
| "js_pow PosInf n = PosInf"
| "js_pow NegInf n = (if odd n then NegInf else PosInf)"
| "js_pow NaN n = NaN"

definition DEFAULT_NUM_STEPS :: nat where
  "DEFAULT_NUM_STEPS = 20"

text \<open>The literals \<open>1e-9\<close> and \<open>1e-8\<close> denote the binary64 values nearest to them.\<close>

definition EPSILON :: jsnum where
  "EPSILON = round64 (1 / 1000000000)"

definition ADAM_EPSILON :: jsnum where
  "ADAM_EPSILON = round64 (1 / 100000000)"

section \<open>Evaluators\<close>

text \<open>
  What \<open>compiled.evaluate(scope)\<close> can hand back: a number, a boolean,
  \<open>null\<close>, \<open>undefined\<close>, or any other value (a string, a BigInt, a
  symbol, an object such as a math.js complex number or matrix). Of the last kind only
  its conversion by \<open>Number(value)\<close> matters here: \<open>JSOther (Some n)\<close>
  converts to \<open>n\<close>, \<open>JSOther None\<close> makes the conversion throw a
  TypeError.
\<close>

datatype jsvalue =
    JSNumber jsnum
  | JSBoolean bool
  | JSNull
  | JSUndefined
  | JSOther "jsnum option"

datatype outcome = Returns jsvalue | Throws

type_synonym scope = "string \<rightharpoonup> jsnum"

type_synonym compiled = "scope \<Rightarrow> outcome"

text \<open>\<open>Number(value)\<close>; \<open>None\<close> when the conversion throws.\<close>

fun Number :: "jsvalue \<Rightarrow> jsnum option" where
  "Number (JSNumber n) = Some n"
| "Number (JSBoolean b) = Some (if b then Num 1 else Num 0)"
| "Number JSNull = Some (Num 0)"
| "Number JSUndefined = Some NaN"
| "Number (JSOther c) = c"

fun is_number :: "jsvalue \<Rightarrow> bool" where
  "is_number (JSNumber n) = True"
| "is_number v = False"

fun the_number :: "jsvalue \<Rightarrow> jsnum option" where
  "the_number (JSNumber n) = Some n"
| "the_number v = None"

text \<open>
  \<open>evaluateNumber\<close>: the \<open>try\<close> block covers the call of the evaluator and
  the conversion, so either one throwing ends in the \<open>catch\<close>.
\<close>

definition evaluateNumber :: "compiled \<Rightarrow> scope \<Rightarrow> jsnum" where
  "evaluateNumber compiled scope =
     (case compiled scope of
        Throws \<Rightarrow> NaN
      | Returns val \<Rightarrow>
          (case (if is_number val then the_number val else Number val) of
             None \<Rightarrow> NaN
           | Some numeric \<Rightarrow> if isFinite numeric then numeric else NaN))"

definition ensureValue :: "jsnum \<Rightarrow> jsnum \<Rightarrow> jsnum" where
  "ensureValue val fallback = (if isFinite val then val else fallback)"

section \<open>The inverse of a 2x2 matrix\<close>

record matrix2x2 =
  xx :: jsnum
  xy :: jsnum
  yx :: jsnum
  yy :: jsnum

text \<open>\<open>invert2x2\<close>; \<open>None\<close> is the \<open>null\<close> of the source.\<close>

definition invert2x2 :: "jsnum \<Rightarrow> jsnum \<Rightarrow> jsnum \<Rightarrow> jsnum \<Rightarrow> matrix2x2 option" where
  "invert2x2 a b c d =
     (let det = a * d - b * c in
      if \<not> isFinite det \<or> \<bar>det\<bar> < EPSILON then None
      else
        let invDet = Num 1 / det in
        Some \<lparr>xx = d * invDet, xy = - b * invDet, yx = - c * invDet, yy = a * invDet\<rparr>)"

section \<open>Analyses, settings and trajectories\<close>

text \<open>
  Of what \<open>analyzeFunction1D\<close> and \<open>analyzeFunction2D\<close> return, the
  optimisers read the compiled function, gradient and Hessian only. In one variable the
  gradient and the Hessian are one evaluator each; in two variables they are the
  objects \<open>{x, y}\<close> and \<open>{xx, xy, yx, yy}\<close> of evaluators.
\<close>

record ('g, 'h) analysis =
  fn :: compiled
  gradient :: 'g
  hessian :: 'h

record gradient2D =
  grad_x :: compiled
  grad_y :: compiled

record hessian2D =
  hess_xx :: compiled
  hess_xy :: compiled
  hess_yx :: compiled
  hess_yy :: compiled

type_synonym analysis1D = "(compiled, compiled) analysis"

type_synonym analysis2D = "(gradient2D, hessian2D) analysis"

text \<open>
  The settings object, with the fields either function reads
  (\<open>computeTrajectory1D\<close> reads neither \<open>initialY\<close> nor the decay
  rates). \<open>numSteps\<close> is a count of steps, a natural number; \<open>None\<close>
  stands for a field that is absent (\<open>undefined\<close> or \<open>null\<close>), which
  \<open>??\<close> replaces by the default.
\<close>

record settings =
  optimiserType :: string
  initialX :: jsnum
  initialY :: jsnum
  learningRate :: jsnum
  momentum :: jsnum
  beta1 :: jsnum
  beta2 :: jsnum
  numSteps :: "nat option"

text \<open>
  The objects returned, \<open>{x: xs, y: ys}\<close> and \<open>{x: xs, y: ys, z: zs}\<close>;
  in one variable \<open>y\<close> holds the objective, in two variables \<open>z\<close> does.
\<close>

record trajectory1D =
  traj_x :: "jsnum list"
  traj_y :: "jsnum list"

record trajectory2D = trajectory1D +
  traj_z :: "jsnum list"

text \<open>
  What either function can throw: the \<open>RangeError\<close> of an array length that is
  out of range, and the \<open>Error\<close> for an optimiser type that is not supported,
  with the type its message names.
\<close>

datatype error = RangeError | UnsupportedOptimiserType string

text \<open>
  \<open>new Array(len).fill(value)\<close> for a length that is a natural number: the
  constructor throws a \<open>RangeError\<close> when the length exceeds
  \<open>2 ^ 32 - 1\<close>.
\<close>

definition Array_fill :: "nat \<Rightarrow> jsnum \<Rightarrow> error + jsnum list" where
  "Array_fill len val = (if 4294967295 < len then Inl RangeError else Inr (replicate len val))"

section \<open>The loop\<close>

text \<open>
  \<open>for (let i = 0; i < numSteps; i += 1) body\<close>, started at any \<open>i\<close>;
  the body gets the index and the variables it assigns to.
\<close>

function for_loop :: "nat \<Rightarrow> nat \<Rightarrow> (nat \<Rightarrow> 's \<Rightarrow> 's) \<Rightarrow> 's \<Rightarrow> 's" where
  "for_loop i n body st = (if i < n then for_loop (i + 1) n body (body i st) else st)"
  by pat_completeness auto
termination
  by (relation "measure (\<lambda>(i, n, body, st). n - i)") auto

declare for_loop.simps [simp del]

section \<open>Trajectories in one variable\<close>

text \<open>
  The body of each loop, as a function of the index and of the arrays, and the function
  itself. A body reads the entries of index \<open>i\<close> and, for \<open>i > 0\<close>, of
  index \<open>i - 1\<close>, and writes the entries of index \<open>i + 1\<close>; the arrays
  have \<open>numSteps + 1\<close> entries and \<open>i < numSteps\<close>, so every index is
  in range. \<open>continue\<close> is the end of the body. The arrays are allocated before
  the optimiser type is looked at, so a \<open>RangeError\<close> comes before the error
  for an unsupported type.
\<close>

type_synonym state1D = "jsnum list \<times> jsnum list"

fun gradientDescent1D_body :: "analysis1D \<Rightarrow> settings \<Rightarrow> nat \<Rightarrow> state1D \<Rightarrow> state1D" where
  "gradientDescent1D_body analysis settings i (xs, ys) =
     (let gradVal = evaluateNumber (gradient analysis) [''x'' \<mapsto> xs ! i] in
      if \<not> isFinite gradVal then (xs[i + 1 := xs ! i], ys[i + 1 := ys ! i])
      else
        let momentumTerm = (if i = 0 then Num 0 else momentum settings * (xs ! i - xs ! (i - 1)));
            xs = xs[i + 1 := xs ! i - learningRate settings * gradVal + momentumTerm];
            ys = ys[i + 1 := ensureValue (evaluateNumber (fn analysis) [''x'' \<mapsto> xs ! (i + 1)]) (ys ! i)]
        in (xs, ys))"

fun newton1D_body :: "analysis1D \<Rightarrow> nat \<Rightarrow> state1D \<Rightarrow> state1D" where
  "newton1D_body analysis i (xs, ys) =
     (let gradVal = evaluateNumber (gradient analysis) [''x'' \<mapsto> xs ! i];
          hessVal = evaluateNumber (hessian analysis) [''x'' \<mapsto> xs ! i] in
      if \<not> isFinite gradVal \<or> \<not> isFinite hessVal \<or> \<bar>hessVal\<bar> < EPSILON
      then (xs[i + 1 := xs ! i], ys[i + 1 := ys ! i])
      else
        let xs = xs[i + 1 := xs ! i - gradVal / hessVal];
            ys = ys[i + 1 := ensureValue (evaluateNumber (fn analysis) [''x'' \<mapsto> xs ! (i + 1)]) (ys ! i)]
        in (xs, ys))"

definition computeTrajectory1D :: "analysis1D \<Rightarrow> settings \<Rightarrow> error + trajectory1D" where
  "computeTrajectory1D analysis settings =
     (let n = (case numSteps settings of None \<Rightarrow> DEFAULT_NUM_STEPS | Some k \<Rightarrow> k) in
      case Array_fill (n + 1) (Num 0) of Inl e \<Rightarrow> Inl e | Inr xs \<Rightarrow>
      case Array_fill (n + 1) (Num 0) of Inl e \<Rightarrow> Inl e | Inr ys \<Rightarrow>
      let xs = xs[0 := initialX settings];
          ys = ys[0 := ensureValue (evaluateNumber (fn analysis) [''x'' \<mapsto> xs ! 0]) (Num 0)]
      in
        if optimiserType settings = ''Gradient Descent'' then
          (case for_loop 0 n (gradientDescent1D_body analysis settings) (xs, ys) of
             (xs, ys) \<Rightarrow> Inr \<lparr>traj_x = xs, traj_y = ys\<rparr>)
        else if optimiserType settings = ''Newton'' then
          (case for_loop 0 n (newton1D_body analysis) (xs, ys) of
             (xs, ys) \<Rightarrow> Inr \<lparr>traj_x = xs, traj_y = ys\<rparr>)
        else Inl (UnsupportedOptimiserType (optimiserType settings)))"

section \<open>Trajectories in two variables\<close>

type_synonym state2D = "jsnum list \<times> jsnum list \<times> jsnum list"

text \<open>The Adam loop also assigns to the moments \<open>mx\<close>, \<open>my\<close>, \<open>vx\<close>, \<open>vy\<close>.\<close>

type_synonym stateAdam = "state2D \<times> jsnum \<times> jsnum \<times> jsnum \<times> jsnum"

fun gradientDescent2D_body :: "analysis2D \<Rightarrow> settings \<Rightarrow> nat \<Rightarrow> state2D \<Rightarrow> state2D" where
  "gradientDescent2D_body analysis settings i (xs, ys, zs) =
     (let gradX = evaluateNumber (grad_x (gradient analysis)) [''x'' \<mapsto> xs ! i, ''y'' \<mapsto> ys ! i];
          gradY = evaluateNumber (grad_y (gradient analysis)) [''x'' \<mapsto> xs ! i, ''y'' \<mapsto> ys ! i] in
      if \<not> isFinite gradX \<or> \<not> isFinite gradY
      then (xs[i + 1 := xs ! i], ys[i + 1 := ys ! i], zs[i + 1 := zs ! i])
      else
        let momentumX = (if i = 0 then Num 0 else momentum settings * (xs ! i - xs ! (i - 1)));
            momentumY = (if i = 0 then Num 0 else momentum settings * (ys ! i - ys ! (i - 1)));
            xs = xs[i + 1 := xs ! i - learningRate settings * gradX + momentumX];
            ys = ys[i + 1 := ys ! i - learningRate settings * gradY + momentumY];
            zs = zs[i + 1 := ensureValue
                   (evaluateNumber (fn analysis) [''x'' \<mapsto> xs ! (i + 1), ''y'' \<mapsto> ys ! (i + 1)])
                   (zs ! i)]
        in (xs, ys, zs))"

fun adam_body :: "analysis2D \<Rightarrow> settings \<Rightarrow> nat \<Rightarrow> stateAdam \<Rightarrow> stateAdam" where
  "adam_body analysis settings i ((xs, ys, zs), mx, my, vx, vy) =
     (let gradX = evaluateNumber (grad_x (gradient analysis)) [''x'' \<mapsto> xs ! i, ''y'' \<mapsto> ys ! i];
          gradY = evaluateNumber (grad_y (gradient analysis)) [''x'' \<mapsto> xs ! i, ''y'' \<mapsto> ys ! i] in
      if \<not> isFinite gradX \<or> \<not> isFinite gradY
      then ((xs[i + 1 := xs ! i], ys[i + 1 := ys ! i], zs[i + 1 := zs ! i]), mx, my, vx, vy)
      else
        let mx = beta1 settings * mx + (Num 1 - beta1 settings) * gradX;
            my = beta1 settings * my + (Num 1 - beta1 settings) * gradY;
            vx = beta2 settings * vx + (Num 1 - beta2 settings) * gradX * gradX;
            vy = beta2 settings * vy + (Num 1 - beta2 settings) * gradY * gradY;
            beta1Correction = Num 1 - js_pow (beta1 settings) (i + 1);
            beta2Correction = Num 1 - js_pow (beta2 settings) (i + 1);
            mxHat = mx / (if \<bar>beta1Correction\<bar> > EPSILON then beta1Correction else EPSILON);
            myHat = my / (if \<bar>beta1Correction\<bar> > EPSILON then beta1Correction else EPSILON);
            vxHat = vx / (if \<bar>beta2Correction\<bar> > EPSILON then beta2Correction else EPSILON);
            vyHat = vy / (if \<bar>beta2Correction\<bar> > EPSILON then beta2Correction else EPSILON);
            xs = xs[i + 1 := xs ! i - learningRate settings * mxHat / (Math_sqrt vxHat + ADAM_EPSILON)];
            ys = ys[i + 1 := ys ! i - learningRate settings * myHat / (Math_sqrt vyHat + ADAM_EPSILON)];
            zs = zs[i + 1 := ensureValue
                   (evaluateNumber (fn analysis) [''x'' \<mapsto> xs ! (i + 1), ''y'' \<mapsto> ys ! (i + 1)])
                   (zs ! i)]
        in ((xs, ys, zs), mx, my, vx, vy))"

fun newton2D_body :: "analysis2D \<Rightarrow> nat \<Rightarrow> state2D \<Rightarrow> state2D" where
  "newton2D_body analysis i (xs, ys, zs) =
     (let gradX = evaluateNumber (grad_x (gradient analysis)) [''x'' \<mapsto> xs ! i, ''y'' \<mapsto> ys ! i];
          gradY = evaluateNumber (grad_y (gradient analysis)) [''x'' \<mapsto> xs ! i, ''y'' \<mapsto> ys ! i];
          hxx = evaluateNumber (hess_xx (hessian analysis)) [''x'' \<mapsto> xs ! i, ''y'' \<mapsto> ys ! i];
          hxy = evaluateNumber (hess_xy (hessian analysis)) [''x'' \<mapsto> xs ! i, ''y'' \<mapsto> ys ! i];
          hyx = evaluateNumber (hess_yx (hessian analysis)) [''x'' \<mapsto> xs ! i, ''y'' \<mapsto> ys ! i];
          hyy = evaluateNumber (hess_yy (hessian analysis)) [''x'' \<mapsto> xs ! i, ''y'' \<mapsto> ys ! i] in
      if \<exists>v \<in> set [gradX, gradY, hxx, hxy, hyx, hyy]. \<not> isFinite v
      then (xs[i + 1 := xs ! i], ys[i + 1 := ys ! i], zs[i + 1 := zs ! i])
      else
        (case invert2x2 hxx hxy hyx hyy of
           None \<Rightarrow> (xs[i + 1 := xs ! i], ys[i + 1 := ys ! i], zs[i + 1 := zs ! i])
         | Some inv' \<Rightarrow>
             let stepX = xx inv' * gradX + xy inv' * gradY;
                 stepY = yx inv' * gradX + yy inv' * gradY;
                 xs = xs[i + 1 := xs ! i - stepX];
                 ys = ys[i + 1 := ys ! i - stepY];
                 zs = zs[i + 1 := ensureValue
                        (evaluateNumber (fn analysis) [''x'' \<mapsto> xs ! (i + 1), ''y'' \<mapsto> ys ! (i + 1)])
                        (zs ! i)]
             in (xs, ys, zs)))"

definition computeTrajectory2D :: "analysis2D \<Rightarrow> settings \<Rightarrow> error + trajectory2D" where
  "computeTrajectory2D analysis settings =
     (let n = (case numSteps settings of None \<Rightarrow> DEFAULT_NUM_STEPS | Some k \<Rightarrow> k) in
      case Array_fill (n + 1) (Num 0) of Inl e \<Rightarrow> Inl e | Inr xs \<Rightarrow>
      case Array_fill (n + 1) (Num 0) of Inl e \<Rightarrow> Inl e | Inr ys \<Rightarrow>
      case Array_fill (n + 1) (Num 0) of Inl e \<Rightarrow> Inl e | Inr zs \<Rightarrow>
      let xs = xs[0 := initialX settings];
          ys = ys[0 := initialY settings];
          zs = zs[0 := ensureValue
                 (evaluateNumber (fn analysis) [''x'' \<mapsto> xs ! 0, ''y'' \<mapsto> ys ! 0]) (Num 0)]
      in
        if optimiserType settings = ''Gradient Descent'' then
          (case for_loop 0 n (gradientDescent2D_body analysis settings) (xs, ys, zs) of
             (xs, ys, zs) \<Rightarrow> Inr \<lparr>traj_x = xs, traj_y = ys, traj_z = zs\<rparr>)
        else if optimiserType settings = ''Adam'' then
          (case for_loop 0 n (adam_body analysis settings) ((xs, ys, zs), Num 0, Num 0, Num 0, Num 0) of
             ((xs, ys, zs), mx, my, vx, vy) \<Rightarrow> Inr \<lparr>traj_x = xs, traj_y = ys, traj_z = zs\<rparr>)
        else if optimiserType settings = ''Newton'' then
          (case for_loop 0 n (newton2D_body analysis) (xs, ys, zs) of
             (xs, ys, zs) \<Rightarrow> Inr \<lparr>traj_x = xs, traj_y = ys, traj_z = zs\<rparr>)
        else Inl (UnsupportedOptimiserType (optimiserType settings)))"

section \<open>Notions the properties are stated with\<close>

text \<open>\<open>settings.numSteps ?? DEFAULT_NUM_STEPS\<close>.\<close>

definition numSteps_of :: "settings \<Rightarrow> nat" where
  "numSteps_of settings = (case numSteps settings of None \<Rightarrow> DEFAULT_NUM_STEPS | Some k \<Rightarrow> k)"

text \<open>
  The condition under which the loop of the selected optimiser copies the entries of
  index \<open>i\<close> to index \<open>i + 1\<close> and continues: the \<open>if\<close> that guards
  \<open>continue\<close> in each loop (two of them in the Newton loop in two variables).
\<close>

definition stalls1D :: "analysis1D \<Rightarrow> settings \<Rightarrow> jsnum list \<Rightarrow> nat \<Rightarrow> bool" where
  "stalls1D analysis settings xs i =
     (let gradVal = evaluateNumber (gradient analysis) [''x'' \<mapsto> xs ! i];
          hessVal = evaluateNumber (hessian analysis) [''x'' \<mapsto> xs ! i] in
      if optimiserType settings = ''Gradient Descent'' then \<not> isFinite gradVal
      else if optimiserType settings = ''Newton'' then
        \<not> isFinite gradVal \<or> \<not> isFinite hessVal \<or> \<bar>hessVal\<bar> < EPSILON
      else False)"

definition stalls2D :: "analysis2D \<Rightarrow> settings \<Rightarrow> jsnum list \<Rightarrow> jsnum list \<Rightarrow> nat \<Rightarrow> bool" where
  "stalls2D analysis settings xs ys i =
     (let gradX = evaluateNumber (grad_x (gradient analysis)) [''x'' \<mapsto> xs ! i, ''y'' \<mapsto> ys ! i];
          gradY = evaluateNumber (grad_y (gradient analysis)) [''x'' \<mapsto> xs ! i, ''y'' \<mapsto> ys ! i];
          hxx = evaluateNumber (hess_xx (hessian analysis)) [''x'' \<mapsto> xs ! i, ''y'' \<mapsto> ys ! i];
          hxy = evaluateNumber (hess_xy (hessian analysis)) [''x'' \<mapsto> xs ! i, ''y'' \<mapsto> ys ! i];
          hyx = evaluateNumber (hess_yx (hessian analysis)) [''x'' \<mapsto> xs ! i, ''y'' \<mapsto> ys ! i];
          hyy = evaluateNumber (hess_yy (hessian analysis)) [''x'' \<mapsto> xs ! i, ''y'' \<mapsto> ys ! i] in
      if optimiserType settings = ''Gradient Descent'' \<or> optimiserType settings = ''Adam''
      then \<not> isFinite gradX \<or> \<not> isFinite gradY
      else if optimiserType settings = ''Newton'' then
        (\<exists>v \<in> set [gradX, gradY, hxx, hxy, hyx, hyy]. \<not> isFinite v) \<or> invert2x2 hxx hxy hyx hyy = None
      else False)"

text \<open>
  The moments of Adam as the specification gives them, along a trajectory
  \<open>xs\<close>, \<open>ys\<close>: both are 0 before the first step; a step at which both
  partial derivatives are finite makes \<open>m\<close> into \<open>\<beta>1 m + (1 - \<beta>1) g\<close> and
  \<open>v\<close> into \<open>\<beta>2 v + (1 - \<beta>2) g\<^sup>2\<close> on each axis; any other step leaves them
  as they are. \<open>adam_moments_spec analysis settings xs ys i\<close> is
  \<open>(mx, my, vx, vy)\<close> after the steps \<open>0, ..., i - 1\<close>. The square is
  written as the two multiplications by \<open>g\<close>, in the order of the source.
\<close>

type_synonym moments = "jsnum \<times> jsnum \<times> jsnum \<times> jsnum"

fun adam_moments_spec :: "analysis2D \<Rightarrow> settings \<Rightarrow> jsnum list \<Rightarrow> jsnum list \<Rightarrow> nat \<Rightarrow> moments" where
  "adam_moments_spec analysis settings xs ys 0 = (Num 0, Num 0, Num 0, Num 0)"
| "adam_moments_spec analysis settings xs ys (Suc i) =
     (case adam_moments_spec analysis settings xs ys i of (mx, my, vx, vy) \<Rightarrow>
        let gX = evaluateNumber (grad_x (gradient analysis)) [''x'' \<mapsto> xs ! i, ''y'' \<mapsto> ys ! i];
            gY = evaluateNumber (grad_y (gradient analysis)) [''x'' \<mapsto> xs ! i, ''y'' \<mapsto> ys ! i]
        in if isFinite gX \<and> isFinite gY
           then (beta1 settings * mx + (Num 1 - beta1 settings) * gX,
                 beta1 settings * my + (Num 1 - beta1 settings) * gY,
                 beta2 settings * vx + (Num 1 - beta2 settings) * gX * gX,
                 beta2 settings * vy + (Num 1 - beta2 settings) * gY * gY)
           else (mx, my, vx, vy))"

text \<open>
  The denominator of a bias-corrected estimate at step \<open>i\<close>, for the decay rate
  \<open>\<beta>\<close>: the correction \<open>1 - \<beta> ** (i + 1)\<close> when its magnitude is greater
  than \<open>EPSILON\<close>, and \<open>EPSILON\<close> otherwise.
\<close>

definition correction_denominator :: "jsnum \<Rightarrow> nat \<Rightarrow> jsnum" where
  "correction_denominator \<beta> i =
     (let correction = Num 1 - js_pow \<beta> (i + 1) in
      if \<bar>correction\<bar> > EPSILON then correction else EPSILON)"

text \<open>
  The same denominator in the words of the specification: a correction whose magnitude
  is below \<open>EPSILON\<close> is replaced by \<open>EPSILON\<close>.
\<close>

definition correction_denominator_spec :: "jsnum \<Rightarrow> nat \<Rightarrow> jsnum" where
  "correction_denominator_spec \<beta> i =
     (let correction = Num 1 - js_pow \<beta> (i + 1) in
      if \<bar>correction\<bar> < EPSILON then EPSILON else correction)"

text \<open>
  What holds of the variables of the Adam loop before step \<open>j\<close>: the moments
  are the ones of the specification, and the body of every earlier step takes the
  arrays and the moments before that step to the same arrays and the moments after it.
\<close>

definition adam_inv :: "analysis2D \<Rightarrow> settings \<Rightarrow> nat \<Rightarrow> stateAdam \<Rightarrow> bool" where
  "adam_inv a s j st =
     (case st of ((xs, ys, zs), M) \<Rightarrow>
        M = adam_moments_spec a s xs ys j \<and>
        (\<forall>i<j. adam_body a s i ((xs, ys, zs), adam_moments_spec a s xs ys i) =
                 ((xs, ys, zs), adam_moments_spec a s xs ys (Suc i))))"

text \<open>
  Two states of a loop hold the same positions (and, for Adam, the same moments); the
  objectives may differ.
\<close>

definition same_positions1D :: "state1D \<Rightarrow> state1D \<Rightarrow> bool" where
  "same_positions1D u u' = (fst u = fst u')"

definition same_positions2D :: "state2D \<Rightarrow> state2D \<Rightarrow> bool" where
  "same_positions2D u u' = (fst u = fst u' \<and> fst (snd u) = fst (snd u'))"

definition same_positionsAdam :: "stateAdam \<Rightarrow> stateAdam \<Rightarrow> bool" where
  "same_positionsAdam u u' = (same_positions2D (fst u) (fst u') \<and> snd u = snd u')"

section \<open>Example inputs\<close>

text \<open>
  What \<open>analyzeFunction1D\<close> makes of \<open>x^2\<close> and of \<open>x\<close>, and
  \<open>analyzeFunction2D\<close> of \<open>x + y\<close> and of \<open>x^2 + y^2\<close>: the function,
  its derivative(s) and its second derivative(s). An evaluator throws when the scope
  lacks a variable it reads.
\<close>

definition lift1 :: "(jsnum \<Rightarrow> jsnum) \<Rightarrow> compiled" where
  "lift1 f scope = (case scope ''x'' of None \<Rightarrow> Throws | Some u \<Rightarrow> Returns (JSNumber (f u)))"

definition lift2 :: "(jsnum \<Rightarrow> jsnum \<Rightarrow> jsnum) \<Rightarrow> compiled" where
  "lift2 f scope =
     (case scope ''x'' of None \<Rightarrow> Throws
      | Some u \<Rightarrow> (case scope ''y'' of None \<Rightarrow> Throws | Some v \<Rightarrow> Returns (JSNumber (f u v))))"

definition returning :: "jsvalue \<Rightarrow> compiled" where
  "returning val scope = Returns val"

definition always :: "jsnum \<Rightarrow> compiled" where
  "always c scope = Returns (JSNumber c)"

definition throwing :: compiled where
  "throwing scope = Throws"

definition square1D :: analysis1D where
  "square1D = \<lparr>fn = lift1 (\<lambda>u. u * u), gradient = lift1 (\<lambda>u. Num 2 * u), hessian = always (Num 2)\<rparr>"

definition linear1D :: analysis1D where
  "linear1D = \<lparr>fn = lift1 (\<lambda>u. u), gradient = always (Num 1), hessian = always (Num 0)\<rparr>"

definition plane2D :: analysis2D where
  "plane2D =
     \<lparr>fn = lift2 (\<lambda>u v. u + v),
      gradient = \<lparr>grad_x = always (Num 1), grad_y = always (Num 1)\<rparr>,
      hessian = \<lparr>hess_xx = always (Num 0), hess_xy = always (Num 0),
                 hess_yx = always (Num 0), hess_yy = always (Num 0)\<rparr>\<rparr>"

definition bowl2D :: analysis2D where
  "bowl2D =
     \<lparr>fn = lift2 (\<lambda>u v. u * u + v * v),
      gradient = \<lparr>grad_x = lift2 (\<lambda>u v. Num 2 * u), grad_y = lift2 (\<lambda>u v. Num 2 * v)\<rparr>,
      hessian = \<lparr>hess_xx = always (Num 2), hess_xy = always (Num 0),
                 hess_yx = always (Num 0), hess_yy = always (Num 2)\<rparr>\<rparr>"

text \<open>
  Settings for one step of gradient descent without momentum; every number in them is a
  binary64 value.
\<close>

definition one_step :: settings where
  "one_step =
     \<lparr>optimiserType = ''Gradient Descent'', initialX = Num (1 / 2), initialY = Num (1 / 2),
      learningRate = Num (1 / 8), momentum = Num 0, beta1 = Num (1 / 2),
      beta2 = Num (1 / 2), numSteps = Some 1\<rparr>"

section \<open>Properties of the arithmetic\<close>

subsection \<open>Powers of two\<close>

lemmas r64 = round64_def exponent64_def floor_log2_def log2_ge1.simps log2_lt1.simps
  round_half_even_def pow2_def

lemma pow2_powi: "pow2 e = 2 powi e"
  by (simp add: pow2_def power_int_def power_one_over inverse_eq_divide)

lemma pow2_pos [simp]: "0 < pow2 e"
  by (simp add: pow2_powi)

lemma pow2_nonneg [simp]: "0 \<le> pow2 e"
  using pow2_pos[of e] by linarith

lemma pow2_ne_0 [simp]: "pow2 e \<noteq> 0"
  using pow2_pos[of e] by linarith

lemma pow2_abs [simp]: "\<bar>pow2 e\<bar> = pow2 e"
  by simp

lemma pow2_add: "pow2 (a + b) = pow2 a * pow2 b"
  by (simp add: pow2_powi power_int_add)

lemma pow2_diff: "pow2 (a - b) = pow2 a / pow2 b"
  by (simp add: pow2_powi power_int_diff)

lemma pow2_less_iff [simp]: "pow2 a < pow2 b \<longleftrightarrow> a < b"
proof
  assume "a < b"
  then show "pow2 a < pow2 b"
    unfolding pow2_powi by (rule power_int_strict_increasing) simp
next
  assume l: "pow2 a < pow2 b"
  show "a < b"
  proof (rule ccontr)
    assume "\<not> a < b"
    then have "b \<le> a" by simp
    then have "pow2 b \<le> pow2 a"
      unfolding pow2_powi by (rule power_int_increasing) simp
    then show False using l by simp
  qed
qed

lemma pow2_le_iff [simp]: "pow2 a \<le> pow2 b \<longleftrightarrow> a \<le> b"
  using pow2_less_iff[of b a] by (simp only: not_less[symmetric])

lemma pow2_Suc: "pow2 (e + 1) = 2 * pow2 e"
  by (simp add: pow2_add[of e 1] pow2_def[of 1])

lemma pow2_pred: "pow2 (e - 1) = pow2 e / 2"
  by (simp add: pow2_diff[of e 1] pow2_def[of 1])

lemma pow2_nat: "pow2 (int n) = 2 ^ n"
  by (simp add: pow2_def)

lemma pow2_of_int: "0 \<le> e \<Longrightarrow> pow2 e = of_int (2 ^ nat e)"
  by (simp add: pow2_def)

subsection \<open>The exponent\<close>

lemma log2_ge1_bounds: "1 \<le> x \<Longrightarrow> pow2 (log2_ge1 x) \<le> x \<and> x < pow2 (log2_ge1 x + 1)"
proof (induction x rule: log2_ge1.induct)
  case (1 x)
  show ?case
  proof (cases "x < 2")
    case True
    then have "log2_ge1 x = 0" by (simp add: log2_ge1.simps)
    then show ?thesis using True "1.prems" by (simp add: pow2_def)
  next
    case False
    then have l: "log2_ge1 x = log2_ge1 (x / 2) + 1" by (subst log2_ge1.simps) simp
    have "pow2 (log2_ge1 (x / 2)) \<le> x / 2 \<and> x / 2 < pow2 (log2_ge1 (x / 2) + 1)"
      using "1.IH"[OF False] False by simp
    moreover have "pow2 (log2_ge1 (x / 2) + 1) = 2 * pow2 (log2_ge1 (x / 2))"
      "pow2 (log2_ge1 (x / 2) + 1 + 1) = 2 * pow2 (log2_ge1 (x / 2) + 1)"
      by (rule pow2_Suc)+
    ultimately have "pow2 (log2_ge1 (x / 2) + 1) \<le> x \<and> x < pow2 (log2_ge1 (x / 2) + 1 + 1)"
      by linarith
    then show ?thesis by (simp only: l)
  qed
qed

lemma log2_lt1_bounds:
  "0 < x \<Longrightarrow> x < 1 \<Longrightarrow> pow2 (log2_lt1 x) \<le> x \<and> x < pow2 (log2_lt1 x + 1)"
proof (induction x rule: log2_lt1.induct)
  case (1 x)
  have c: "\<not> (x \<le> 0 \<or> 1 \<le> x)" using "1.prems" by simp
  then have l: "log2_lt1 x = log2_lt1 (2 * x) - 1" by (subst log2_lt1.simps) simp
  show ?case
  proof (cases "2 * x < 1")
    case True
    have "pow2 (log2_lt1 (2 * x)) \<le> 2 * x \<and> 2 * x < pow2 (log2_lt1 (2 * x) + 1)"
      using "1.IH"[OF c] True "1.prems" by simp
    moreover have "pow2 (log2_lt1 (2 * x) - 1) = pow2 (log2_lt1 (2 * x)) / 2"
      by (rule pow2_pred)
    moreover have "pow2 (log2_lt1 (2 * x) - 1 + 1) = 2 * pow2 (log2_lt1 (2 * x) - 1)"
      by (rule pow2_Suc)
    moreover have "pow2 (log2_lt1 (2 * x) + 1) = 2 * pow2 (log2_lt1 (2 * x))"
      by (rule pow2_Suc)
    ultimately have "pow2 (log2_lt1 (2 * x) - 1) \<le> x \<and> x < pow2 (log2_lt1 (2 * x) - 1 + 1)"
      by linarith
    then show ?thesis by (simp only: l)
  next
    case False
    then have "log2_lt1 (2 * x) = 0" by (simp add: log2_lt1.simps)
    then have "log2_lt1 x = - 1" using l by simp
    then show ?thesis
      using False "1.prems" by (simp add: pow2_def)
  qed
qed

lemma floor_log2_bounds:
  "0 < x \<Longrightarrow> pow2 (floor_log2 x) \<le> x \<and> x < pow2 (floor_log2 x + 1)"
  using log2_ge1_bounds[of x] log2_lt1_bounds[of x] by (simp add: floor_log2_def)

lemma exponent64_ge: "- 1022 \<le> exponent64 x"
  by (simp add: exponent64_def)

lemma exponent64_upper: "\<bar>x\<bar> < pow2 (exponent64 x + 1)"
proof (cases "x = 0")
  case True
  then show ?thesis by simp
next
  case False
  then have "\<bar>x\<bar> < pow2 (floor_log2 \<bar>x\<bar> + 1)" using floor_log2_bounds[of "\<bar>x\<bar>"] by simp
  also have "\<dots> \<le> pow2 (exponent64 x + 1)" by (simp add: exponent64_def)
  finally show ?thesis .
qed

lemma exponent64_lower:
  assumes "pow2 j \<le> \<bar>x\<bar>" and "- 1022 \<le> j"
  shows "j \<le> exponent64 x \<and> pow2 (exponent64 x) \<le> \<bar>x\<bar>"
proof -
  have x: "0 < \<bar>x\<bar>" using assms(1) pow2_pos[of j] by linarith
  have b: "pow2 (floor_log2 \<bar>x\<bar>) \<le> \<bar>x\<bar>" "\<bar>x\<bar> < pow2 (floor_log2 \<bar>x\<bar> + 1)"
    using floor_log2_bounds[OF x] by simp_all
  have "pow2 j < pow2 (floor_log2 \<bar>x\<bar> + 1)" using assms(1) b(2) by linarith
  then have "j \<le> floor_log2 \<bar>x\<bar>" by simp
  then have "exponent64 x = floor_log2 \<bar>x\<bar>" using assms(2) by (simp add: exponent64_def)
  then show ?thesis using b(1) \<open>j \<le> floor_log2 \<bar>x\<bar>\<close> by simp
qed

subsection \<open>Rounding to an integer\<close>

lemma round_half_even_of_int [simp]: "round_half_even (of_int k) = k"
  by (simp add: round_half_even_def)

lemma round_half_even_bounds: "\<lfloor>q\<rfloor> \<le> round_half_even q \<and> round_half_even q \<le> \<lceil>q\<rceil>"
proof -
  have "q - of_int \<lfloor>q\<rfloor> \<noteq> 0 \<Longrightarrow> \<lfloor>q\<rfloor> + 1 \<le> \<lceil>q\<rceil>" by linarith
  then show ?thesis by (auto simp add: round_half_even_def Let_def)
qed

lemma round_half_even_ge: "of_int N \<le> q \<Longrightarrow> N \<le> round_half_even q"
  using round_half_even_bounds[of q] by (meson le_floor_iff order_trans)

lemma round_half_even_le: "q \<le> of_int N \<Longrightarrow> round_half_even q \<le> N"
  using round_half_even_bounds[of q] by (meson ceiling_le_iff order_trans)

lemma round_half_even_abs_le:
  assumes "\<bar>q\<bar> \<le> of_int N"
  shows "\<bar>round_half_even q\<bar> \<le> N"
proof -
  have "of_int (- N) \<le> q" "q \<le> of_int N" using assms by simp_all
  then have "- N \<le> round_half_even q" "round_half_even q \<le> N"
    using round_half_even_ge[of "- N" q] round_half_even_le[of q N] by blast+
  then show ?thesis by simp
qed

lemma round_half_even_abs_ge:
  assumes "of_int N \<le> \<bar>q\<bar>" and "0 \<le> N"
  shows "N \<le> \<bar>round_half_even q\<bar>"
proof (cases "0 \<le> q")
  case True
  then have "of_int N \<le> q" using assms by simp
  then have "N \<le> round_half_even q" by (rule round_half_even_ge)
  then show ?thesis by simp
next
  case False
  then have "q \<le> of_int (- N)" using assms by simp
  then have "round_half_even q \<le> - N" by (rule round_half_even_le)
  then show ?thesis by simp
qed

subsection \<open>Rounding\<close>

lemma round64_Num:
  assumes "round64 x = Num y"
  shows "y = of_int (round_half_even (x / pow2 (exponent64 x - 52))) * pow2 (exponent64 x - 52)"
    and "\<bar>y\<bar> < pow2 1024"
  using assms by (simp_all add: round64_def Let_def split: if_splits)

lemma quotient_less: "\<bar>x / pow2 (exponent64 x - 52)\<bar> < 2 ^ 53"
proof -
  have "\<bar>x\<bar> < pow2 (exponent64 x + 1)" by (rule exponent64_upper)
  also have "exponent64 x + 1 = (exponent64 x - 52) + 53" by simp
  also have "pow2 \<dots> = pow2 (exponent64 x - 52) * 2 ^ 53"
    by (simp only: pow2_add) (simp add: pow2_def)
  finally show ?thesis by (simp add: pos_divide_less_eq mult.commute)
qed

lemma round64_dyadic:
  assumes m: "\<bar>m\<bar> < 2 ^ 53" and k: "- 1074 \<le> k"
    and b: "\<bar>of_int m * pow2 k\<bar> < pow2 1024"
  shows "round64 (of_int m * pow2 k) = Num (of_int m * pow2 k)"
proof (cases "m = 0")
  case True
  then show ?thesis by (simp add: r64)
next
  case False
  define x where "x = of_int m * pow2 k"
  define e where "e = exponent64 x"
  have x0: "0 < \<bar>x\<bar>" using False by (simp add: x_def)
  have "\<bar>x\<bar> = of_int \<bar>m\<bar> * pow2 k" by (simp add: x_def abs_mult)
  also have "\<dots> < 2 ^ 53 * pow2 k"
  proof -
    have "real_of_int \<bar>m\<bar> < 2 ^ 53" using m by (metis of_int_less_numeral_power_cancel_iff)
    then show ?thesis by simp
  qed
  also have "\<dots> = pow2 (k + 53)" by (simp only: pow2_add) (simp add: pow2_def)
  finally have u: "\<bar>x\<bar> < pow2 (k + 53)" .
  have "pow2 (floor_log2 \<bar>x\<bar>) \<le> \<bar>x\<bar>" using floor_log2_bounds[OF x0] by simp
  then have "pow2 (floor_log2 \<bar>x\<bar>) < pow2 (k + 53)" using u by linarith
  then have "floor_log2 \<bar>x\<bar> < k + 53" by simp
  then have ek: "e - 52 \<le> k" using k by (simp add: e_def exponent64_def)
  define d where "d = nat (k - (e - 52))"
  have kd: "k = (e - 52) + int d" using ek by (simp add: d_def)
  have q: "x / pow2 (e - 52) = of_int (m * 2 ^ d)"
    by (simp add: x_def kd pow2_add pow2_nat)
  have y: "of_int (round_half_even (x / pow2 (e - 52))) * pow2 (e - 52) = x"
    unfolding q round_half_even_of_int by (simp add: x_def kd pow2_add pow2_nat)
  show ?thesis
    using b y unfolding round64_def Let_def x_def[symmetric] e_def[symmetric]
    by (simp add: not_le[symmetric])
qed

lemma round64_representable:
  assumes "round64 x = Num y"
  shows "\<exists>m k. \<bar>m\<bar> < 2 ^ 53 \<and> - 1074 \<le> k \<and> y = of_int m * pow2 k"
proof -
  define e where "e = exponent64 x"
  define r where "r = round_half_even (x / pow2 (e - 52))"
  have y: "y = of_int r * pow2 (e - 52)"
    using round64_Num(1)[OF assms] by (simp add: r_def e_def)
  have e: "- 1022 \<le> e" by (simp add: e_def exponent64_ge)
  have "\<bar>x / pow2 (e - 52)\<bar> \<le> of_int (2 ^ 53)"
    using quotient_less[of x] by (simp add: e_def)
  then have r: "\<bar>r\<bar> \<le> 2 ^ 53" unfolding r_def by (rule round_half_even_abs_le)
  show ?thesis
  proof (cases "\<bar>r\<bar> < 2 ^ 53")
    case True
    then show ?thesis using y e by (intro exI[of _ r] exI[of _ "e - 52"]) simp
  next
    case False
    then have "\<bar>r\<bar> = 2 ^ 53" using r by simp
    then have "r = 2 ^ 53 \<or> r = - (2 ^ 53)" by linarith
    then have "r = 2 * (r div 2)" "\<bar>r div 2\<bar> < 2 ^ 53" by auto
    moreover have "pow2 (e - 51) = 2 * pow2 (e - 52)"
      using pow2_Suc[of "e - 52"] by simp
    ultimately have "y = of_int (r div 2) * pow2 (e - 51)"
      using y by (metis mult.assoc mult.commute of_int_mult of_int_numeral)
    then show ?thesis using \<open>\<bar>r div 2\<bar> < 2 ^ 53\<close> e
      by (intro exI[of _ "r div 2"] exI[of _ "e - 51"]) simp
  qed
qed

lemma round64_idem:
  assumes "round64 x = Num y"
  shows "round64 y = Num y"
proof -
  obtain m k where "\<bar>m\<bar> < 2 ^ 53" "- 1074 \<le> k" "y = of_int m * pow2 k"
    using round64_representable[OF assms] by blast
  then show ?thesis
    using round64_dyadic[of m k] round64_Num(2)[OF assms] by simp
qed

lemma round64_abs_ge:
  assumes j: "pow2 j \<le> \<bar>x\<bar>" "- 1022 \<le> j" and r: "round64 x = Num y"
  shows "pow2 j \<le> \<bar>y\<bar>"
proof -
  define e where "e = exponent64 x"
  have e: "j \<le> e" "pow2 e \<le> \<bar>x\<bar>" using exponent64_lower[OF j] by (simp_all add: e_def)
  have "pow2 e = pow2 (e - 52) * of_int (2 ^ 52)"
    using pow2_add[of "e - 52" 52] by (simp add: pow2_def)
  then have "of_int (2 ^ 52) \<le> \<bar>x / pow2 (e - 52)\<bar>"
    using e(2) by (simp add: pos_le_divide_eq mult.commute)
  then have "2 ^ 52 \<le> \<bar>round_half_even (x / pow2 (e - 52))\<bar>"
    by (rule round_half_even_abs_ge) simp
  then have "real_of_int (2 ^ 52) \<le> real_of_int \<bar>round_half_even (x / pow2 (e - 52))\<bar>"
    by (simp only: of_int_le_iff)
  then have "of_int (2 ^ 52) * pow2 (e - 52) \<le> \<bar>y\<bar>"
    using round64_Num(1)[OF r] by (simp add: e_def abs_mult)
  then have "pow2 e \<le> \<bar>y\<bar>"
    using \<open>pow2 e = pow2 (e - 52) * of_int (2 ^ 52)\<close> by (simp add: mult.commute)
  moreover have "pow2 j \<le> pow2 e" using e(1) by simp
  ultimately show ?thesis by linarith
qed

text \<open>
  No difference \<open>1 - p\<close> of binary64 values rounds to an odd multiple of
  \<open>2 ^ - 82\<close> of magnitude below \<open>1 / 2\<close>: if the rounded difference is that
  small, \<open>p\<close> is above \<open>1 / 2\<close> and so a multiple of \<open>2 ^ - 53\<close>, and
  the difference is exact.
\<close>

lemma one_minus_not_odd:
  assumes p: "round64 u = Num p" and M: "odd M" "\<bar>M\<bar> < 2 ^ 81"
  shows "round64 (1 - p) \<noteq> Num (of_int M / 2 ^ 82)"
proof
  assume r: "round64 (1 - p) = Num (of_int M / 2 ^ 82)"
  have small: "\<bar>real_of_int M / 2 ^ 82\<bar> < pow2 (- 1)"
  proof -
    have "real_of_int \<bar>M\<bar> < 2 ^ 81" using M(2) by (metis of_int_less_numeral_power_cancel_iff)
    then show ?thesis by (simp add: pow2_def abs_divide)
  qed
  have x: "\<bar>1 - p\<bar> < 1 / 2"
  proof (rule ccontr)
    assume "\<not> \<bar>1 - p\<bar> < 1 / 2"
    then have "pow2 (- 1) \<le> \<bar>1 - p\<bar>" by (simp add: pow2_def)
    then have "pow2 (- 1) \<le> \<bar>real_of_int M / 2 ^ 82\<bar>"
      using round64_abs_ge[OF _ _ r, of "- 1"] by simp
    then show False using small by simp
  qed
  obtain m k where mk: "\<bar>m\<bar> < 2 ^ 53" "- 1074 \<le> k" "p = of_int m * pow2 k"
    using round64_representable[OF p] by blast
  have k: "- 53 \<le> k"
  proof (rule ccontr)
    assume "\<not> - 53 \<le> k"
    then have "k + 53 \<le> - 1" by simp
    have "\<bar>p\<bar> = of_int \<bar>m\<bar> * pow2 k" by (simp add: mk(3) abs_mult)
    also have "\<dots> \<le> 2 ^ 53 * pow2 k"
    proof -
      have "real_of_int \<bar>m\<bar> \<le> 2 ^ 53" using mk(1) by (metis less_imp_le of_int_le_numeral_power_cancel_iff)
      then show ?thesis by simp
    qed
    also have "\<dots> = pow2 (k + 53)" by (simp only: pow2_add) (simp add: pow2_def)
    also have "\<dots> \<le> pow2 (- 1)" using \<open>k + 53 \<le> - 1\<close> by (simp only: pow2_le_iff)
    finally have "\<bar>p\<bar> \<le> 1 / 2" by (simp add: pow2_def)
    then show False using x by linarith
  qed
  define d where "d = nat (k + 53)"
  have kd: "k = int d + (- 53)" using k by (simp add: d_def)
  define j where "j = 2 ^ 53 - m * 2 ^ d"
  have pk: "pow2 k = 2 ^ d * pow2 (- 53)"
    unfolding kd by (simp only: pow2_add pow2_nat)
  have xj: "1 - p = of_int j * pow2 (- 53)"
    by (simp add: j_def mk(3) pk) (simp add: pow2_def field_simps)
  have "\<bar>real_of_int j\<bar> * pow2 (- 53) = \<bar>1 - p\<bar>" by (simp add: xj abs_mult)
  also note x
  finally have "\<bar>real_of_int j\<bar> * pow2 (- 53) < 1 / 2" .
  then have "\<bar>real_of_int j\<bar> < 2 ^ 52" by (simp add: pow2_def)
  then have "real_of_int \<bar>j\<bar> < real_of_int (2 ^ 53)" by simp
  then have jb: "\<bar>j\<bar> < 2 ^ 53" by (simp only: of_int_less_iff)
  have "\<bar>of_int j * pow2 (- 53)\<bar> < pow2 1024"
  proof -
    have "\<bar>of_int j * pow2 (- 53)\<bar> = \<bar>1 - p\<bar>" by (simp only: xj)
    also note x
    also have "1 / 2 = pow2 (- 1)" by (simp add: pow2_def)
    finally have "\<bar>of_int j * pow2 (- 53)\<bar> < pow2 (- 1)" .
    moreover have "pow2 (- 1) < pow2 1024" by (simp only: pow2_less_iff)
    ultimately show ?thesis by linarith
  qed
  then have "round64 (1 - p) = Num (1 - p)"
    using round64_dyadic[of j "- 53"] jb by (simp add: xj)
  then have "of_int j * pow2 (- 53) = real_of_int M / 2 ^ 82" using r by (simp add: xj)
  then have "real_of_int j * 2 ^ 29 = real_of_int M" by (simp add: pow2_def field_simps)
  then have "real_of_int (j * 2 ^ 29) = real_of_int M" by simp
  then have "j * 2 ^ 29 = M" by (simp only: of_int_eq_iff)
  then show False using M(1) by auto
qed


subsection \<open>Numbers\<close>

lemma round64_0 [simp]: "round64 0 = Num 0"
  by (simp add: r64)

lemma round64_ne_NaN [simp]: "round64 x \<noteq> NaN"
  by (simp add: round64_def Let_def)

lemma Num_minus_Num [simp]: "Num a - Num b = round64 (a - b)"
  by (simp add: minus_jsnum_def)

text \<open>Adding 0 to the result of an addition or a subtraction leaves it as it is.\<close>

lemma plus_plus_Num_0: "u + v + Num 0 = u + v"
proof (cases "u + v")
  case (Num y)
  then obtain a b where "u = Num a" "v = Num b" by (cases u; cases v) simp_all
  then have "round64 (a + b) = Num y" using Num by simp
  then have "round64 y = Num y" by (rule round64_idem)
  then show ?thesis by (simp add: Num)
qed simp_all

lemma minus_plus_Num_0: "u - v + Num 0 = u - v"
  by (simp add: minus_jsnum_def plus_plus_Num_0)

lemma Num_0_times: "isFinite d \<Longrightarrow> Num 0 * d = Num 0"
  by (cases d) simp_all

lemma isFinite_times: "isFinite (u * v) \<Longrightarrow> isFinite u \<and> isFinite v"
  by (cases u; cases v) (auto simp add: infinity_of_sign_def split: if_splits)

lemma isFinite_minus: "isFinite (u - v) \<Longrightarrow> isFinite u \<and> isFinite v"
  by (cases u; cases v) (simp_all add: minus_jsnum_def)

lemma EPSILON_value: "EPSILON = Num (4835703278458517 / 2 ^ 82)"
  by (simp add: EPSILON_def r64)

lemma ADAM_EPSILON_value: "ADAM_EPSILON = Num (3022314549036573 / 2 ^ 78)"
  by (simp add: ADAM_EPSILON_def r64)

text \<open>
  \<open>EPSILON\<close> is an odd multiple of \<open>2 ^ - 82\<close>, so no correction
  \<open>1 - \<beta> ** (i + 1)\<close> is \<open>- EPSILON\<close>, and the two denominators
  agree unless \<open>\<beta>\<close> is NaN.
\<close>

lemma correction_ne_minus_EPSILON:
  assumes "round64 u = Num p"
  shows "round64 (1 - p) \<noteq> Num (- (4835703278458517 / 2 ^ 82))"
  using one_minus_not_odd[OF assms, of "- 4835703278458517"] by simp

lemma denominators_Num:
  assumes "round64 u = Num p"
  shows "(let correction = Num 1 - Num p in if \<bar>correction\<bar> > EPSILON then correction else EPSILON) =
         (let correction = Num 1 - Num p in if \<bar>correction\<bar> < EPSILON then EPSILON else correction)"
proof (cases "round64 (1 - p)")
  case (Num r)
  have "r \<noteq> - (4835703278458517 / 2 ^ 82)"
    using correction_ne_minus_EPSILON[OF assms] Num by simp
  then show ?thesis
    unfolding Let_def Num_minus_Num Num EPSILON_value by (auto simp add: abs_if)
qed (simp_all add: Let_def EPSILON_value)

lemma correction_denominator_eq:
  assumes "\<beta> \<noteq> NaN"
  shows "correction_denominator \<beta> i = correction_denominator_spec \<beta> i"
proof (cases \<beta>)
  case (Num a)
  show ?thesis
  proof (cases "round64 (a ^ Suc i)")
    case (Num p)
    then show ?thesis
      using denominators_Num[OF Num] \<open>\<beta> = Num a\<close>
      by (simp add: correction_denominator_def correction_denominator_spec_def)
  qed (simp_all add: \<open>\<beta> = Num a\<close> correction_denominator_def correction_denominator_spec_def
        minus_jsnum_def EPSILON_value)
qed (use assms in \<open>simp_all add: correction_denominator_def correction_denominator_spec_def
        minus_jsnum_def EPSILON_value\<close>)

text \<open>With the decay rate NaN the moment is NaN, and so is every quotient of it.\<close>

lemma divide_correction_denominator:
  "(\<beta> * u + w) / correction_denominator \<beta> i = (\<beta> * u + w) / correction_denominator_spec \<beta> i"
proof (cases "\<beta> = NaN")
  case True
  then show ?thesis by simp
next
  case False
  then show ?thesis by (simp add: correction_denominator_eq)
qed

section \<open>The loops, step by step\<close>

text \<open>
  Every loop body of index \<open>j\<close> writes the entries of index \<open>j + 1\<close> and
  reads entries of index at most \<open>j\<close>. So the arrays a loop ends with are left
  as they are by every one of its bodies: each entry is what the body of the step before
  it computes from the entries before it.
\<close>

lemma for_loop_invariant:
  assumes "P i st" and "i \<le> n"
    and "\<And>j s. i \<le> j \<Longrightarrow> j < n \<Longrightarrow> P j s \<Longrightarrow> P (Suc j) (body j s)"
  shows "P n (for_loop i n body st)"
  using assms
proof (induction i n body st rule: for_loop.induct)
  case (1 i n body st)
  show ?case
  proof (cases "i < n")
    case True
    have "P n (for_loop (i + 1) n body (body i st))"
    proof (rule "1.IH"[OF True])
      show "P (i + 1) (body i st)" using "1.prems"(3)[of i st] True "1.prems"(1) by simp
      show "i + 1 \<le> n" using True by simp
      show "\<And>j s. i + 1 \<le> j \<Longrightarrow> j < n \<Longrightarrow> P j s \<Longrightarrow> P (Suc j) (body j s)"
        using "1.prems"(3) by simp
    qed
    then show ?thesis using True by (subst for_loop.simps) simp
  next
    case False
    then have "i = n" using "1.prems"(2) by simp
    then show ?thesis using "1.prems"(1) by (subst for_loop.simps) simp
  qed
qed

lemma for_loop_fixpoints:
  assumes idem: "\<And>j st. body j (body j st) = body j st"
    and pres: "\<And>i j st. i < j \<Longrightarrow> body i st = st \<Longrightarrow> body i (body j st) = body j st"
  shows "\<forall>i<n. body i (for_loop 0 n body st) = for_loop 0 n body st"
proof -
  have "(\<lambda>j s. \<forall>i<j. body i s = s) n (for_loop 0 n body st)"
  proof (rule for_loop_invariant)
    fix j s assume "\<forall>i<j. body i s = s"
    then show "\<forall>i<Suc j. body i (body j s) = body j s"
      using idem pres by (auto simp: less_Suc_eq)
  qed simp_all
  then show ?thesis .
qed

lemma list_update_fix_nth: "xs[k := v] = xs \<Longrightarrow> k < length xs \<Longrightarrow> xs ! k = v"
  by (metis nth_list_update_eq)

lemmas gd1 = gradientDescent1D_body.simps
lemmas nw1 = newton1D_body.simps
lemmas gd2 = gradientDescent2D_body.simps
lemmas nw2 = newton2D_body.simps
lemmas adam = adam_body.simps
declare gradientDescent1D_body.simps [simp del] newton1D_body.simps [simp del]
  gradientDescent2D_body.simps [simp del] newton2D_body.simps [simp del] adam_body.simps [simp del]

subsection \<open>The loop bodies write one entry and read the ones before it\<close>

text \<open>Gradient descent in one variable.\<close>

lemma gd1_body_shape:
  "\<exists>v w. gradientDescent1D_body a s j (xs, ys) = (xs[Suc j := v], ys[Suc j := w])"
  by (auto simp add: gd1 Let_def)

lemma gd1_body_upd:
  assumes "Suc j < k"
  shows "gradientDescent1D_body a s j (xs[k := v], ys[k := w]) =
     (case gradientDescent1D_body a s j (xs, ys) of (xs', ys') \<Rightarrow> (xs'[k := v], ys'[k := w]))"
proof -
  have ne: "k \<noteq> j" "k \<noteq> Suc j" "k \<noteq> j - 1" using assms by auto
  show ?thesis
    using ne by (simp add: gd1 Let_def list_update_swap[of k "Suc j"])
qed

lemma gd1_body_idem:
  "gradientDescent1D_body a s j (gradientDescent1D_body a s j st) = gradientDescent1D_body a s j st"
  by (cases st) (simp add: gd1 Let_def)

lemma gd1_body_fix_pres:
  assumes "i < j" and "gradientDescent1D_body a s i st = st"
  shows "gradientDescent1D_body a s i (gradientDescent1D_body a s j st) = gradientDescent1D_body a s j st"
proof -
  obtain xs ys where st: "st = (xs, ys)" by (cases st)
  obtain v w where b: "gradientDescent1D_body a s j (xs, ys) = (xs[Suc j := v], ys[Suc j := w])"
    using gd1_body_shape by blast
  show ?thesis
    using assms gd1_body_upd[of i "Suc j" a s xs v ys w] by (simp add: st b)
qed

text \<open>Newton in one variable.\<close>

lemma nw1_body_shape:
  "\<exists>v w. newton1D_body a j (xs, ys) = (xs[Suc j := v], ys[Suc j := w])"
  by (auto simp add: nw1 Let_def)

lemma nw1_body_upd:
  assumes "Suc j < k"
  shows "newton1D_body a j (xs[k := v], ys[k := w]) =
     (case newton1D_body a j (xs, ys) of (xs', ys') \<Rightarrow> (xs'[k := v], ys'[k := w]))"
proof -
  have ne: "k \<noteq> j" "k \<noteq> Suc j" using assms by auto
  show ?thesis
    using ne by (simp add: nw1 Let_def list_update_swap[of k "Suc j"])
qed

lemma nw1_body_idem:
  "newton1D_body a j (newton1D_body a j st) = newton1D_body a j st"
  by (cases st) (simp add: nw1 Let_def)

lemma nw1_body_fix_pres:
  assumes "i < j" and "newton1D_body a i st = st"
  shows "newton1D_body a i (newton1D_body a j st) = newton1D_body a j st"
proof -
  obtain xs ys where st: "st = (xs, ys)" by (cases st)
  obtain v w where b: "newton1D_body a j (xs, ys) = (xs[Suc j := v], ys[Suc j := w])"
    using nw1_body_shape by blast
  show ?thesis
    using assms nw1_body_upd[of i "Suc j" a xs v ys w] by (simp add: st b)
qed

text \<open>Gradient descent in two variables.\<close>

lemma gd2_body_shape:
  "\<exists>u v w. gradientDescent2D_body a s j (xs, ys, zs) = (xs[Suc j := u], ys[Suc j := v], zs[Suc j := w])"
  by (auto simp add: gd2 Let_def)

lemma gd2_body_upd:
  assumes "Suc j < k"
  shows "gradientDescent2D_body a s j (xs[k := u], ys[k := v], zs[k := w]) =
     (case gradientDescent2D_body a s j (xs, ys, zs) of (xs', ys', zs') \<Rightarrow> (xs'[k := u], ys'[k := v], zs'[k := w]))"
proof -
  have ne: "k \<noteq> j" "k \<noteq> Suc j" "k \<noteq> j - 1" using assms by auto
  show ?thesis
    using ne by (simp add: gd2 Let_def list_update_swap[of k "Suc j"])
qed

lemma gd2_body_idem:
  "gradientDescent2D_body a s j (gradientDescent2D_body a s j st) = gradientDescent2D_body a s j st"
  by (cases st) (simp add: gd2 Let_def)

lemma gd2_body_fix_pres:
  assumes "i < j" and "gradientDescent2D_body a s i st = st"
  shows "gradientDescent2D_body a s i (gradientDescent2D_body a s j st) = gradientDescent2D_body a s j st"
proof -
  obtain xs ys zs where st: "st = (xs, ys, zs)" by (cases st)
  obtain u v w where b: "gradientDescent2D_body a s j (xs, ys, zs) = (xs[Suc j := u], ys[Suc j := v], zs[Suc j := w])"
    using gd2_body_shape by blast
  show ?thesis
    using assms gd2_body_upd[of i "Suc j" a s xs u ys v zs w] by (simp add: st b)
qed

text \<open>Newton in two variables.\<close>

lemma nw2_body_shape:
  "\<exists>u v w. newton2D_body a j (xs, ys, zs) = (xs[Suc j := u], ys[Suc j := v], zs[Suc j := w])"
  by (auto simp add: nw2 Let_def split: option.splits)

lemma nw2_body_upd:
  assumes "Suc j < k"
  shows "newton2D_body a j (xs[k := u], ys[k := v], zs[k := w]) =
     (case newton2D_body a j (xs, ys, zs) of (xs', ys', zs') \<Rightarrow> (xs'[k := u], ys'[k := v], zs'[k := w]))"
proof -
  have ne: "k \<noteq> j" "k \<noteq> Suc j" using assms by auto
  show ?thesis
    using ne by (simp add: nw2 Let_def list_update_swap[of k "Suc j"] split: option.splits)
qed

lemma nw2_body_idem:
  "newton2D_body a j (newton2D_body a j st) = newton2D_body a j st"
  by (cases st) (simp add: nw2 Let_def split: option.splits)

lemma nw2_body_fix_pres:
  assumes "i < j" and "newton2D_body a i st = st"
  shows "newton2D_body a i (newton2D_body a j st) = newton2D_body a j st"
proof -
  obtain xs ys zs where st: "st = (xs, ys, zs)" by (cases st)
  obtain u v w where b: "newton2D_body a j (xs, ys, zs) = (xs[Suc j := u], ys[Suc j := v], zs[Suc j := w])"
    using nw2_body_shape by blast
  show ?thesis
    using assms nw2_body_upd[of i "Suc j" a xs u ys v zs w] by (simp add: st b)
qed

text \<open>Adam: the moments after \<open>i\<close> steps depend on the entries before \<open>i\<close> only.\<close>

lemma adam_moments_spec_cong:
  assumes "\<forall>k<i. xs ! k = xs' ! k \<and> ys ! k = ys' ! k"
  shows "adam_moments_spec a s xs ys i = adam_moments_spec a s xs' ys' i"
  using assms by (induction i) simp_all

lemma adam_body_shape:
  "\<exists>u v w M'. adam_body a s j ((xs, ys, zs), M) = ((xs[Suc j := u], ys[Suc j := v], zs[Suc j := w]), M')"
  by (cases M) (auto simp add: adam Let_def)

lemma adam_body_upd:
  assumes "Suc j < k"
  shows "adam_body a s j ((xs[k := u], ys[k := v], zs[k := w]), M) =
     (case adam_body a s j ((xs, ys, zs), M) of ((xs', ys', zs'), M') \<Rightarrow> ((xs'[k := u], ys'[k := v], zs'[k := w]), M'))"
proof -
  have ne: "k \<noteq> j" "k \<noteq> Suc j" using assms by auto
  show ?thesis
    using ne by (cases M) (simp add: adam Let_def list_update_swap[of k "Suc j"])
qed

lemma adam_body_idem:
  "adam_body a s j ((xs, ys, zs), M) = (A', M') \<Longrightarrow> adam_body a s j (A', M) = (A', M')"
  by (cases M) (auto simp add: adam Let_def split: if_splits)

lemma adam_body_moments:
  "snd (adam_body a s j ((xs, ys, zs), adam_moments_spec a s xs ys j)) = adam_moments_spec a s xs ys (Suc j)"
  by (cases "adam_moments_spec a s xs ys j") (simp add: adam Let_def)

declare adam_moments_spec.simps [simp del]

lemma adam_inv_step:
  assumes "adam_inv a s j st"
  shows "adam_inv a s (Suc j) (adam_body a s j st)"
proof -
  obtain xs ys zs M where st: "st = ((xs, ys, zs), M)" by (cases st) auto
  have M: "M = adam_moments_spec a s xs ys j"
    and fx: "\<forall>i<j. adam_body a s i ((xs, ys, zs), adam_moments_spec a s xs ys i) =
                 ((xs, ys, zs), adam_moments_spec a s xs ys (Suc i))"
    using assms by (simp_all add: adam_inv_def st)
  obtain u v w M' where b: "adam_body a s j ((xs, ys, zs), M) = ((xs[Suc j := u], ys[Suc j := v], zs[Suc j := w]), M')"
    using adam_body_shape by blast
  let ?xs = "xs[Suc j := u]" and ?ys = "ys[Suc j := v]" and ?zs = "zs[Suc j := w]"
  have same: "adam_moments_spec a s ?xs ?ys k = adam_moments_spec a s xs ys k" if "k \<le> Suc j" for k
    using that by (intro adam_moments_spec_cong) simp
  have M': "M' = adam_moments_spec a s xs ys (Suc j)"
    using adam_body_moments[of a s j xs ys zs] b M by simp
  have "adam_body a s i ((?xs, ?ys, ?zs), adam_moments_spec a s ?xs ?ys i) =
          ((?xs, ?ys, ?zs), adam_moments_spec a s ?xs ?ys (Suc i))" if "i < Suc j" for i
  proof (cases "i = j")
    case True
    then show ?thesis
      using adam_body_idem[OF b] M M' by (simp add: same)
  next
    case False
    then have ij: "i < j" using that by simp
    then show ?thesis
      using fx adam_body_upd[of i "Suc j" a s xs u ys v zs w "adam_moments_spec a s xs ys i"]
      by (simp add: same)
  qed
  then show ?thesis
    by (simp add: adam_inv_def st b M' same)
qed

lemma adam_loop_fix:
  assumes "for_loop 0 n (adam_body a s) ((xs0, ys0, zs0), Num 0, Num 0, Num 0, Num 0) = ((xs, ys, zs), M)"
  shows "\<forall>i<n. adam_body a s i ((xs, ys, zs), adam_moments_spec a s xs ys i) =
                 ((xs, ys, zs), adam_moments_spec a s xs ys (Suc i))"
proof -
  have "adam_inv a s n (for_loop 0 n (adam_body a s) ((xs0, ys0, zs0), Num 0, Num 0, Num 0, Num 0))"
  proof (rule for_loop_invariant)
    show "adam_inv a s 0 ((xs0, ys0, zs0), Num 0, Num 0, Num 0, Num 0)"
      by (simp add: adam_inv_def adam_moments_spec.simps)
  qed (simp_all add: adam_inv_step)
  then show ?thesis using assms by (simp add: adam_inv_def)
qed

subsection \<open>Lengths and first entries after a loop\<close>

lemma loop1D_shape:
  assumes sh: "\<And>j xs ys. \<exists>v w. body j (xs, ys) = (xs[Suc j := v], ys[Suc j := w])"
    and r: "for_loop 0 n body (xs0, ys0) = (xs, ys)"
  shows "length xs = length xs0 \<and> length ys = length ys0 \<and> xs ! 0 = xs0 ! 0 \<and> ys ! 0 = ys0 ! 0"
proof -
  let ?P = "\<lambda>(j::nat) st. length (fst st) = length xs0 \<and> length (snd st) = length ys0 \<and>
               fst st ! 0 = xs0 ! 0 \<and> snd st ! 0 = ys0 ! 0"
  have "?P n (for_loop 0 n body (xs0, ys0))"
  proof (rule for_loop_invariant[where P = ?P])
    fix j st assume P: "?P j st"
    obtain xs1 ys1 where st: "st = (xs1, ys1)" by (cases st)
    obtain v w where b: "body j (xs1, ys1) = (xs1[Suc j := v], ys1[Suc j := w])"
      using sh by blast
    show "?P (Suc j) (body j st)" using P by (simp add: st b)
  qed simp_all
  then show ?thesis using r by simp
qed

lemma loop2D_shape:
  assumes sh: "\<And>j xs ys zs. \<exists>u v w. body j (xs, ys, zs) = (xs[Suc j := u], ys[Suc j := v], zs[Suc j := w])"
    and r: "for_loop 0 n body (xs0, ys0, zs0) = (xs, ys, zs)"
  shows "length xs = length xs0 \<and> length ys = length ys0 \<and> length zs = length zs0 \<and>
         xs ! 0 = xs0 ! 0 \<and> ys ! 0 = ys0 ! 0 \<and> zs ! 0 = zs0 ! 0"
proof -
  let ?P = "\<lambda>(j::nat) st. case st of (xs, ys, zs) \<Rightarrow>
               length xs = length xs0 \<and> length ys = length ys0 \<and> length zs = length zs0 \<and>
               xs ! 0 = xs0 ! 0 \<and> ys ! 0 = ys0 ! 0 \<and> zs ! 0 = zs0 ! 0"
  have "?P n (for_loop 0 n body (xs0, ys0, zs0))"
  proof (rule for_loop_invariant[where P = ?P])
    fix j st assume P: "?P j st"
    obtain xs1 ys1 zs1 where st: "st = (xs1, ys1, zs1)" by (cases st)
    obtain u v w where b: "body j (xs1, ys1, zs1) = (xs1[Suc j := u], ys1[Suc j := v], zs1[Suc j := w])"
      using sh by blast
    show "?P (Suc j) (body j st)" using P by (simp add: st b)
  qed simp_all
  then show ?thesis using r by simp
qed

lemma loopAdam_shape:
  assumes r: "for_loop 0 n (adam_body a s) ((xs0, ys0, zs0), M0) = ((xs, ys, zs), M)"
  shows "length xs = length xs0 \<and> length ys = length ys0 \<and> length zs = length zs0 \<and>
         xs ! 0 = xs0 ! 0 \<and> ys ! 0 = ys0 ! 0 \<and> zs ! 0 = zs0 ! 0"
proof -
  let ?P = "\<lambda>(j::nat) (st::stateAdam). case st of ((xs, ys, zs), M) \<Rightarrow>
               length xs = length xs0 \<and> length ys = length ys0 \<and> length zs = length zs0 \<and>
               xs ! 0 = xs0 ! 0 \<and> ys ! 0 = ys0 ! 0 \<and> zs ! 0 = zs0 ! 0"
  have "?P n (for_loop 0 n (adam_body a s) ((xs0, ys0, zs0), M0))"
  proof (rule for_loop_invariant[where P = ?P])
    fix j st assume P: "?P j st"
    obtain xs1 ys1 zs1 M1 where st: "st = ((xs1, ys1, zs1), M1)" by (cases st) auto
    obtain u v w M' where b: "adam_body a s j ((xs1, ys1, zs1), M1) = ((xs1[Suc j := u], ys1[Suc j := v], zs1[Suc j := w]), M')"
      using adam_body_shape by blast
    show "?P (Suc j) (adam_body a s j st)" using P by (simp add: st b)
  qed simp_all
  then show ?thesis using r by simp
qed

subsection \<open>What a fixed point of a body says about the entries\<close>

lemma gd1_fix_step:
  assumes f: "gradientDescent1D_body a s i (xs, ys) = (xs, ys)"
    and l: "Suc i < length xs" "Suc i < length ys"
  shows "(\<not> isFinite (evaluateNumber (gradient a) [''x'' \<mapsto> xs ! i]) \<longrightarrow>
            xs ! Suc i = xs ! i \<and> ys ! Suc i = ys ! i) \<and>
         (isFinite (evaluateNumber (gradient a) [''x'' \<mapsto> xs ! i]) \<longrightarrow>
            xs ! Suc i = xs ! i - learningRate s * evaluateNumber (gradient a) [''x'' \<mapsto> xs ! i]
                         + (if i = 0 then Num 0 else momentum s * (xs ! i - xs ! (i - 1))) \<and>
            ys ! Suc i = ensureValue (evaluateNumber (fn a) [''x'' \<mapsto> xs ! Suc i]) (ys ! i))"
proof (cases "isFinite (evaluateNumber (gradient a) [''x'' \<mapsto> xs ! i])")
  case False
  then show ?thesis
    using f l by (auto simp add: gd1 Let_def dest: list_update_fix_nth)
next
  case True
  let ?v = "xs ! i - learningRate s * evaluateNumber (gradient a) [''x'' \<mapsto> xs ! i]
                         + (if i = 0 then Num 0 else momentum s * (xs ! i - xs ! (i - 1)))"
  from f True l have x: "xs[Suc i := ?v] = xs"
    and y: "ys[Suc i := ensureValue (evaluateNumber (fn a) [''x'' \<mapsto> ?v]) (ys ! i)] = ys"
    by (simp_all add: gd1 Let_def)
  have xv: "xs ! Suc i = ?v" by (rule list_update_fix_nth[OF x l(1)])
  have "ys ! Suc i = ensureValue (evaluateNumber (fn a) [''x'' \<mapsto> xs ! Suc i]) (ys ! i)"
    unfolding xv by (rule list_update_fix_nth[OF y l(2)])
  then show ?thesis using True xv by simp
qed

lemma nw1_fix_step:
  assumes f: "newton1D_body a i (xs, ys) = (xs, ys)"
    and l: "Suc i < length xs" "Suc i < length ys"
  defines "g \<equiv> evaluateNumber (gradient a) [''x'' \<mapsto> xs ! i]"
    and "h \<equiv> evaluateNumber (hessian a) [''x'' \<mapsto> xs ! i]"
  shows "(\<not> isFinite g \<or> \<not> isFinite h \<or> \<bar>h\<bar> < EPSILON \<longrightarrow>
            xs ! Suc i = xs ! i \<and> ys ! Suc i = ys ! i) \<and>
         (\<not> (\<not> isFinite g \<or> \<not> isFinite h \<or> \<bar>h\<bar> < EPSILON) \<longrightarrow>
            xs ! Suc i = xs ! i - g / h \<and>
            ys ! Suc i = ensureValue (evaluateNumber (fn a) [''x'' \<mapsto> xs ! Suc i]) (ys ! i))"
proof (cases "\<not> isFinite g \<or> \<not> isFinite h \<or> \<bar>h\<bar> < EPSILON")
  case True
  then show ?thesis
    using f l unfolding g_def h_def by (auto simp add: nw1 Let_def dest: list_update_fix_nth)
next
  case False
  let ?v = "xs ! i - g / h"
  from f False l have x: "xs[Suc i := ?v] = xs"
    and y: "ys[Suc i := ensureValue (evaluateNumber (fn a) [''x'' \<mapsto> ?v]) (ys ! i)] = ys"
    unfolding g_def h_def by (simp_all add: nw1 Let_def)
  have xv: "xs ! Suc i = ?v" by (rule list_update_fix_nth[OF x l(1)])
  have "ys ! Suc i = ensureValue (evaluateNumber (fn a) [''x'' \<mapsto> xs ! Suc i]) (ys ! i)"
    unfolding xv by (rule list_update_fix_nth[OF y l(2)])
  then show ?thesis using False xv by simp
qed

lemma gd2_fix_step:
  assumes f: "gradientDescent2D_body a s i (xs, ys, zs) = (xs, ys, zs)"
    and l: "Suc i < length xs" "Suc i < length ys" "Suc i < length zs"
  defines "gx \<equiv> evaluateNumber (grad_x (gradient a)) [''x'' \<mapsto> xs ! i, ''y'' \<mapsto> ys ! i]"
    and "gy \<equiv> evaluateNumber (grad_y (gradient a)) [''x'' \<mapsto> xs ! i, ''y'' \<mapsto> ys ! i]"
  shows "(\<not> isFinite gx \<or> \<not> isFinite gy \<longrightarrow>
            xs ! Suc i = xs ! i \<and> ys ! Suc i = ys ! i \<and> zs ! Suc i = zs ! i) \<and>
         (isFinite gx \<and> isFinite gy \<longrightarrow>
            xs ! Suc i = xs ! i - learningRate s * gx
                         + (if i = 0 then Num 0 else momentum s * (xs ! i - xs ! (i - 1))) \<and>
            ys ! Suc i = ys ! i - learningRate s * gy
                         + (if i = 0 then Num 0 else momentum s * (ys ! i - ys ! (i - 1))) \<and>
            zs ! Suc i = ensureValue
               (evaluateNumber (fn a) [''x'' \<mapsto> xs ! Suc i, ''y'' \<mapsto> ys ! Suc i]) (zs ! i))"
proof (cases "isFinite gx \<and> isFinite gy")
  case False
  then show ?thesis
    using f l unfolding gx_def gy_def by (auto simp add: gd2 Let_def dest: list_update_fix_nth)
next
  case True
  let ?u = "xs ! i - learningRate s * gx + (if i = 0 then Num 0 else momentum s * (xs ! i - xs ! (i - 1)))"
  let ?v = "ys ! i - learningRate s * gy + (if i = 0 then Num 0 else momentum s * (ys ! i - ys ! (i - 1)))"
  from f True l have x: "xs[Suc i := ?u] = xs" and y: "ys[Suc i := ?v] = ys"
    and z: "zs[Suc i := ensureValue (evaluateNumber (fn a) [''x'' \<mapsto> ?u, ''y'' \<mapsto> ?v]) (zs ! i)] = zs"
    unfolding gx_def gy_def by (simp_all add: gd2 Let_def)
  have xv: "xs ! Suc i = ?u" by (rule list_update_fix_nth[OF x l(1)])
  have yv: "ys ! Suc i = ?v" by (rule list_update_fix_nth[OF y l(2)])
  have "zs ! Suc i = ensureValue (evaluateNumber (fn a) [''x'' \<mapsto> xs ! Suc i, ''y'' \<mapsto> ys ! Suc i]) (zs ! i)"
    unfolding xv yv by (rule list_update_fix_nth[OF z l(3)])
  then show ?thesis using True xv yv by simp
qed

lemma nw2_fix_step:
  assumes f: "newton2D_body a i (xs, ys, zs) = (xs, ys, zs)"
    and l: "Suc i < length xs" "Suc i < length ys" "Suc i < length zs"
  defines "gx \<equiv> evaluateNumber (grad_x (gradient a)) [''x'' \<mapsto> xs ! i, ''y'' \<mapsto> ys ! i]"
    and "gy \<equiv> evaluateNumber (grad_y (gradient a)) [''x'' \<mapsto> xs ! i, ''y'' \<mapsto> ys ! i]"
    and "hxx \<equiv> evaluateNumber (hess_xx (hessian a)) [''x'' \<mapsto> xs ! i, ''y'' \<mapsto> ys ! i]"
    and "hxy \<equiv> evaluateNumber (hess_xy (hessian a)) [''x'' \<mapsto> xs ! i, ''y'' \<mapsto> ys ! i]"
    and "hyx \<equiv> evaluateNumber (hess_yx (hessian a)) [''x'' \<mapsto> xs ! i, ''y'' \<mapsto> ys ! i]"
    and "hyy \<equiv> evaluateNumber (hess_yy (hessian a)) [''x'' \<mapsto> xs ! i, ''y'' \<mapsto> ys ! i]"
  shows "((\<exists>v \<in> set [gx, gy, hxx, hxy, hyx, hyy]. \<not> isFinite v) \<or> invert2x2 hxx hxy hyx hyy = None \<longrightarrow>
            xs ! Suc i = xs ! i \<and> ys ! Suc i = ys ! i \<and> zs ! Suc i = zs ! i) \<and>
         (\<forall>m. (\<forall>v \<in> set [gx, gy, hxx, hxy, hyx, hyy]. isFinite v) \<and> invert2x2 hxx hxy hyx hyy = Some m \<longrightarrow>
            xs ! Suc i = xs ! i - (xx m * gx + xy m * gy) \<and>
            ys ! Suc i = ys ! i - (yx m * gx + yy m * gy) \<and>
            zs ! Suc i = ensureValue
               (evaluateNumber (fn a) [''x'' \<mapsto> xs ! Suc i, ''y'' \<mapsto> ys ! Suc i]) (zs ! i))"
proof (rule conjI)
  show "(\<exists>v \<in> set [gx, gy, hxx, hxy, hyx, hyy]. \<not> isFinite v) \<or> invert2x2 hxx hxy hyx hyy = None \<longrightarrow>
            xs ! Suc i = xs ! i \<and> ys ! Suc i = ys ! i \<and> zs ! Suc i = zs ! i"
    using f l unfolding gx_def gy_def hxx_def hxy_def hyx_def hyy_def
    by (auto simp add: nw2 Let_def split: option.splits dest: list_update_fix_nth)
next
  show "\<forall>m. (\<forall>v \<in> set [gx, gy, hxx, hxy, hyx, hyy]. isFinite v) \<and> invert2x2 hxx hxy hyx hyy = Some m \<longrightarrow>
            xs ! Suc i = xs ! i - (xx m * gx + xy m * gy) \<and>
            ys ! Suc i = ys ! i - (yx m * gx + yy m * gy) \<and>
            zs ! Suc i = ensureValue
               (evaluateNumber (fn a) [''x'' \<mapsto> xs ! Suc i, ''y'' \<mapsto> ys ! Suc i]) (zs ! i)"
  proof (intro allI impI)
  fix m
  assume c: "(\<forall>v \<in> set [gx, gy, hxx, hxy, hyx, hyy]. isFinite v) \<and> invert2x2 hxx hxy hyx hyy = Some m"
  let ?u = "xs ! i - (xx m * gx + xy m * gy)"
  let ?v = "ys ! i - (yx m * gx + yy m * gy)"
  from f c l have x: "xs[Suc i := ?u] = xs" and y: "ys[Suc i := ?v] = ys"
    and z: "zs[Suc i := ensureValue (evaluateNumber (fn a) [''x'' \<mapsto> ?u, ''y'' \<mapsto> ?v]) (zs ! i)] = zs"
    unfolding gx_def gy_def hxx_def hxy_def hyx_def hyy_def by (simp_all add: nw2 Let_def)
  have xv: "xs ! Suc i = ?u" by (rule list_update_fix_nth[OF x l(1)])
  have yv: "ys ! Suc i = ?v" by (rule list_update_fix_nth[OF y l(2)])
  have "zs ! Suc i = ensureValue (evaluateNumber (fn a) [''x'' \<mapsto> xs ! Suc i, ''y'' \<mapsto> ys ! Suc i]) (zs ! i)"
    unfolding xv yv by (rule list_update_fix_nth[OF z l(3)])
  then show "xs ! Suc i = ?u \<and> ys ! Suc i = ?v \<and>
     zs ! Suc i = ensureValue (evaluateNumber (fn a) [''x'' \<mapsto> xs ! Suc i, ''y'' \<mapsto> ys ! Suc i]) (zs ! i)"
    using xv yv by simp
  qed
qed

lemma adam_fix_step:
  assumes f: "adam_body a s i ((xs, ys, zs), (mx, my, vx, vy)) = ((xs, ys, zs), (mx', my', vx', vy'))"
    and l: "Suc i < length xs" "Suc i < length ys" "Suc i < length zs"
  defines "gx \<equiv> evaluateNumber (grad_x (gradient a)) [''x'' \<mapsto> xs ! i, ''y'' \<mapsto> ys ! i]"
    and "gy \<equiv> evaluateNumber (grad_y (gradient a)) [''x'' \<mapsto> xs ! i, ''y'' \<mapsto> ys ! i]"
  shows "(\<not> isFinite gx \<or> \<not> isFinite gy \<longrightarrow>
            xs ! Suc i = xs ! i \<and> ys ! Suc i = ys ! i \<and> zs ! Suc i = zs ! i) \<and>
         (isFinite gx \<and> isFinite gy \<longrightarrow>
            mx' = beta1 s * mx + (Num 1 - beta1 s) * gx \<and>
            my' = beta1 s * my + (Num 1 - beta1 s) * gy \<and>
            vx' = beta2 s * vx + (Num 1 - beta2 s) * gx * gx \<and>
            vy' = beta2 s * vy + (Num 1 - beta2 s) * gy * gy \<and>
            xs ! Suc i = xs ! i - learningRate s * (mx' / correction_denominator (beta1 s) i)
                           / (Math_sqrt (vx' / correction_denominator (beta2 s) i) + ADAM_EPSILON) \<and>
            ys ! Suc i = ys ! i - learningRate s * (my' / correction_denominator (beta1 s) i)
                           / (Math_sqrt (vy' / correction_denominator (beta2 s) i) + ADAM_EPSILON) \<and>
            zs ! Suc i = ensureValue
               (evaluateNumber (fn a) [''x'' \<mapsto> xs ! Suc i, ''y'' \<mapsto> ys ! Suc i]) (zs ! i))"
proof (cases "isFinite gx \<and> isFinite gy")
  case False
  then show ?thesis
    using f l unfolding gx_def gy_def by (auto simp add: adam Let_def dest: list_update_fix_nth)
next
  case True
  let ?u = "xs ! i - learningRate s * (mx' / correction_denominator (beta1 s) i)
                           / (Math_sqrt (vx' / correction_denominator (beta2 s) i) + ADAM_EPSILON)"
  let ?v = "ys ! i - learningRate s * (my' / correction_denominator (beta1 s) i)
                           / (Math_sqrt (vy' / correction_denominator (beta2 s) i) + ADAM_EPSILON)"
  from f True have m: "mx' = beta1 s * mx + (Num 1 - beta1 s) * gx"
      "my' = beta1 s * my + (Num 1 - beta1 s) * gy"
      "vx' = beta2 s * vx + (Num 1 - beta2 s) * gx * gx"
      "vy' = beta2 s * vy + (Num 1 - beta2 s) * gy * gy"
    unfolding gx_def gy_def by (simp_all add: adam Let_def)
  from f True l have x: "xs[Suc i := ?u] = xs" and y: "ys[Suc i := ?v] = ys"
    and z: "zs[Suc i := ensureValue (evaluateNumber (fn a) [''x'' \<mapsto> ?u, ''y'' \<mapsto> ?v]) (zs ! i)] = zs"
    unfolding gx_def gy_def m by (simp_all add: adam Let_def correction_denominator_def)
  have xv: "xs ! Suc i = ?u" by (rule list_update_fix_nth[OF x l(1)])
  have yv: "ys ! Suc i = ?v" by (rule list_update_fix_nth[OF y l(2)])
  have "zs ! Suc i = ensureValue (evaluateNumber (fn a) [''x'' \<mapsto> xs ! Suc i, ''y'' \<mapsto> ys ! Suc i]) (zs ! i)"
    unfolding xv yv by (rule list_update_fix_nth[OF z l(3)])
  then show ?thesis using True xv yv m by simp
qed

subsection \<open>The trajectories\<close>

lemma computeTrajectory1D_GD:
  assumes "optimiserType s = ''Gradient Descent''" and "numSteps_of s + 1 \<le> 4294967295"
  shows "\<exists>xs ys. computeTrajectory1D a s = Inr \<lparr>traj_x = xs, traj_y = ys\<rparr> \<and>
           length xs = numSteps_of s + 1 \<and> length ys = numSteps_of s + 1 \<and>
           xs ! 0 = initialX s \<and>
           ys ! 0 = ensureValue (evaluateNumber (fn a) [''x'' \<mapsto> initialX s]) (Num 0) \<and>
           (\<forall>i<numSteps_of s. gradientDescent1D_body a s i (xs, ys) = (xs, ys))"
proof -
  let ?n = "numSteps_of s"
  let ?xs0 = "(replicate (?n + 1) (Num 0))[0 := initialX s]"
  let ?ys0 = "(replicate (?n + 1) (Num 0))[0 := ensureValue (evaluateNumber (fn a) [''x'' \<mapsto> initialX s]) (Num 0)]"
  obtain xs ys where r: "for_loop 0 ?n (gradientDescent1D_body a s) (?xs0, ?ys0) = (xs, ys)"
    by (cases "for_loop 0 ?n (gradientDescent1D_body a s) (?xs0, ?ys0)")
  have "computeTrajectory1D a s = Inr \<lparr>traj_x = xs, traj_y = ys\<rparr>"
    using assms r by (simp add: computeTrajectory1D_def numSteps_of_def Let_def Array_fill_def)
  moreover have "length xs = ?n + 1 \<and> length ys = ?n + 1 \<and> xs ! 0 = initialX s \<and>
      ys ! 0 = ensureValue (evaluateNumber (fn a) [''x'' \<mapsto> initialX s]) (Num 0)"
    using loop1D_shape[OF gd1_body_shape r] by simp
  moreover have "\<forall>i<?n. gradientDescent1D_body a s i (xs, ys) = (xs, ys)"
    using for_loop_fixpoints[of "gradientDescent1D_body a s" ?n "(?xs0, ?ys0)", OF gd1_body_idem gd1_body_fix_pres]
    unfolding r by simp
  ultimately show ?thesis by blast
qed

lemma computeTrajectory1D_Newton:
  assumes "optimiserType s = ''Newton''" and "numSteps_of s + 1 \<le> 4294967295"
  shows "\<exists>xs ys. computeTrajectory1D a s = Inr \<lparr>traj_x = xs, traj_y = ys\<rparr> \<and>
           length xs = numSteps_of s + 1 \<and> length ys = numSteps_of s + 1 \<and>
           xs ! 0 = initialX s \<and>
           ys ! 0 = ensureValue (evaluateNumber (fn a) [''x'' \<mapsto> initialX s]) (Num 0) \<and>
           (\<forall>i<numSteps_of s. newton1D_body a i (xs, ys) = (xs, ys))"
proof -
  let ?n = "numSteps_of s"
  let ?xs0 = "(replicate (?n + 1) (Num 0))[0 := initialX s]"
  let ?ys0 = "(replicate (?n + 1) (Num 0))[0 := ensureValue (evaluateNumber (fn a) [''x'' \<mapsto> initialX s]) (Num 0)]"
  obtain xs ys where r: "for_loop 0 ?n (newton1D_body a) (?xs0, ?ys0) = (xs, ys)"
    by (cases "for_loop 0 ?n (newton1D_body a) (?xs0, ?ys0)")
  have "computeTrajectory1D a s = Inr \<lparr>traj_x = xs, traj_y = ys\<rparr>"
    using assms r by (simp add: computeTrajectory1D_def numSteps_of_def Let_def Array_fill_def)
  moreover have "length xs = ?n + 1 \<and> length ys = ?n + 1 \<and> xs ! 0 = initialX s \<and>
      ys ! 0 = ensureValue (evaluateNumber (fn a) [''x'' \<mapsto> initialX s]) (Num 0)"
    using loop1D_shape[OF nw1_body_shape r] by simp
  moreover have "\<forall>i<?n. newton1D_body a i (xs, ys) = (xs, ys)"
    using for_loop_fixpoints[of "newton1D_body a" ?n "(?xs0, ?ys0)", OF nw1_body_idem nw1_body_fix_pres]
    unfolding r by simp
  ultimately show ?thesis by blast
qed

lemma computeTrajectory2D_GD:
  assumes "optimiserType s = ''Gradient Descent''" and "numSteps_of s + 1 \<le> 4294967295"
  shows "\<exists>xs ys zs. computeTrajectory2D a s = Inr \<lparr>traj_x = xs, traj_y = ys, traj_z = zs\<rparr> \<and>
           length xs = numSteps_of s + 1 \<and> length ys = numSteps_of s + 1 \<and> length zs = numSteps_of s + 1 \<and>
           xs ! 0 = initialX s \<and> ys ! 0 = initialY s \<and>
           zs ! 0 = ensureValue (evaluateNumber (fn a) [''x'' \<mapsto> initialX s, ''y'' \<mapsto> initialY s]) (Num 0) \<and>
           (\<forall>i<numSteps_of s. gradientDescent2D_body a s i (xs, ys, zs) = (xs, ys, zs))"
proof -
  let ?n = "numSteps_of s"
  let ?xs0 = "(replicate (?n + 1) (Num 0))[0 := initialX s]"
  let ?ys0 = "(replicate (?n + 1) (Num 0))[0 := initialY s]"
  let ?zs0 = "(replicate (?n + 1) (Num 0))[0 := ensureValue
      (evaluateNumber (fn a) [''x'' \<mapsto> initialX s, ''y'' \<mapsto> initialY s]) (Num 0)]"
  obtain xs ys zs where r: "for_loop 0 ?n (gradientDescent2D_body a s) (?xs0, ?ys0, ?zs0) = (xs, ys, zs)"
    by (cases "for_loop 0 ?n (gradientDescent2D_body a s) (?xs0, ?ys0, ?zs0)")
  have "computeTrajectory2D a s = Inr \<lparr>traj_x = xs, traj_y = ys, traj_z = zs\<rparr>"
    using assms r by (simp add: computeTrajectory2D_def numSteps_of_def Let_def Array_fill_def)
  moreover have "length xs = ?n + 1 \<and> length ys = ?n + 1 \<and> length zs = ?n + 1 \<and>
      xs ! 0 = initialX s \<and> ys ! 0 = initialY s \<and>
      zs ! 0 = ensureValue (evaluateNumber (fn a) [''x'' \<mapsto> initialX s, ''y'' \<mapsto> initialY s]) (Num 0)"
    using loop2D_shape[OF gd2_body_shape r] by simp
  moreover have "\<forall>i<?n. gradientDescent2D_body a s i (xs, ys, zs) = (xs, ys, zs)"
    using for_loop_fixpoints[of "gradientDescent2D_body a s" ?n "(?xs0, ?ys0, ?zs0)", OF gd2_body_idem gd2_body_fix_pres]
    unfolding r by simp
  ultimately show ?thesis by blast
qed

lemma computeTrajectory2D_Newton:
  assumes "optimiserType s = ''Newton''" and "numSteps_of s + 1 \<le> 4294967295"
  shows "\<exists>xs ys zs. computeTrajectory2D a s = Inr \<lparr>traj_x = xs, traj_y = ys, traj_z = zs\<rparr> \<and>
           length xs = numSteps_of s + 1 \<and> length ys = numSteps_of s + 1 \<and> length zs = numSteps_of s + 1 \<and>
           xs ! 0 = initialX s \<and> ys ! 0 = initialY s \<and>
           zs ! 0 = ensureValue (evaluateNumber (fn a) [''x'' \<mapsto> initialX s, ''y'' \<mapsto> initialY s]) (Num 0) \<and>
           (\<forall>i<numSteps_of s. newton2D_body a i (xs, ys, zs) = (xs, ys, zs))"
proof -
  let ?n = "numSteps_of s"
  let ?xs0 = "(replicate (?n + 1) (Num 0))[0 := initialX s]"
  let ?ys0 = "(replicate (?n + 1) (Num 0))[0 := initialY s]"
  let ?zs0 = "(replicate (?n + 1) (Num 0))[0 := ensureValue
      (evaluateNumber (fn a) [''x'' \<mapsto> initialX s, ''y'' \<mapsto> initialY s]) (Num 0)]"
  obtain xs ys zs where r: "for_loop 0 ?n (newton2D_body a) (?xs0, ?ys0, ?zs0) = (xs, ys, zs)"
    by (cases "for_loop 0 ?n (newton2D_body a) (?xs0, ?ys0, ?zs0)")
  have "computeTrajectory2D a s = Inr \<lparr>traj_x = xs, traj_y = ys, traj_z = zs\<rparr>"
    using assms r by (simp add: computeTrajectory2D_def numSteps_of_def Let_def Array_fill_def)
  moreover have "length xs = ?n + 1 \<and> length ys = ?n + 1 \<and> length zs = ?n + 1 \<and>
      xs ! 0 = initialX s \<and> ys ! 0 = initialY s \<and>
      zs ! 0 = ensureValue (evaluateNumber (fn a) [''x'' \<mapsto> initialX s, ''y'' \<mapsto> initialY s]) (Num 0)"
    using loop2D_shape[OF nw2_body_shape r] by simp
  moreover have "\<forall>i<?n. newton2D_body a i (xs, ys, zs) = (xs, ys, zs)"
    using for_loop_fixpoints[of "newton2D_body a" ?n "(?xs0, ?ys0, ?zs0)", OF nw2_body_idem nw2_body_fix_pres]
    unfolding r by simp
  ultimately show ?thesis by blast
qed

lemma computeTrajectory2D_Adam:
  assumes "optimiserType s = ''Adam''" and "numSteps_of s + 1 \<le> 4294967295"
  shows "\<exists>xs ys zs. computeTrajectory2D a s = Inr \<lparr>traj_x = xs, traj_y = ys, traj_z = zs\<rparr> \<and>
           length xs = numSteps_of s + 1 \<and> length ys = numSteps_of s + 1 \<and> length zs = numSteps_of s + 1 \<and>
           xs ! 0 = initialX s \<and> ys ! 0 = initialY s \<and>
           zs ! 0 = ensureValue (evaluateNumber (fn a) [''x'' \<mapsto> initialX s, ''y'' \<mapsto> initialY s]) (Num 0) \<and>
           (\<forall>i<numSteps_of s. adam_body a s i ((xs, ys, zs), adam_moments_spec a s xs ys i) =
                                ((xs, ys, zs), adam_moments_spec a s xs ys (Suc i)))"
proof -
  let ?n = "numSteps_of s"
  let ?xs0 = "(replicate (?n + 1) (Num 0))[0 := initialX s]"
  let ?ys0 = "(replicate (?n + 1) (Num 0))[0 := initialY s]"
  let ?zs0 = "(replicate (?n + 1) (Num 0))[0 := ensureValue
      (evaluateNumber (fn a) [''x'' \<mapsto> initialX s, ''y'' \<mapsto> initialY s]) (Num 0)]"
  obtain xs ys zs M where r: "for_loop 0 ?n (adam_body a s) ((?xs0, ?ys0, ?zs0), Num 0, Num 0, Num 0, Num 0) = ((xs, ys, zs), M)"
    by (cases "for_loop 0 ?n (adam_body a s) ((?xs0, ?ys0, ?zs0), Num 0, Num 0, Num 0, Num 0)") auto
  have ne: "''Adam'' \<noteq> ''Gradient Descent''" by simp
  have "computeTrajectory2D a s = Inr \<lparr>traj_x = xs, traj_y = ys, traj_z = zs\<rparr>"
    using assms r ne by (simp add: computeTrajectory2D_def numSteps_of_def Let_def Array_fill_def)
  moreover have "length xs = ?n + 1 \<and> length ys = ?n + 1 \<and> length zs = ?n + 1 \<and>
      xs ! 0 = initialX s \<and> ys ! 0 = initialY s \<and>
      zs ! 0 = ensureValue (evaluateNumber (fn a) [''x'' \<mapsto> initialX s, ''y'' \<mapsto> initialY s]) (Num 0)"
    using loopAdam_shape[OF r] by simp
  moreover have "\<forall>i<?n. adam_body a s i ((xs, ys, zs), adam_moments_spec a s xs ys i) =
                                ((xs, ys, zs), adam_moments_spec a s xs ys (Suc i))"
    using adam_loop_fix[OF r] .
  ultimately show ?thesis by blast
qed

lemma computeTrajectory1D_RangeError:
  assumes "4294967295 < numSteps_of s + 1"
  shows "computeTrajectory1D a s = Inl RangeError"
  using assms by (simp add: computeTrajectory1D_def numSteps_of_def Let_def Array_fill_def)

lemma computeTrajectory2D_RangeError:
  assumes "4294967295 < numSteps_of s + 1"
  shows "computeTrajectory2D a s = Inl RangeError"
  using assms by (simp add: computeTrajectory2D_def numSteps_of_def Let_def Array_fill_def)

lemma computeTrajectory1D_unsupported:
  assumes "optimiserType s \<noteq> ''Gradient Descent''" "optimiserType s \<noteq> ''Newton''"
    and "numSteps_of s + 1 \<le> 4294967295"
  shows "computeTrajectory1D a s = Inl (UnsupportedOptimiserType (optimiserType s))"
  using assms by (simp add: computeTrajectory1D_def numSteps_of_def Let_def Array_fill_def)

lemma computeTrajectory2D_unsupported:
  assumes "optimiserType s \<noteq> ''Gradient Descent''" "optimiserType s \<noteq> ''Adam''" "optimiserType s \<noteq> ''Newton''"
    and "numSteps_of s + 1 \<le> 4294967295"
  shows "computeTrajectory2D a s = Inl (UnsupportedOptimiserType (optimiserType s))"
  using assms by (simp add: computeTrajectory2D_def numSteps_of_def Let_def Array_fill_def)

subsection \<open>Steps of a returned trajectory\<close>

lemma computeTrajectory1D_Inr:
  assumes "computeTrajectory1D a s = Inr t"
  shows "optimiserType s = ''Gradient Descent'' \<or> optimiserType s = ''Newton''"
    and "numSteps_of s + 1 \<le> 4294967295"
proof -
  show b: "numSteps_of s + 1 \<le> 4294967295"
    using assms computeTrajectory1D_RangeError[of s a] by (cases "4294967295 < numSteps_of s + 1") simp_all
  show "optimiserType s = ''Gradient Descent'' \<or> optimiserType s = ''Newton''"
    using assms b computeTrajectory1D_unsupported[of s a] by auto
qed

lemma computeTrajectory2D_Inr:
  assumes "computeTrajectory2D a s = Inr t"
  shows "optimiserType s = ''Gradient Descent'' \<or> optimiserType s = ''Adam'' \<or> optimiserType s = ''Newton''"
    and "numSteps_of s + 1 \<le> 4294967295"
proof -
  show b: "numSteps_of s + 1 \<le> 4294967295"
    using assms computeTrajectory2D_RangeError[of s a] by (cases "4294967295 < numSteps_of s + 1") simp_all
  show "optimiserType s = ''Gradient Descent'' \<or> optimiserType s = ''Adam'' \<or> optimiserType s = ''Newton''"
    using assms b computeTrajectory2D_unsupported[of s a] by auto
qed

lemma traj1D_base:
  assumes "computeTrajectory1D a s = Inr t"
  shows "length (traj_x t) = numSteps_of s + 1 \<and> length (traj_y t) = numSteps_of s + 1 \<and>
         traj_x t ! 0 = initialX s \<and>
         traj_y t ! 0 = ensureValue (evaluateNumber (fn a) [''x'' \<mapsto> initialX s]) (Num 0)"
  using assms computeTrajectory1D_Inr[OF assms]
    computeTrajectory1D_GD[of s a] computeTrajectory1D_Newton[of s a] by fastforce

lemma traj2D_base:
  assumes "computeTrajectory2D a s = Inr t"
  shows "length (traj_x t) = numSteps_of s + 1 \<and> length (traj_y t) = numSteps_of s + 1 \<and>
         length (traj_z t) = numSteps_of s + 1 \<and>
         traj_x t ! 0 = initialX s \<and> traj_y t ! 0 = initialY s \<and>
         traj_z t ! 0 = ensureValue
            (evaluateNumber (fn a) [''x'' \<mapsto> initialX s, ''y'' \<mapsto> initialY s]) (Num 0)"
  using assms computeTrajectory2D_Inr[OF assms]
    computeTrajectory2D_GD[of s a] computeTrajectory2D_Adam[of s a] computeTrajectory2D_Newton[of s a]
  by fastforce

lemma gd1_traj:
  assumes "computeTrajectory1D a s = Inr t" and "optimiserType s = ''Gradient Descent''"
    and "i < numSteps_of s"
  shows "gradientDescent1D_body a s i (traj_x t, traj_y t) = (traj_x t, traj_y t)"
  using assms computeTrajectory1D_GD[of s a] computeTrajectory1D_Inr(2)[OF assms(1)] by fastforce

lemma nw1_traj:
  assumes "computeTrajectory1D a s = Inr t" and "optimiserType s = ''Newton''"
    and "i < numSteps_of s"
  shows "newton1D_body a i (traj_x t, traj_y t) = (traj_x t, traj_y t)"
  using assms computeTrajectory1D_Newton[of s a] computeTrajectory1D_Inr(2)[OF assms(1)] by fastforce

lemma gd2_traj:
  assumes "computeTrajectory2D a s = Inr t" and "optimiserType s = ''Gradient Descent''"
    and "i < numSteps_of s"
  shows "gradientDescent2D_body a s i (traj_x t, traj_y t, traj_z t) = (traj_x t, traj_y t, traj_z t)"
  using assms computeTrajectory2D_GD[of s a] computeTrajectory2D_Inr(2)[OF assms(1)] by fastforce

lemma nw2_traj:
  assumes "computeTrajectory2D a s = Inr t" and "optimiserType s = ''Newton''"
    and "i < numSteps_of s"
  shows "newton2D_body a i (traj_x t, traj_y t, traj_z t) = (traj_x t, traj_y t, traj_z t)"
  using assms computeTrajectory2D_Newton[of s a] computeTrajectory2D_Inr(2)[OF assms(1)] by fastforce

lemma adam_traj:
  assumes "computeTrajectory2D a s = Inr t" and "optimiserType s = ''Adam''"
    and "i < numSteps_of s"
  shows "adam_body a s i ((traj_x t, traj_y t, traj_z t), adam_moments_spec a s (traj_x t) (traj_y t) i) =
           ((traj_x t, traj_y t, traj_z t), adam_moments_spec a s (traj_x t) (traj_y t) (Suc i))"
  using assms computeTrajectory2D_Adam[of s a] computeTrajectory2D_Inr(2)[OF assms(1)] by fastforce

lemma traj1D_step:
  assumes r: "computeTrajectory1D a s = Inr t" and i: "i < numSteps_of s"
  shows "(stalls1D a s (traj_x t) i \<longrightarrow>
            traj_x t ! Suc i = traj_x t ! i \<and> traj_y t ! Suc i = traj_y t ! i) \<and>
         (\<not> stalls1D a s (traj_x t) i \<longrightarrow>
            traj_y t ! Suc i =
              ensureValue (evaluateNumber (fn a) [''x'' \<mapsto> traj_x t ! Suc i]) (traj_y t ! i))"
proof -
  have l: "Suc i < length (traj_x t)" "Suc i < length (traj_y t)"
    using traj1D_base[OF r] i by simp_all
  consider "optimiserType s = ''Gradient Descent''" | "optimiserType s = ''Newton''"
    using computeTrajectory1D_Inr(1)[OF r] by blast
  then show ?thesis
  proof cases
    case 1
    then show ?thesis
      using gd1_fix_step[OF gd1_traj[OF r 1 i] l] by (simp add: stalls1D_def Let_def)
  next
    case 2
    then show ?thesis
      using nw1_fix_step[OF nw1_traj[OF r 2 i] l] by (simp add: stalls1D_def Let_def)
  qed
qed

lemma traj2D_step:
  assumes r: "computeTrajectory2D a s = Inr t" and i: "i < numSteps_of s"
  shows "(stalls2D a s (traj_x t) (traj_y t) i \<longrightarrow>
            traj_x t ! Suc i = traj_x t ! i \<and> traj_y t ! Suc i = traj_y t ! i \<and>
            traj_z t ! Suc i = traj_z t ! i) \<and>
         (\<not> stalls2D a s (traj_x t) (traj_y t) i \<longrightarrow>
            traj_z t ! Suc i =
              ensureValue (evaluateNumber (fn a) [''x'' \<mapsto> traj_x t ! Suc i, ''y'' \<mapsto> traj_y t ! Suc i])
                (traj_z t ! i))"
proof -
  have l: "Suc i < length (traj_x t)" "Suc i < length (traj_y t)" "Suc i < length (traj_z t)"
    using traj2D_base[OF r] i by simp_all
  consider "optimiserType s = ''Gradient Descent''" | "optimiserType s = ''Adam''"
    | "optimiserType s = ''Newton''"
    using computeTrajectory2D_Inr(1)[OF r] by blast
  then show ?thesis
  proof cases
    case 1
    then show ?thesis
      using gd2_fix_step[OF gd2_traj[OF r 1 i] l] by (simp add: stalls2D_def Let_def)
  next
    case 2
    obtain mx my vx vy where m: "adam_moments_spec a s (traj_x t) (traj_y t) i = (mx, my, vx, vy)"
      by (cases "adam_moments_spec a s (traj_x t) (traj_y t) i") auto
    obtain mx' my' vx' vy' where m': "adam_moments_spec a s (traj_x t) (traj_y t) (Suc i) = (mx', my', vx', vy')"
      by (cases "adam_moments_spec a s (traj_x t) (traj_y t) (Suc i)") auto
    show ?thesis
      using 2 adam_fix_step[OF adam_traj[OF r 2 i, unfolded m m'] l] by (simp add: stalls2D_def Let_def)
  next
    case 3
    have "invert2x2 hxx hxy hyx hyy \<noteq> None \<longleftrightarrow> (\<exists>m. invert2x2 hxx hxy hyx hyy = Some m)"
      for hxx hxy hyx hyy by auto
    then show ?thesis
      using 3 nw2_fix_step[OF nw2_traj[OF r 3 i] l] by (auto simp add: stalls2D_def Let_def)
  qed
qed

lemma nth_constant:
  assumes "\<forall>i<n. f (Suc i) = f i" and "k \<le> n"
  shows "f k = f (0::nat)"
  using assms(2) by (induction k) (use assms(1) in auto)

lemma traj1D_all_stalled:
  assumes r: "computeTrajectory1D a s = Inr t"
    and st: "\<forall>i<k. stalls1D a s (traj_x t) i" and k: "k \<le> numSteps_of s"
  shows "traj_x t ! k = traj_x t ! 0 \<and> traj_y t ! k = traj_y t ! 0"
proof -
  have "\<forall>i<k. traj_x t ! Suc i = traj_x t ! i \<and> traj_y t ! Suc i = traj_y t ! i"
    using traj1D_step[OF r] st k by simp
  then show ?thesis
    using nth_constant[of k "\<lambda>i. traj_x t ! i" k] nth_constant[of k "\<lambda>i. traj_y t ! i" k] by simp
qed

lemma traj2D_all_stalled:
  assumes r: "computeTrajectory2D a s = Inr t"
    and st: "\<forall>i<k. stalls2D a s (traj_x t) (traj_y t) i" and k: "k \<le> numSteps_of s"
  shows "traj_x t ! k = traj_x t ! 0 \<and> traj_y t ! k = traj_y t ! 0 \<and> traj_z t ! k = traj_z t ! 0"
proof -
  have "\<forall>i<k. traj_x t ! Suc i = traj_x t ! i \<and> traj_y t ! Suc i = traj_y t ! i \<and>
      traj_z t ! Suc i = traj_z t ! i"
    using traj2D_step[OF r] st k by simp
  then show ?thesis
    using nth_constant[of k "\<lambda>i. traj_x t ! i" k] nth_constant[of k "\<lambda>i. traj_y t ! i" k]
      nth_constant[of k "\<lambda>i. traj_z t ! i" k] by simp
qed

lemmas example_defs = one_step_def square1D_def linear1D_def plane2D_def bowl2D_def
  lift1_def lift2_def always_def throwing_def

text \<open>A \<open>let\<close> is unfolded once the value it binds has been computed.\<close>

lemma Let_value:
  "Let (Num r) f = f (Num r)" "Let PosInf f = f PosInf" "Let NegInf f = f NegInf" "Let NaN f = f NaN"
  "Let (x # xs) g = g (x # xs)" "Let [] g = g []"
  "Let (0 :: nat) h = h 0" "Let (Suc n) h = h (Suc n)"
  by (simp_all add: Let_def)

lemmas run_defs = computeTrajectory1D_def computeTrajectory2D_def Array_fill_def for_loop.simps
  gd1 nw1 gd2 nw2 adam evaluateNumber_def ensureValue_def minus_jsnum_def
  EPSILON_value ADAM_EPSILON_value invert2x2_def r64 Let_value

subsection \<open>The positions do not depend on the objective\<close>

lemma for_loop_rel:
  assumes "R st st'" and "\<And>j u u'. R u u' \<Longrightarrow> R (body j u) (body' j u')"
  shows "R (for_loop i n body st) (for_loop i n body' st')"
  using assms
proof (induction i n body st arbitrary: st' rule: for_loop.induct)
  case (1 i n body st)
  show ?case
  proof (cases "i < n")
    case True
    have "R (for_loop (i + 1) n body (body i st)) (for_loop (i + 1) n body' (body' i st'))"
      using "1.IH"[OF True] "1.prems" by blast
    then show ?thesis
      using True by (simp add: for_loop.simps[of i n body st] for_loop.simps[of i n body' st'])
  next
    case False
    then show ?thesis
      using "1.prems"(1) by (simp add: for_loop.simps[of i n body st] for_loop.simps[of i n body' st'])
  qed
qed

lemma gd1_body_fn:
  assumes "same_positions1D u u'"
  shows "same_positions1D (gradientDescent1D_body (a\<lparr>fn := f\<rparr>) s j u) (gradientDescent1D_body a s j u')"
  using assms by (cases u; cases u') (simp add: same_positions1D_def gd1 Let_def)

lemma nw1_body_fn:
  assumes "same_positions1D u u'"
  shows "same_positions1D (newton1D_body (a\<lparr>fn := f\<rparr>) j u) (newton1D_body a j u')"
  using assms by (cases u; cases u') (simp add: same_positions1D_def nw1 Let_def)

lemma gd2_body_fn:
  assumes "same_positions2D u u'"
  shows "same_positions2D (gradientDescent2D_body (a\<lparr>fn := f\<rparr>) s j u) (gradientDescent2D_body a s j u')"
proof -
  obtain xs ys zs zs' where "u = (xs, ys, zs)" "u' = (xs, ys, zs')"
    using assms by (cases u; cases u') (auto simp add: same_positions2D_def)
  then show ?thesis by (simp add: same_positions2D_def gd2 Let_def)
qed

lemma nw2_body_fn:
  assumes "same_positions2D u u'"
  shows "same_positions2D (newton2D_body (a\<lparr>fn := f\<rparr>) j u) (newton2D_body a j u')"
proof -
  obtain xs ys zs zs' where "u = (xs, ys, zs)" "u' = (xs, ys, zs')"
    using assms by (cases u; cases u') (auto simp add: same_positions2D_def)
  then show ?thesis by (simp add: same_positions2D_def nw2 Let_def split: option.splits)
qed

lemma adam_body_fn:
  assumes "same_positionsAdam u u'"
  shows "same_positionsAdam (adam_body (a\<lparr>fn := f\<rparr>) s j u) (adam_body a s j u')"
proof -
  obtain xs ys zs zs' mx my vx vy where "u = ((xs, ys, zs), mx, my, vx, vy)" "u' = ((xs, ys, zs'), mx, my, vx, vy)"
    using assms by (cases u; cases u') (auto simp add: same_positionsAdam_def same_positions2D_def)
  then show ?thesis by (simp add: same_positionsAdam_def same_positions2D_def adam Let_def)
qed

lemma computeTrajectory1D_fn:
  "map_sum id traj_x (computeTrajectory1D (a\<lparr>fn := f\<rparr>) s) = map_sum id traj_x (computeTrajectory1D a s)"
proof -
  have g: "fst (for_loop 0 n (gradientDescent1D_body (a\<lparr>fn := f\<rparr>) s) (xs, ys)) =
           fst (for_loop 0 n (gradientDescent1D_body a s) (xs, ys'))" for n xs ys ys'
    using for_loop_rel[of same_positions1D "(xs, ys)" "(xs, ys')"
        "gradientDescent1D_body (a\<lparr>fn := f\<rparr>) s" "gradientDescent1D_body a s" 0 n]
      gd1_body_fn
    by (simp add: same_positions1D_def)
  have h: "fst (for_loop 0 n (newton1D_body (a\<lparr>fn := f\<rparr>)) (xs, ys)) =
           fst (for_loop 0 n (newton1D_body a) (xs, ys'))" for n xs ys ys'
    using for_loop_rel[of same_positions1D "(xs, ys)" "(xs, ys')"
        "newton1D_body (a\<lparr>fn := f\<rparr>)" "newton1D_body a" 0 n]
      nw1_body_fn
    by (simp add: same_positions1D_def)
  show ?thesis
  proof (cases "4294967295 < numSteps_of s + 1")
    case True
    then show ?thesis by (simp add: computeTrajectory1D_RangeError)
  next
    case False
    then have b: "\<not> 4294967295 < Suc (case numSteps s of None \<Rightarrow> DEFAULT_NUM_STEPS | Some k \<Rightarrow> k)"
      by (simp add: numSteps_of_def)
    show ?thesis
      unfolding computeTrajectory1D_def Let_def Array_fill_def
      using b
      by (simp add: case_prod_beta g[of _ _ _ "(replicate (numSteps_of s + 1) (Num 0))
          [0 := ensureValue (evaluateNumber (fn a) [''x'' \<mapsto> initialX s]) (Num 0)]", unfolded numSteps_of_def]
        h[of _ _ _ "(replicate (numSteps_of s + 1) (Num 0))
          [0 := ensureValue (evaluateNumber (fn a) [''x'' \<mapsto> initialX s]) (Num 0)]", unfolded numSteps_of_def])
  qed
qed

lemma computeTrajectory2D_fn:
  "map_sum id (\<lambda>t. (traj_x t, traj_y t)) (computeTrajectory2D (a\<lparr>fn := f\<rparr>) s) =
   map_sum id (\<lambda>t. (traj_x t, traj_y t)) (computeTrajectory2D a s)"
proof -
  let ?zs = "(replicate (numSteps_of s + 1) (Num 0))
          [0 := ensureValue (evaluateNumber (fn a) [''x'' \<mapsto> initialX s, ''y'' \<mapsto> initialY s]) (Num 0)]"
  have g: "same_positions2D (for_loop 0 n (gradientDescent2D_body (a\<lparr>fn := f\<rparr>) s) (xs, ys, zs))
           (for_loop 0 n (gradientDescent2D_body a s) (xs, ys, zs'))" for n xs ys zs zs'
    using for_loop_rel[of same_positions2D "(xs, ys, zs)" "(xs, ys, zs')"
        "gradientDescent2D_body (a\<lparr>fn := f\<rparr>) s" "gradientDescent2D_body a s" 0 n]
      gd2_body_fn
    by (simp add: same_positions2D_def)
  have h: "same_positions2D (for_loop 0 n (newton2D_body (a\<lparr>fn := f\<rparr>)) (xs, ys, zs))
           (for_loop 0 n (newton2D_body a) (xs, ys, zs'))" for n xs ys zs zs'
    using for_loop_rel[of same_positions2D "(xs, ys, zs)" "(xs, ys, zs')"
        "newton2D_body (a\<lparr>fn := f\<rparr>)" "newton2D_body a" 0 n]
      nw2_body_fn
    by (simp add: same_positions2D_def)
  have k: "same_positionsAdam (for_loop 0 n (adam_body (a\<lparr>fn := f\<rparr>) s) ((xs, ys, zs), M))
           (for_loop 0 n (adam_body a s) ((xs, ys, zs'), M))" for n xs ys zs zs' M
    using for_loop_rel[of same_positionsAdam "((xs, ys, zs), M)" "((xs, ys, zs'), M)"
        "adam_body (a\<lparr>fn := f\<rparr>) s" "adam_body a s" 0 n]
      adam_body_fn
    by (simp add: same_positionsAdam_def same_positions2D_def)
  show ?thesis
  proof (cases "4294967295 < numSteps_of s + 1")
    case True
    then show ?thesis by (simp add: computeTrajectory2D_RangeError)
  next
    case False
    then have b: "\<not> 4294967295 < Suc (case numSteps s of None \<Rightarrow> DEFAULT_NUM_STEPS | Some k \<Rightarrow> k)"
      by (simp add: numSteps_of_def)
    show ?thesis
      unfolding computeTrajectory2D_def Let_def Array_fill_def
      using b g[of _ _ _ _ ?zs, unfolded numSteps_of_def same_positions2D_def]
        h[of _ _ _ _ ?zs, unfolded numSteps_of_def same_positions2D_def]
        k[of _ _ _ _ _ ?zs, unfolded numSteps_of_def same_positionsAdam_def same_positions2D_def]
      by (simp add: case_prod_beta)
  qed
qed

section \<open>The claims\<close>




text \<open>
  C2, as amended. Under \<open>Gradient Descent\<close>, at every step \<open>i\<close> below
  \<open>numSteps\<close> at which the gradient is finite (in two variables: both partial
  derivatives), the next iterate is
  \<open>x[i] - learningRate * g(x[i]) + momentum * (x[i] - x[i - 1])\<close>, the last term
  being 0 at \<open>i = 0\<close>; in two variables this holds on each axis with the
  displacement of that axis. With \<open>momentum = 0\<close> this is
  \<open>x[i] - learningRate * g(x[i])\<close> at every step whose previous displacement
  \<open>x[i] - x[i - 1]\<close> is finite, and at step 0.
\<close>

theorem gradient_descent_step:
  fixes a1 :: analysis1D and a2 :: analysis2D and s :: settings
    and t1 :: trajectory1D and t2 :: trajectory2D and i :: nat
  defines "n \<equiv> numSteps_of s"
    and "g \<equiv> evaluateNumber (gradient a1) [''x'' \<mapsto> traj_x t1 ! i]"
    and "gX \<equiv> evaluateNumber (grad_x (gradient a2)) [''x'' \<mapsto> traj_x t2 ! i, ''y'' \<mapsto> traj_y t2 ! i]"
    and "gY \<equiv> evaluateNumber (grad_y (gradient a2)) [''x'' \<mapsto> traj_x t2 ! i, ''y'' \<mapsto> traj_y t2 ! i]"
  shows "(computeTrajectory1D a1 s = Inr t1 \<and> optimiserType s = ''Gradient Descent'' \<and> i < n \<and>
          isFinite g \<longrightarrow>
            traj_x t1 ! (i + 1) =
              traj_x t1 ! i - learningRate s * g
                + (if i = 0 then Num 0 else momentum s * (traj_x t1 ! i - traj_x t1 ! (i - 1))) \<and>
            (momentum s = Num 0 \<and> (i = 0 \<or> isFinite (traj_x t1 ! i - traj_x t1 ! (i - 1))) \<longrightarrow>
               traj_x t1 ! (i + 1) = traj_x t1 ! i - learningRate s * g)) \<and>
         (computeTrajectory2D a2 s = Inr t2 \<and> optimiserType s = ''Gradient Descent'' \<and> i < n \<and>
          isFinite gX \<and> isFinite gY \<longrightarrow>
            traj_x t2 ! (i + 1) =
              traj_x t2 ! i - learningRate s * gX
                + (if i = 0 then Num 0 else momentum s * (traj_x t2 ! i - traj_x t2 ! (i - 1))) \<and>
            traj_y t2 ! (i + 1) =
              traj_y t2 ! i - learningRate s * gY
                + (if i = 0 then Num 0 else momentum s * (traj_y t2 ! i - traj_y t2 ! (i - 1))) \<and>
            (momentum s = Num 0 \<and> (i = 0 \<or> isFinite (traj_x t2 ! i - traj_x t2 ! (i - 1))) \<longrightarrow>
               traj_x t2 ! (i + 1) = traj_x t2 ! i - learningRate s * gX) \<and>
            (momentum s = Num 0 \<and> (i = 0 \<or> isFinite (traj_y t2 ! i - traj_y t2 ! (i - 1))) \<longrightarrow>
               traj_y t2 ! (i + 1) = traj_y t2 ! i - learningRate s * gY))"
proof (rule conjI; rule impI)
  assume h1: "computeTrajectory1D a1 s = Inr t1 \<and> optimiserType s = ''Gradient Descent'' \<and> i < n \<and>
          isFinite g"
  then have r: "computeTrajectory1D a1 s = Inr t1" and ty: "optimiserType s = ''Gradient Descent''"
    and i: "i < numSteps_of s" and g: "isFinite g" by (simp_all add: n_def)
  have l: "Suc i < length (traj_x t1)" "Suc i < length (traj_y t1)"
    using traj1D_base[OF r] i by simp_all
  have x: "traj_x t1 ! (i + 1) =
              traj_x t1 ! i - learningRate s * g
                + (if i = 0 then Num 0 else momentum s * (traj_x t1 ! i - traj_x t1 ! (i - 1)))"
    using gd1_fix_step[OF gd1_traj[OF r ty i] l] g unfolding g_def by simp
  show "traj_x t1 ! (i + 1) =
              traj_x t1 ! i - learningRate s * g
                + (if i = 0 then Num 0 else momentum s * (traj_x t1 ! i - traj_x t1 ! (i - 1))) \<and>
            (momentum s = Num 0 \<and> (i = 0 \<or> isFinite (traj_x t1 ! i - traj_x t1 ! (i - 1))) \<longrightarrow>
               traj_x t1 ! (i + 1) = traj_x t1 ! i - learningRate s * g)"
    using x by (auto simp add: minus_plus_Num_0 Num_0_times)
next
  assume h2: "computeTrajectory2D a2 s = Inr t2 \<and> optimiserType s = ''Gradient Descent'' \<and> i < n \<and>
          isFinite gX \<and> isFinite gY"
  then have r: "computeTrajectory2D a2 s = Inr t2" and ty: "optimiserType s = ''Gradient Descent''"
    and i: "i < numSteps_of s" and g: "isFinite gX" "isFinite gY" by (simp_all add: n_def)
  have l: "Suc i < length (traj_x t2)" "Suc i < length (traj_y t2)" "Suc i < length (traj_z t2)"
    using traj2D_base[OF r] i by simp_all
  have x: "traj_x t2 ! (i + 1) =
              traj_x t2 ! i - learningRate s * gX
                + (if i = 0 then Num 0 else momentum s * (traj_x t2 ! i - traj_x t2 ! (i - 1)))"
    and y: "traj_y t2 ! (i + 1) =
              traj_y t2 ! i - learningRate s * gY
                + (if i = 0 then Num 0 else momentum s * (traj_y t2 ! i - traj_y t2 ! (i - 1)))"
    using gd2_fix_step[OF gd2_traj[OF r ty i] l] g unfolding gX_def gY_def by simp_all
  show "traj_x t2 ! (i + 1) =
              traj_x t2 ! i - learningRate s * gX
                + (if i = 0 then Num 0 else momentum s * (traj_x t2 ! i - traj_x t2 ! (i - 1))) \<and>
            traj_y t2 ! (i + 1) =
              traj_y t2 ! i - learningRate s * gY
                + (if i = 0 then Num 0 else momentum s * (traj_y t2 ! i - traj_y t2 ! (i - 1))) \<and>
            (momentum s = Num 0 \<and> (i = 0 \<or> isFinite (traj_x t2 ! i - traj_x t2 ! (i - 1))) \<longrightarrow>
               traj_x t2 ! (i + 1) = traj_x t2 ! i - learningRate s * gX) \<and>
            (momentum s = Num 0 \<and> (i = 0 \<or> isFinite (traj_y t2 ! i - traj_y t2 ! (i - 1))) \<longrightarrow>
               traj_y t2 ! (i + 1) = traj_y t2 ! i - learningRate s * gY)"
    using x y by (auto simp add: minus_plus_Num_0 Num_0_times)
qed

theorem gradient_descent_step_witness:
  "computeTrajectory1D square1D (one_step\<lparr>momentum := Num (1 / 2), numSteps := Some 2\<rparr>) =
     Inr \<lparr>traj_x = [Num (1 / 2), Num (3 / 8), Num (7 / 32)],
          traj_y = [Num (1 / 4), Num (9 / 64), Num (49 / 1024)]\<rparr> \<and>
   evaluateNumber (gradient square1D) [''x'' \<mapsto> Num (3 / 8)] = Num (3 / 4) \<and>
   [Num (1 / 2), Num (3 / 8), Num (7 / 32)] ! (1 + 1) =
     Num (3 / 8) - Num (1 / 8) * Num (3 / 4) + Num (1 / 2) * (Num (3 / 8) - Num (1 / 2)) \<and>
   computeTrajectory2D bowl2D (one_step\<lparr>numSteps := Some 2\<rparr>) =
     Inr \<lparr>traj_x = [Num (1 / 2), Num (3 / 8), Num (9 / 32)],
          traj_y = [Num (1 / 2), Num (3 / 8), Num (9 / 32)],
          traj_z = [Num (1 / 2), Num (9 / 32), Num (81 / 512)]\<rparr> \<and>
   momentum (one_step\<lparr>numSteps := Some 2\<rparr>) = Num 0 \<and>
   isFinite (Num (3 / 8) - Num (1 / 2)) \<and>
   [Num (1 / 2), Num (3 / 8), Num (9 / 32)] ! (1 + 1) = Num (3 / 8) - Num (1 / 8) * Num (3 / 4)"
proof -
  let ?s1 = "one_step\<lparr>momentum := Num (1 / 2), numSteps := Some 2\<rparr>"
  let ?s2 = "one_step\<lparr>numSteps := Some 2\<rparr>"
  let ?t1 = "\<lparr>traj_x = [Num (1 / 2), Num (3 / 8), Num (7 / 32)],
          traj_y = [Num (1 / 4), Num (9 / 64), Num (49 / 1024)]\<rparr>"
  let ?t2 = "\<lparr>traj_x = [Num (1 / 2), Num (3 / 8), Num (9 / 32)],
          traj_y = [Num (1 / 2), Num (3 / 8), Num (9 / 32)],
          traj_z = [Num (1 / 2), Num (9 / 32), Num (81 / 512)]\<rparr>"
  have n: "numSteps_of ?s1 = 2" "numSteps_of ?s2 = 2"
      "optimiserType ?s1 = ''Gradient Descent''" "optimiserType ?s2 = ''Gradient Descent''"
      "learningRate ?s1 = Num (1 / 8)" "learningRate ?s2 = Num (1 / 8)"
      "momentum ?s1 = Num (1 / 2)" "momentum ?s2 = Num 0"
    by (simp_all add: numSteps_of_def one_step_def)
  have r1: "computeTrajectory1D square1D ?s1 = Inr ?t1"
    by (simp add: example_defs run_defs numeral_2_eq_2)
  have g1: "evaluateNumber (gradient square1D) [''x'' \<mapsto> Num (3 / 8)] = Num (3 / 4)"
    by (simp add: example_defs evaluateNumber_def r64)
  have r2: "computeTrajectory2D bowl2D ?s2 = Inr ?t2"
    by (simp add: example_defs run_defs numeral_2_eq_2)
  have g2: "evaluateNumber (grad_x (gradient bowl2D)) [''x'' \<mapsto> Num (3 / 8), ''y'' \<mapsto> Num (3 / 8)] = Num (3 / 4)"
    "evaluateNumber (grad_y (gradient bowl2D)) [''x'' \<mapsto> Num (3 / 8), ''y'' \<mapsto> Num (3 / 8)] = Num (3 / 4)"
    by (simp_all add: example_defs evaluateNumber_def r64)
  have f: "isFinite (Num (3 / 8) - Num (1 / 2))"
    by (simp add: r64)
  have c1: "traj_x ?t1 ! (1 + 1) =
      Num (3 / 8) - Num (1 / 8) * Num (3 / 4) + Num (1 / 2) * (Num (3 / 8) - Num (1 / 2))"
    using gradient_descent_step[where ?a1.0 = square1D and s = ?s1 and ?t1.0 = ?t1 and i = 1
        and ?a2.0 = bowl2D and ?t2.0 = ?t2] r1
    by (simp add: n g1 r64)
  have c2: "traj_x ?t2 ! (1 + 1) = Num (3 / 8) - Num (1 / 8) * Num (3 / 4)"
    using gradient_descent_step[where ?a1.0 = square1D and s = ?s2 and ?t1.0 = ?t1 and i = 1
        and ?a2.0 = bowl2D and ?t2.0 = ?t2] r2 f
    by (simp add: n g2 r64)
  show ?thesis
    using r1 g1 c1 r2 f c2 by (simp add: n r64)
qed

text \<open>
  C2 as stated has the last equation at every step. The momentum term is computed also
  when \<open>momentum\<close> is 0, and \<open>0 * (Infinity - Infinity)\<close> is NaN: from the
  initial point \<open>Infinity\<close> on the function \<open>x\<close> (gradient 1), the
  iterate of index 2 is NaN where the plain step gives \<open>Infinity\<close>.
\<close>

theorem momentum_zero_counterexample:
  "computeTrajectory1D linear1D (one_step\<lparr>initialX := PosInf, numSteps := Some 2\<rparr>) =
     Inr \<lparr>traj_x = [PosInf, PosInf, NaN], traj_y = [Num 0, Num 0, Num 0]\<rparr> \<and>
   optimiserType (one_step\<lparr>initialX := PosInf, numSteps := Some 2\<rparr>) = ''Gradient Descent'' \<and>
   momentum (one_step\<lparr>initialX := PosInf, numSteps := Some 2\<rparr>) = Num 0 \<and>
   isFinite (evaluateNumber (gradient linear1D) [''x'' \<mapsto> [PosInf, PosInf, NaN] ! 1]) \<and>
   [PosInf, PosInf, NaN] ! 2 \<noteq>
     [PosInf, PosInf, NaN] ! 1
       - learningRate (one_step\<lparr>initialX := PosInf, numSteps := Some 2\<rparr>)
         * evaluateNumber (gradient linear1D) [''x'' \<mapsto> [PosInf, PosInf, NaN] ! 1]"
  by (simp add: example_defs run_defs numeral_2_eq_2 infinity_of_sign_def)

text \<open>
  C3. Under \<open>Adam\<close>, with the moments of the specification (0 before the first
  step, \<open>m \<leftarrow> \<beta>1 m + (1 - \<beta>1) g\<close> and
  \<open>v \<leftarrow> \<beta>2 v + (1 - \<beta>2) g\<^sup>2\<close> on each axis at a step at which both partial
  derivatives are finite), such a step \<open>i\<close> takes \<open>x[i]\<close> to
  \<open>x[i] - learningRate * mHat / (sqrt vHat + 1e-8)\<close>, where \<open>mHat\<close> and
  \<open>vHat\<close> are the new moments divided by \<open>1 - \<beta> ** (i + 1)\<close>, or by
  \<open>EPSILON\<close> when the magnitude of that correction is below \<open>EPSILON\<close>; the
  same on the \<open>y\<close> axis. The source replaces every correction whose magnitude is
  not greater than \<open>EPSILON\<close>; the quotients are the same, because no correction
  is \<open>- EPSILON\<close> and a moment divided by anything is NaN when the correction is.
\<close>

theorem adam_step:
  fixes a :: analysis2D and s :: settings and t :: trajectory2D and i :: nat
  defines "n \<equiv> numSteps_of s"
    and "gX \<equiv> evaluateNumber (grad_x (gradient a)) [''x'' \<mapsto> traj_x t ! i, ''y'' \<mapsto> traj_y t ! i]"
    and "gY \<equiv> evaluateNumber (grad_y (gradient a)) [''x'' \<mapsto> traj_x t ! i, ''y'' \<mapsto> traj_y t ! i]"
  shows "adam_moments_spec a s (traj_x t) (traj_y t) 0 = (Num 0, Num 0, Num 0, Num 0) \<and>
         (computeTrajectory2D a s = Inr t \<and> optimiserType s = ''Adam'' \<and> i < n \<and>
          isFinite gX \<and> isFinite gY \<longrightarrow>
            (case adam_moments_spec a s (traj_x t) (traj_y t) i of (mx0, my0, vx0, vy0) \<Rightarrow>
             case adam_moments_spec a s (traj_x t) (traj_y t) (i + 1) of (mx, my, vx, vy) \<Rightarrow>
               mx = beta1 s * mx0 + (Num 1 - beta1 s) * gX \<and>
               my = beta1 s * my0 + (Num 1 - beta1 s) * gY \<and>
               vx = beta2 s * vx0 + (Num 1 - beta2 s) * gX * gX \<and>
               vy = beta2 s * vy0 + (Num 1 - beta2 s) * gY * gY \<and>
               traj_x t ! (i + 1) =
                 traj_x t ! i - learningRate s * (mx / correction_denominator_spec (beta1 s) i)
                                 / (Math_sqrt (vx / correction_denominator_spec (beta2 s) i) + ADAM_EPSILON) \<and>
               traj_y t ! (i + 1) =
                 traj_y t ! i - learningRate s * (my / correction_denominator_spec (beta1 s) i)
                                 / (Math_sqrt (vy / correction_denominator_spec (beta2 s) i) + ADAM_EPSILON)))"
proof (rule conjI)
  show "adam_moments_spec a s (traj_x t) (traj_y t) 0 = (Num 0, Num 0, Num 0, Num 0)"
    by (simp add: adam_moments_spec.simps)
next
  show "computeTrajectory2D a s = Inr t \<and> optimiserType s = ''Adam'' \<and> i < n \<and>
          isFinite gX \<and> isFinite gY \<longrightarrow>
            (case adam_moments_spec a s (traj_x t) (traj_y t) i of (mx0, my0, vx0, vy0) \<Rightarrow>
             case adam_moments_spec a s (traj_x t) (traj_y t) (i + 1) of (mx, my, vx, vy) \<Rightarrow>
               mx = beta1 s * mx0 + (Num 1 - beta1 s) * gX \<and>
               my = beta1 s * my0 + (Num 1 - beta1 s) * gY \<and>
               vx = beta2 s * vx0 + (Num 1 - beta2 s) * gX * gX \<and>
               vy = beta2 s * vy0 + (Num 1 - beta2 s) * gY * gY \<and>
               traj_x t ! (i + 1) =
                 traj_x t ! i - learningRate s * (mx / correction_denominator_spec (beta1 s) i)
                                 / (Math_sqrt (vx / correction_denominator_spec (beta2 s) i) + ADAM_EPSILON) \<and>
               traj_y t ! (i + 1) =
                 traj_y t ! i - learningRate s * (my / correction_denominator_spec (beta1 s) i)
                                 / (Math_sqrt (vy / correction_denominator_spec (beta2 s) i) + ADAM_EPSILON))"
  proof (rule impI)
    assume h: "computeTrajectory2D a s = Inr t \<and> optimiserType s = ''Adam'' \<and> i < n \<and>
          isFinite gX \<and> isFinite gY"
    then have r: "computeTrajectory2D a s = Inr t" and ty: "optimiserType s = ''Adam''"
      and i: "i < numSteps_of s" and g: "isFinite gX" "isFinite gY" by (simp_all add: n_def)
    have l: "Suc i < length (traj_x t)" "Suc i < length (traj_y t)" "Suc i < length (traj_z t)"
      using traj2D_base[OF r] i by simp_all
    obtain mx0 my0 vx0 vy0 where m0: "adam_moments_spec a s (traj_x t) (traj_y t) i = (mx0, my0, vx0, vy0)"
      by (cases "adam_moments_spec a s (traj_x t) (traj_y t) i") auto
    obtain mx my vx vy where m1: "adam_moments_spec a s (traj_x t) (traj_y t) (Suc i) = (mx, my, vx, vy)"
      by (cases "adam_moments_spec a s (traj_x t) (traj_y t) (Suc i)") auto
    have e: "mx = beta1 s * mx0 + (Num 1 - beta1 s) * gX"
        "my = beta1 s * my0 + (Num 1 - beta1 s) * gY"
        "vx = beta2 s * vx0 + (Num 1 - beta2 s) * gX * gX"
        "vy = beta2 s * vy0 + (Num 1 - beta2 s) * gY * gY"
      and x: "traj_x t ! Suc i =
                 traj_x t ! i - learningRate s * (mx / correction_denominator (beta1 s) i)
                                 / (Math_sqrt (vx / correction_denominator (beta2 s) i) + ADAM_EPSILON)"
      and y: "traj_y t ! Suc i =
                 traj_y t ! i - learningRate s * (my / correction_denominator (beta1 s) i)
                                 / (Math_sqrt (vy / correction_denominator (beta2 s) i) + ADAM_EPSILON)"
      using adam_fix_step[OF adam_traj[OF r ty i, unfolded m0 m1] l] g
      unfolding gX_def gY_def by simp_all
    have d: "mx / correction_denominator (beta1 s) i = mx / correction_denominator_spec (beta1 s) i"
        "my / correction_denominator (beta1 s) i = my / correction_denominator_spec (beta1 s) i"
        "vx / correction_denominator (beta2 s) i = vx / correction_denominator_spec (beta2 s) i"
        "vy / correction_denominator (beta2 s) i = vy / correction_denominator_spec (beta2 s) i"
      unfolding e by (rule divide_correction_denominator)+
    have x': "traj_x t ! Suc i =
                 traj_x t ! i - learningRate s * (mx / correction_denominator_spec (beta1 s) i)
                                 / (Math_sqrt (vx / correction_denominator_spec (beta2 s) i) + ADAM_EPSILON)"
      and y': "traj_y t ! Suc i =
                 traj_y t ! i - learningRate s * (my / correction_denominator_spec (beta1 s) i)
                                 / (Math_sqrt (vy / correction_denominator_spec (beta2 s) i) + ADAM_EPSILON)"
      using x y by (simp_all only: d)
    have "mx = beta1 s * mx0 + (Num 1 - beta1 s) * gX \<and>
               my = beta1 s * my0 + (Num 1 - beta1 s) * gY \<and>
               vx = beta2 s * vx0 + (Num 1 - beta2 s) * gX * gX \<and>
               vy = beta2 s * vy0 + (Num 1 - beta2 s) * gY * gY \<and>
               traj_x t ! Suc i =
                 traj_x t ! i - learningRate s * (mx / correction_denominator_spec (beta1 s) i)
                                 / (Math_sqrt (vx / correction_denominator_spec (beta2 s) i) + ADAM_EPSILON) \<and>
               traj_y t ! Suc i =
                 traj_y t ! i - learningRate s * (my / correction_denominator_spec (beta1 s) i)
                                 / (Math_sqrt (vy / correction_denominator_spec (beta2 s) i) + ADAM_EPSILON)"
      using e x' y' by blast
    then show "case adam_moments_spec a s (traj_x t) (traj_y t) i of (mx0, my0, vx0, vy0) \<Rightarrow>
             case adam_moments_spec a s (traj_x t) (traj_y t) (i + 1) of (mx, my, vx, vy) \<Rightarrow>
               mx = beta1 s * mx0 + (Num 1 - beta1 s) * gX \<and>
               my = beta1 s * my0 + (Num 1 - beta1 s) * gY \<and>
               vx = beta2 s * vx0 + (Num 1 - beta2 s) * gX * gX \<and>
               vy = beta2 s * vy0 + (Num 1 - beta2 s) * gY * gY \<and>
               traj_x t ! (i + 1) =
                 traj_x t ! i - learningRate s * (mx / correction_denominator_spec (beta1 s) i)
                                 / (Math_sqrt (vx / correction_denominator_spec (beta2 s) i) + ADAM_EPSILON) \<and>
               traj_y t ! (i + 1) =
                 traj_y t ! i - learningRate s * (my / correction_denominator_spec (beta1 s) i)
                                 / (Math_sqrt (vy / correction_denominator_spec (beta2 s) i) + ADAM_EPSILON)"
      by (simp only: m0 m1 Suc_eq_plus1[symmetric] prod.case)
  qed
qed

theorem adam_step_witness:
  "computeTrajectory2D plane2D (one_step\<lparr>optimiserType := ''Adam''\<rparr>) =
     Inr \<lparr>traj_x = [Num (1 / 2), Num (3377699731786871 / 2 ^ 53)],
          traj_y = [Num (1 / 2), Num (3377699731786871 / 2 ^ 53)],
          traj_z = [Num 1, Num (3377699731786871 / 2 ^ 52)]\<rparr> \<and>
   adam_moments_spec plane2D (one_step\<lparr>optimiserType := ''Adam''\<rparr>)
       [Num (1 / 2), Num (3377699731786871 / 2 ^ 53)] [Num (1 / 2), Num (3377699731786871 / 2 ^ 53)] (0 + 1) =
     (Num (1 / 2), Num (1 / 2), Num (1 / 2), Num (1 / 2)) \<and>
   correction_denominator_spec (Num (1 / 2)) 0 = Num (1 / 2) \<and>
   [Num (1 / 2), Num (3377699731786871 / 2 ^ 53)] ! (0 + 1) =
     Num (1 / 2) - Num (1 / 8) * (Num (1 / 2) / Num (1 / 2))
                     / (Math_sqrt (Num (1 / 2) / Num (1 / 2)) + ADAM_EPSILON)"
proof -
  let ?s = "one_step\<lparr>optimiserType := ''Adam''\<rparr>"
  let ?xs = "[Num (1 / 2), Num (3377699731786871 / 2 ^ 53)]"
  let ?t = "\<lparr>traj_x = ?xs, traj_y = ?xs, traj_z = [Num 1, Num (3377699731786871 / 2 ^ 52)]\<rparr>"
  have n: "numSteps_of ?s = 1" "optimiserType ?s = ''Adam''" "learningRate ?s = Num (1 / 8)"
      "beta1 ?s = Num (1 / 2)" "beta2 ?s = Num (1 / 2)"
    by (simp_all add: numSteps_of_def one_step_def)
  have r: "computeTrajectory2D plane2D ?s = Inr ?t"
    by (simp add: example_defs run_defs)
  have g: "evaluateNumber (grad_x (gradient plane2D)) [''x'' \<mapsto> Num (1 / 2), ''y'' \<mapsto> Num (1 / 2)] = Num 1"
    "evaluateNumber (grad_y (gradient plane2D)) [''x'' \<mapsto> Num (1 / 2), ''y'' \<mapsto> Num (1 / 2)] = Num 1"
    by (simp_all add: example_defs evaluateNumber_def)
  have m: "adam_moments_spec plane2D ?s ?xs ?xs (Suc 0) =
      (Num (1 / 2), Num (1 / 2), Num (1 / 2), Num (1 / 2))"
    by (simp add: adam_moments_spec.simps g n r64)
  have d: "correction_denominator_spec (Num (1 / 2)) 0 = Num (1 / 2)"
    by (simp add: correction_denominator_spec_def EPSILON_value r64)
  have c: "traj_x ?t ! (0 + 1) =
     Num (1 / 2) - Num (1 / 8) * (Num (1 / 2) / Num (1 / 2))
                     / (Math_sqrt (Num (1 / 2) / Num (1 / 2)) + ADAM_EPSILON)"
    using adam_step[where a = plane2D and s = ?s and t = ?t and i = 0] r
    by (simp add: n g m d adam_moments_spec.simps(1) ADAM_EPSILON_value r64)
  show ?thesis using r m d c by (simp add: ADAM_EPSILON_value r64)
qed

text \<open>
  C4, as amended. Under \<open>Newton\<close> a step stalls (position and objective at
  index \<open>i + 1\<close> are those at index \<open>i\<close>) whenever, in one variable, the
  gradient or the Hessian is invalid or the magnitude of the Hessian is below
  \<open>EPSILON\<close>, and, in two variables, one of the six scalars is invalid or
  \<open>invert2x2\<close> reports the Hessian singular. Otherwise the new position is
  \<open>x - g / h\<close>, respectively the position minus the product of the inverse and the
  gradient.
\<close>

theorem newton_step:
  fixes a1 :: analysis1D and a2 :: analysis2D and s :: settings
    and t1 :: trajectory1D and t2 :: trajectory2D and i :: nat
  defines "n \<equiv> numSteps_of s"
    and "g \<equiv> evaluateNumber (gradient a1) [''x'' \<mapsto> traj_x t1 ! i]"
    and "h \<equiv> evaluateNumber (hessian a1) [''x'' \<mapsto> traj_x t1 ! i]"
    and "gX \<equiv> evaluateNumber (grad_x (gradient a2)) [''x'' \<mapsto> traj_x t2 ! i, ''y'' \<mapsto> traj_y t2 ! i]"
    and "gY \<equiv> evaluateNumber (grad_y (gradient a2)) [''x'' \<mapsto> traj_x t2 ! i, ''y'' \<mapsto> traj_y t2 ! i]"
    and "hxx \<equiv> evaluateNumber (hess_xx (hessian a2)) [''x'' \<mapsto> traj_x t2 ! i, ''y'' \<mapsto> traj_y t2 ! i]"
    and "hxy \<equiv> evaluateNumber (hess_xy (hessian a2)) [''x'' \<mapsto> traj_x t2 ! i, ''y'' \<mapsto> traj_y t2 ! i]"
    and "hyx \<equiv> evaluateNumber (hess_yx (hessian a2)) [''x'' \<mapsto> traj_x t2 ! i, ''y'' \<mapsto> traj_y t2 ! i]"
    and "hyy \<equiv> evaluateNumber (hess_yy (hessian a2)) [''x'' \<mapsto> traj_x t2 ! i, ''y'' \<mapsto> traj_y t2 ! i]"
  shows "(computeTrajectory1D a1 s = Inr t1 \<and> optimiserType s = ''Newton'' \<and> i < n \<longrightarrow>
            (\<not> isFinite g \<or> \<not> isFinite h \<or> \<bar>h\<bar> < EPSILON \<longrightarrow>
               traj_x t1 ! (i + 1) = traj_x t1 ! i \<and> traj_y t1 ! (i + 1) = traj_y t1 ! i) \<and>
            (isFinite g \<and> isFinite h \<and> \<not> \<bar>h\<bar> < EPSILON \<longrightarrow>
               traj_x t1 ! (i + 1) = traj_x t1 ! i - g / h)) \<and>
         (computeTrajectory2D a2 s = Inr t2 \<and> optimiserType s = ''Newton'' \<and> i < n \<longrightarrow>
            (\<not> isFinite gX \<or> \<not> isFinite gY \<or> \<not> isFinite hxx \<or> \<not> isFinite hxy \<or>
             \<not> isFinite hyx \<or> \<not> isFinite hyy \<or> invert2x2 hxx hxy hyx hyy = None \<longrightarrow>
               traj_x t2 ! (i + 1) = traj_x t2 ! i \<and> traj_y t2 ! (i + 1) = traj_y t2 ! i \<and>
               traj_z t2 ! (i + 1) = traj_z t2 ! i) \<and>
            (\<forall>m. isFinite gX \<and> isFinite gY \<and> isFinite hxx \<and> isFinite hxy \<and> isFinite hyx \<and>
                 isFinite hyy \<and> invert2x2 hxx hxy hyx hyy = Some m \<longrightarrow>
               traj_x t2 ! (i + 1) = traj_x t2 ! i - (xx m * gX + xy m * gY) \<and>
               traj_y t2 ! (i + 1) = traj_y t2 ! i - (yx m * gX + yy m * gY)))"
proof (rule conjI; rule impI)
  assume h1: "computeTrajectory1D a1 s = Inr t1 \<and> optimiserType s = ''Newton'' \<and> i < n"
  then have r: "computeTrajectory1D a1 s = Inr t1" and ty: "optimiserType s = ''Newton''"
    and i: "i < numSteps_of s" by (simp_all add: n_def)
  have l: "Suc i < length (traj_x t1)" "Suc i < length (traj_y t1)"
    using traj1D_base[OF r] i by simp_all
  show "(\<not> isFinite g \<or> \<not> isFinite h \<or> \<bar>h\<bar> < EPSILON \<longrightarrow>
               traj_x t1 ! (i + 1) = traj_x t1 ! i \<and> traj_y t1 ! (i + 1) = traj_y t1 ! i) \<and>
            (isFinite g \<and> isFinite h \<and> \<not> \<bar>h\<bar> < EPSILON \<longrightarrow>
               traj_x t1 ! (i + 1) = traj_x t1 ! i - g / h)"
    using nw1_fix_step[OF nw1_traj[OF r ty i] l] unfolding g_def h_def by simp
next
  assume h2: "computeTrajectory2D a2 s = Inr t2 \<and> optimiserType s = ''Newton'' \<and> i < n"
  then have r: "computeTrajectory2D a2 s = Inr t2" and ty: "optimiserType s = ''Newton''"
    and i: "i < numSteps_of s" by (simp_all add: n_def)
  have l: "Suc i < length (traj_x t2)" "Suc i < length (traj_y t2)" "Suc i < length (traj_z t2)"
    using traj2D_base[OF r] i by simp_all
  show "(\<not> isFinite gX \<or> \<not> isFinite gY \<or> \<not> isFinite hxx \<or> \<not> isFinite hxy \<or>
             \<not> isFinite hyx \<or> \<not> isFinite hyy \<or> invert2x2 hxx hxy hyx hyy = None \<longrightarrow>
               traj_x t2 ! (i + 1) = traj_x t2 ! i \<and> traj_y t2 ! (i + 1) = traj_y t2 ! i \<and>
               traj_z t2 ! (i + 1) = traj_z t2 ! i) \<and>
            (\<forall>m. isFinite gX \<and> isFinite gY \<and> isFinite hxx \<and> isFinite hxy \<and> isFinite hyx \<and>
                 isFinite hyy \<and> invert2x2 hxx hxy hyx hyy = Some m \<longrightarrow>
               traj_x t2 ! (i + 1) = traj_x t2 ! i - (xx m * gX + xy m * gY) \<and>
               traj_y t2 ! (i + 1) = traj_y t2 ! i - (yx m * gX + yy m * gY))"
    using nw2_fix_step[OF nw2_traj[OF r ty i] l]
    unfolding gX_def gY_def hxx_def hxy_def hyx_def hyy_def by simp
qed

theorem newton_step_witness:
  "computeTrajectory1D square1D (one_step\<lparr>optimiserType := ''Newton''\<rparr>) =
     Inr \<lparr>traj_x = [Num (1 / 2), Num 0], traj_y = [Num (1 / 4), Num 0]\<rparr> \<and>
   evaluateNumber (gradient square1D) [''x'' \<mapsto> Num (1 / 2)] = Num 1 \<and>
   evaluateNumber (hessian square1D) [''x'' \<mapsto> Num (1 / 2)] = Num 2 \<and>
   \<not> \<bar>Num 2\<bar> < EPSILON \<and>
   [Num (1 / 2), Num 0] ! (0 + 1) = [Num (1 / 2), Num 0] ! 0 - Num 1 / Num 2 \<and>
   computeTrajectory1D linear1D (one_step\<lparr>optimiserType := ''Newton''\<rparr>) =
     Inr \<lparr>traj_x = [Num (1 / 2), Num (1 / 2)], traj_y = [Num (1 / 2), Num (1 / 2)]\<rparr> \<and>
   \<bar>evaluateNumber (hessian linear1D) [''x'' \<mapsto> Num (1 / 2)]\<bar> < EPSILON \<and>
   [Num (1 / 2), Num (1 / 2 :: real)] ! (0 + 1) = [Num (1 / 2), Num (1 / 2)] ! 0 \<and>
   computeTrajectory2D bowl2D (one_step\<lparr>optimiserType := ''Newton''\<rparr>) =
     Inr \<lparr>traj_x = [Num (1 / 2), Num 0], traj_y = [Num (1 / 2), Num 0], traj_z = [Num (1 / 2), Num 0]\<rparr> \<and>
   invert2x2 (Num 2) (Num 0) (Num 0) (Num 2) = Some \<lparr>xx = Num (1 / 2), xy = Num 0, yx = Num 0, yy = Num (1 / 2)\<rparr> \<and>
   [Num (1 / 2), Num 0] ! (0 + 1) = [Num (1 / 2), Num 0] ! 0 - (Num (1 / 2) * Num 1 + Num 0 * Num 1) \<and>
   computeTrajectory2D plane2D (one_step\<lparr>optimiserType := ''Newton''\<rparr>) =
     Inr \<lparr>traj_x = [Num (1 / 2), Num (1 / 2)], traj_y = [Num (1 / 2), Num (1 / 2)], traj_z = [Num 1, Num 1]\<rparr> \<and>
   invert2x2 (Num 0) (Num 0) (Num 0) (Num 0) = None \<and>
   [Num 1, Num (1 :: real)] ! (0 + 1) = [Num 1, Num 1] ! 0"
proof -
  let ?s = "one_step\<lparr>optimiserType := ''Newton''\<rparr>"
  let ?t1 = "\<lparr>traj_x = [Num (1 / 2), Num 0], traj_y = [Num (1 / 4), Num 0]\<rparr>"
  let ?t1' = "\<lparr>traj_x = [Num (1 / 2), Num (1 / 2)], traj_y = [Num (1 / 2), Num (1 / 2)]\<rparr>"
  let ?t2 = "\<lparr>traj_x = [Num (1 / 2), Num 0], traj_y = [Num (1 / 2), Num 0], traj_z = [Num (1 / 2), Num 0]\<rparr>"
  let ?t2' = "\<lparr>traj_x = [Num (1 / 2), Num (1 / 2)], traj_y = [Num (1 / 2), Num (1 / 2)], traj_z = [Num 1, Num 1]\<rparr>"
  let ?m = "\<lparr>xx = Num (1 / 2), xy = Num 0, yx = Num 0, yy = Num (1 / 2)\<rparr>"
  have n: "numSteps_of ?s = 1" "optimiserType ?s = ''Newton''"
    by (simp_all add: numSteps_of_def one_step_def)
  have r1: "computeTrajectory1D square1D ?s = Inr ?t1"
    by (simp add: example_defs run_defs)
  have g1: "evaluateNumber (gradient square1D) [''x'' \<mapsto> Num (1 / 2)] = Num 1"
    and h1: "evaluateNumber (hessian square1D) [''x'' \<mapsto> Num (1 / 2)] = Num 2"
    and e1: "\<not> \<bar>Num 2\<bar> < EPSILON"
    by (simp_all add: example_defs evaluateNumber_def EPSILON_value r64)
  have c1: "traj_x ?t1 ! (0 + 1) = traj_x ?t1 ! 0 - Num 1 / Num 2"
    using newton_step[where ?a1.0 = square1D and s = ?s and ?t1.0 = ?t1 and i = 0
        and ?a2.0 = bowl2D and ?t2.0 = ?t2] r1 g1 h1 e1 n
    by (simp add: r64)
  have r1': "computeTrajectory1D linear1D ?s = Inr ?t1'"
    by (simp add: example_defs run_defs)
  have h1': "\<bar>evaluateNumber (hessian linear1D) [''x'' \<mapsto> Num (1 / 2)]\<bar> < EPSILON"
    by (simp add: example_defs evaluateNumber_def EPSILON_value r64)
  have c1': "traj_y ?t1' ! (0 + 1) = traj_y ?t1' ! 0"
    using newton_step[where ?a1.0 = linear1D and s = ?s and ?t1.0 = ?t1' and i = 0
        and ?a2.0 = bowl2D and ?t2.0 = ?t2] r1' h1' n
    by (simp add: r64)
  have r2: "computeTrajectory2D bowl2D ?s = Inr ?t2"
    by (simp add: example_defs run_defs)
  have i2: "invert2x2 (Num 2) (Num 0) (Num 0) (Num 2) = Some ?m"
    by (simp add: invert2x2_def Let_def EPSILON_value r64 minus_jsnum_def)
  have v2: "evaluateNumber (grad_x (gradient bowl2D)) [''x'' \<mapsto> Num (1 / 2), ''y'' \<mapsto> Num (1 / 2)] = Num 1"
      "evaluateNumber (grad_y (gradient bowl2D)) [''x'' \<mapsto> Num (1 / 2), ''y'' \<mapsto> Num (1 / 2)] = Num 1"
      "evaluateNumber (hess_xx (hessian bowl2D)) [''x'' \<mapsto> Num (1 / 2), ''y'' \<mapsto> Num (1 / 2)] = Num 2"
      "evaluateNumber (hess_xy (hessian bowl2D)) [''x'' \<mapsto> Num (1 / 2), ''y'' \<mapsto> Num (1 / 2)] = Num 0"
      "evaluateNumber (hess_yx (hessian bowl2D)) [''x'' \<mapsto> Num (1 / 2), ''y'' \<mapsto> Num (1 / 2)] = Num 0"
      "evaluateNumber (hess_yy (hessian bowl2D)) [''x'' \<mapsto> Num (1 / 2), ''y'' \<mapsto> Num (1 / 2)] = Num 2"
    by (simp_all add: example_defs evaluateNumber_def r64)
  have c2: "traj_x ?t2 ! (0 + 1) = traj_x ?t2 ! 0 - (xx ?m * Num 1 + xy ?m * Num 1)"
    using newton_step[where ?a2.0 = bowl2D and s = ?s and ?t2.0 = ?t2 and i = 0
        and ?a1.0 = square1D and ?t1.0 = ?t1] r2 n
    by (simp add: v2 i2 r64)
  have r2': "computeTrajectory2D plane2D ?s = Inr ?t2'"
    by (simp add: example_defs run_defs)
  have i2': "invert2x2 (Num 0) (Num 0) (Num 0) (Num 0) = None"
    by (simp add: invert2x2_def Let_def EPSILON_value r64 minus_jsnum_def)
  have v2': "evaluateNumber (hess_xx (hessian plane2D)) [''x'' \<mapsto> Num (1 / 2), ''y'' \<mapsto> Num (1 / 2)] = Num 0"
      "evaluateNumber (hess_xy (hessian plane2D)) [''x'' \<mapsto> Num (1 / 2), ''y'' \<mapsto> Num (1 / 2)] = Num 0"
      "evaluateNumber (hess_yx (hessian plane2D)) [''x'' \<mapsto> Num (1 / 2), ''y'' \<mapsto> Num (1 / 2)] = Num 0"
      "evaluateNumber (hess_yy (hessian plane2D)) [''x'' \<mapsto> Num (1 / 2), ''y'' \<mapsto> Num (1 / 2)] = Num 0"
    by (simp_all add: example_defs evaluateNumber_def r64)
  have c2': "traj_z ?t2' ! (0 + 1) = traj_z ?t2' ! 0"
    using newton_step[where ?a2.0 = plane2D and s = ?s and ?t2.0 = ?t2' and i = 0
        and ?a1.0 = square1D and ?t1.0 = ?t1] r2' n
    by (simp add: v2' i2' r64)
  show ?thesis
    using r1 g1 h1 e1 c1 r1' h1' c1' r2 i2 c2 r2' i2' c2' by (simp add: r64)
qed

text \<open>
  C4 as stated says that a step stalls exactly when one of these conditions holds. A
  Newton step from a stationary point leaves position and objective as they are with
  none of them holding: on \<open>x^2\<close> from 1, the step of index 1 starts at 0 with
  gradient 0 and Hessian 2.
\<close>

theorem newton_stationary_counterexample:
  "computeTrajectory1D square1D (one_step\<lparr>optimiserType := ''Newton'', initialX := Num 1, numSteps := Some 2\<rparr>) =
     Inr \<lparr>traj_x = [Num 1, Num 0, Num 0], traj_y = [Num 1, Num 0, Num 0]\<rparr> \<and>
   [Num 1, Num 0, Num (0 :: real)] ! 2 = [Num 1, Num 0, Num 0] ! 1 \<and>
   isFinite (evaluateNumber (gradient square1D) [''x'' \<mapsto> [Num 1, Num 0, Num 0] ! 1]) \<and>
   isFinite (evaluateNumber (hessian square1D) [''x'' \<mapsto> [Num 1, Num 0, Num 0] ! 1]) \<and>
   \<not> \<bar>evaluateNumber (hessian square1D) [''x'' \<mapsto> [Num 1, Num 0, Num 0] ! 1]\<bar> < EPSILON"
  by (simp add: example_defs run_defs numeral_2_eq_2)

text \<open>
  C5, as amended. \<open>invert2x2 a b c d\<close> reports a singular matrix exactly when the
  determinant \<open>a d - b c\<close>, as the arithmetic computes it, is not finite or its
  magnitude is below \<open>EPSILON\<close>. Otherwise the four arguments are finite and it
  returns \<open>{xx: d r, xy: - b r, yx: - c r, yy: a r}\<close> with \<open>r = 1 / det\<close>,
  each product and the reciprocal being rounded.
\<close>

theorem invert2x2_cases:
  fixes a b c d :: jsnum
  defines "det \<equiv> a * d - b * c"
  shows "(invert2x2 a b c d = None \<longleftrightarrow> \<not> isFinite det \<or> \<bar>det\<bar> < EPSILON) \<and>
         (\<forall>m. invert2x2 a b c d = Some m \<longrightarrow>
            isFinite a \<and> isFinite b \<and> isFinite c \<and> isFinite d \<and>
            m = \<lparr>xx = d * (Num 1 / det), xy = - b * (Num 1 / det),
                 yx = - c * (Num 1 / det), yy = a * (Num 1 / det)\<rparr>)"
proof (rule conjI)
  show "invert2x2 a b c d = None \<longleftrightarrow> \<not> isFinite det \<or> \<bar>det\<bar> < EPSILON"
    by (simp add: invert2x2_def det_def Let_def)
next
  show "\<forall>m. invert2x2 a b c d = Some m \<longrightarrow>
            isFinite a \<and> isFinite b \<and> isFinite c \<and> isFinite d \<and>
            m = \<lparr>xx = d * (Num 1 / det), xy = - b * (Num 1 / det),
                 yx = - c * (Num 1 / det), yy = a * (Num 1 / det)\<rparr>"
  proof (intro allI impI)
    fix m assume s: "invert2x2 a b c d = Some m"
    then have f: "isFinite det" and e: "\<not> \<bar>det\<bar> < EPSILON"
      by (auto simp add: invert2x2_def det_def Let_def split: if_splits)
    have "isFinite (a * d)" "isFinite (b * c)"
      using f isFinite_minus[of "a * d" "b * c"] by (simp_all add: det_def)
    then have fin: "isFinite a \<and> isFinite b \<and> isFinite c \<and> isFinite d"
      using isFinite_times[of a d] isFinite_times[of b c] by simp
    have "m = \<lparr>xx = d * (Num 1 / det), xy = - b * (Num 1 / det),
                 yx = - c * (Num 1 / det), yy = a * (Num 1 / det)\<rparr>"
      using s f e by (simp add: invert2x2_def det_def Let_def)
    then show "isFinite a \<and> isFinite b \<and> isFinite c \<and> isFinite d \<and>
            m = \<lparr>xx = d * (Num 1 / det), xy = - b * (Num 1 / det),
                 yx = - c * (Num 1 / det), yy = a * (Num 1 / det)\<rparr>"
      using fin by blast
  qed
qed

theorem invert2x2_cases_witness:
  "invert2x2 (Num 2) (Num 1) (Num 1) (Num 1) =
     Some \<lparr>xx = Num 1, xy = Num (- 1), yx = Num (- 1), yy = Num 2\<rparr> \<and>
   \<lparr>xx = Num 1, xy = Num (- 1), yx = Num (- 1), yy = Num 2\<rparr> =
     \<lparr>xx = Num 1 * (Num 1 / Num 1), xy = - Num 1 * (Num 1 / Num 1),
      yx = - Num 1 * (Num 1 / Num 1), yy = Num 2 * (Num 1 / Num 1)\<rparr> \<and>
   invert2x2 (Num 1) (Num 1) (Num 1) (Num 1) = None \<and>
   \<bar>Num 1 * Num 1 - Num 1 * Num 1\<bar> < EPSILON"
proof -
  let ?m = "\<lparr>xx = Num 1, xy = Num (- 1), yx = Num (- 1), yy = Num 2\<rparr>"
  have s: "invert2x2 (Num 2) (Num 1) (Num 1) (Num 1) = Some ?m"
    by (simp add: invert2x2_def Let_def EPSILON_value r64)
  have e: "\<bar>Num 1 * Num 1 - Num 1 * Num 1\<bar> < EPSILON"
    by (simp add: EPSILON_value r64)
  have d: "Num 2 * Num 1 - Num 1 * Num 1 = Num 1"
    by (simp add: r64)
  have "invert2x2 (Num 2) (Num 1) (Num 1) (Num 1) = Some ?m \<longrightarrow>
      isFinite (Num 2) \<and> isFinite (Num 1) \<and> isFinite (Num 1) \<and> isFinite (Num 1) \<and>
      ?m = \<lparr>xx = Num 1 * (Num 1 / Num 1), xy = - Num 1 * (Num 1 / Num 1),
            yx = - Num 1 * (Num 1 / Num 1), yy = Num 2 * (Num 1 / Num 1)\<rparr>"
    using invert2x2_cases[of "Num 2" "Num 1" "Num 1" "Num 1", unfolded d, THEN conjunct2, THEN spec, of ?m] .
  then have c1: "?m = \<lparr>xx = Num 1 * (Num 1 / Num 1), xy = - Num 1 * (Num 1 / Num 1),
            yx = - Num 1 * (Num 1 / Num 1), yy = Num 2 * (Num 1 / Num 1)\<rparr>"
    using s by blast
  have c2: "invert2x2 (Num 1) (Num 1) (Num 1) (Num 1) = None"
    using invert2x2_cases[of "Num 1" "Num 1" "Num 1" "Num 1", THEN conjunct1] e by (rule_tac iffD2) auto
  show ?thesis
    using s c1 c2 e by blast
qed

text \<open>
  C5 as stated has the entries \<open>d / det\<close>, \<open>- b / det\<close>, \<open>- c / det\<close>
  and \<open>a / det\<close>, and the product of the result with the matrix equal to the
  identity. The source multiplies by the rounded reciprocal of the determinant. For the
  matrix of rows \<open>(1, 0)\<close> and \<open>(0, 49)\<close> the determinant is 49, and
  \<open>49 * (1 / 49)\<close> is \<open>1 - 2 ^ - 53\<close> where \<open>49 / 49\<close> is 1; the
  first entry of the product is not 1 either.
\<close>

theorem invert2x2_rounding_counterexample:
  "invert2x2 (Num 1) (Num 0) (Num 0) (Num 49) =
     Some \<lparr>xx = Num (9007199254740991 / 2 ^ 53), xy = Num 0, yx = Num 0,
           yy = Num (5882252574524729 / 2 ^ 58)\<rparr> \<and>
   Num 1 * Num 49 - Num 0 * Num 0 = Num 49 \<and>
   Num 49 / Num 49 = Num 1 \<and>
   Num (9007199254740991 / 2 ^ 53) \<noteq> Num 1 \<and>
   Num (9007199254740991 / 2 ^ 53) * Num 1 + Num 0 * Num 0 = Num (9007199254740991 / 2 ^ 53)"
  by (simp add: invert2x2_def Let_def EPSILON_value r64)

text \<open>
  C6, as amended. \<open>evaluateNumber\<close> always returns a number, finite or NaN. It is
  NaN when the evaluator throws, and when its result, converted by \<open>Number\<close>
  unless it is a number already, cannot be converted or is NaN or infinite. Otherwise
  it is the finite number the result is or converts to.
\<close>

theorem evaluateNumber_cases:
  "(compiled scope = Throws \<longrightarrow> evaluateNumber compiled scope = NaN) \<and>
   (\<forall>v. compiled scope = Returns v \<longrightarrow>
      evaluateNumber compiled scope =
        (case Number v of None \<Rightarrow> NaN | Some numeric \<Rightarrow> if isFinite numeric then numeric else NaN)) \<and>
   (isFinite (evaluateNumber compiled scope) \<or> evaluateNumber compiled scope = NaN)"
proof (intro conjI allI impI)
  assume "compiled scope = Throws"
  then show "evaluateNumber compiled scope = NaN" by (simp add: evaluateNumber_def)
next
  fix v assume r: "compiled scope = Returns v"
  show "evaluateNumber compiled scope =
        (case Number v of None \<Rightarrow> NaN | Some numeric \<Rightarrow> if isFinite numeric then numeric else NaN)"
    using r by (cases v) (simp_all add: evaluateNumber_def)
next
  show "isFinite (evaluateNumber compiled scope) \<or> evaluateNumber compiled scope = NaN"
    by (auto simp add: evaluateNumber_def split: outcome.splits option.splits)
qed

theorem evaluateNumber_cases_witness:
  "evaluateNumber throwing [''x'' \<mapsto> Num 1] = NaN \<and>
   evaluateNumber (returning (JSNumber PosInf)) [''x'' \<mapsto> Num 1] = NaN \<and>
   evaluateNumber (returning (JSNumber (Num 3))) [''x'' \<mapsto> Num 1] = Num 3 \<and>
   evaluateNumber (returning JSNull) [''x'' \<mapsto> Num 1] = Num 0 \<and>
   evaluateNumber (returning JSUndefined) [''x'' \<mapsto> Num 1] = NaN \<and>
   evaluateNumber (returning (JSOther None)) [''x'' \<mapsto> Num 1] = NaN"
  using evaluateNumber_cases[of throwing "[''x'' \<mapsto> Num 1]"]
    evaluateNumber_cases[of "returning (JSNumber PosInf)" "[''x'' \<mapsto> Num 1]"]
    evaluateNumber_cases[of "returning (JSNumber (Num 3))" "[''x'' \<mapsto> Num 1]"]
    evaluateNumber_cases[of "returning JSNull" "[''x'' \<mapsto> Num 1]"]
    evaluateNumber_cases[of "returning JSUndefined" "[''x'' \<mapsto> Num 1]"]
    evaluateNumber_cases[of "returning (JSOther None)" "[''x'' \<mapsto> Num 1]"]
  by (simp add: throwing_def returning_def)

text \<open>
  C6 as stated gives the invalid sentinel for every result that is not a number. The
  source converts such a result with \<open>Number(value)\<close> first: for the boolean
  \<open>true\<close> (what a comparison evaluates to) the result is 1.
\<close>

theorem boolean_result_counterexample:
  "returning (JSBoolean True) [''x'' \<mapsto> Num 0] = Returns (JSBoolean True) \<and>
   \<not> is_number (JSBoolean True) \<and>
   evaluateNumber (returning (JSBoolean True)) [''x'' \<mapsto> Num 0] = Num 1 \<and>
   Num 1 \<noteq> NaN"
  by (simp add: returning_def evaluateNumber_def)

text \<open>
  C7, as amended. For an \<open>optimiserType\<close> that is none of the recognised names,
  \<open>computeTrajectory1D\<close> and \<open>computeTrajectory2D\<close> return no trajectory
  and end in an error that is the same whatever the analysis is and whatever its
  evaluators do, so no step of a loop contributes to it: the error that names the type
  when \<open>numSteps + 1\<close> is a valid array length, and the \<open>RangeError\<close> of
  the array allocation, which comes first, when it is not.
\<close>

theorem unsupported_optimiser_fails:
  "(optimiserType s \<noteq> ''Gradient Descent'' \<and> optimiserType s \<noteq> ''Newton'' \<longrightarrow>
      computeTrajectory1D a1 s =
        Inl (if 4294967295 < numSteps_of s + 1 then RangeError
             else UnsupportedOptimiserType (optimiserType s))) \<and>
   (optimiserType s \<noteq> ''Gradient Descent'' \<and> optimiserType s \<noteq> ''Adam'' \<and> optimiserType s \<noteq> ''Newton'' \<longrightarrow>
      computeTrajectory2D a2 s =
        Inl (if 4294967295 < numSteps_of s + 1 then RangeError
             else UnsupportedOptimiserType (optimiserType s)))"
proof (cases "4294967295 < numSteps_of s + 1")
  case True
  then show ?thesis
    using computeTrajectory1D_RangeError[of s a1] computeTrajectory2D_RangeError[of s a2] by simp
next
  case False
  then show ?thesis
    using computeTrajectory1D_unsupported[of s a1] computeTrajectory2D_unsupported[of s a2] by simp
qed

theorem unsupported_optimiser_fails_witness:
  "computeTrajectory1D square1D (one_step\<lparr>optimiserType := ''Adam''\<rparr>) = Inl (UnsupportedOptimiserType ''Adam'') \<and>
   computeTrajectory2D bowl2D (one_step\<lparr>optimiserType := ''Foo''\<rparr>) = Inl (UnsupportedOptimiserType ''Foo'')"
  using unsupported_optimiser_fails[of "one_step\<lparr>optimiserType := ''Adam''\<rparr>" square1D bowl2D]
    unsupported_optimiser_fails[of "one_step\<lparr>optimiserType := ''Foo''\<rparr>" square1D bowl2D]
  by (simp add: one_step_def numSteps_of_def)

text \<open>
  C7 as stated has the error for the unsupported type in every case. The arrays are
  allocated before the type is looked at: with \<open>numSteps = 2 ^ 32 - 1\<close> the
  length \<open>2 ^ 32\<close> is out of range and the call ends in the
  \<open>RangeError\<close>, for the unsupported type \<open>Foo\<close> too.
\<close>

theorem unsupported_optimiser_counterexample:
  "optimiserType (one_step\<lparr>optimiserType := ''Foo'', numSteps := Some 4294967295\<rparr>) \<noteq> ''Gradient Descent'' \<and>
   optimiserType (one_step\<lparr>optimiserType := ''Foo'', numSteps := Some 4294967295\<rparr>) \<noteq> ''Newton'' \<and>
   computeTrajectory1D square1D (one_step\<lparr>optimiserType := ''Foo'', numSteps := Some 4294967295\<rparr>) =
     Inl RangeError \<and>
   computeTrajectory1D square1D (one_step\<lparr>optimiserType := ''Foo'', numSteps := Some 4294967295\<rparr>) \<noteq>
     Inl (UnsupportedOptimiserType ''Foo'')"
  by (simp add: computeTrajectory1D_def Array_fill_def one_step_def Let_def)

text \<open>
  C8. At a step that does not stall, of any optimiser, the position at index
  \<open>i + 1\<close> is the one the update rule of the optimiser gives, and the objective
  at index \<open>i + 1\<close> is what \<open>evaluateNumber\<close> gives for the objective at
  that position when that is finite, and the objective at index \<open>i\<close> otherwise.
  The positions are the same whatever the objective evaluator is: replacing it by any
  other evaluator changes neither \<open>x\<close> nor \<open>y\<close> of the result, so the
  fallback on the objective never reaches the position.
\<close>

theorem objective_after_step:
  fixes a1 :: analysis1D and a2 :: analysis2D and s :: settings
    and t1 :: trajectory1D and t2 :: trajectory2D and i :: nat
  defines "n \<equiv> numSteps_of s"
    and "g \<equiv> evaluateNumber (gradient a1) [''x'' \<mapsto> traj_x t1 ! i]"
    and "h \<equiv> evaluateNumber (hessian a1) [''x'' \<mapsto> traj_x t1 ! i]"
    and "gX \<equiv> evaluateNumber (grad_x (gradient a2)) [''x'' \<mapsto> traj_x t2 ! i, ''y'' \<mapsto> traj_y t2 ! i]"
    and "gY \<equiv> evaluateNumber (grad_y (gradient a2)) [''x'' \<mapsto> traj_x t2 ! i, ''y'' \<mapsto> traj_y t2 ! i]"
    and "hxx \<equiv> evaluateNumber (hess_xx (hessian a2)) [''x'' \<mapsto> traj_x t2 ! i, ''y'' \<mapsto> traj_y t2 ! i]"
    and "hxy \<equiv> evaluateNumber (hess_xy (hessian a2)) [''x'' \<mapsto> traj_x t2 ! i, ''y'' \<mapsto> traj_y t2 ! i]"
    and "hyx \<equiv> evaluateNumber (hess_yx (hessian a2)) [''x'' \<mapsto> traj_x t2 ! i, ''y'' \<mapsto> traj_y t2 ! i]"
    and "hyy \<equiv> evaluateNumber (hess_yy (hessian a2)) [''x'' \<mapsto> traj_x t2 ! i, ''y'' \<mapsto> traj_y t2 ! i]"
  shows "(computeTrajectory1D a1 s = Inr t1 \<and> i < n \<and> \<not> stalls1D a1 s (traj_x t1) i \<longrightarrow>
            (optimiserType s = ''Gradient Descent'' \<longrightarrow>
               traj_x t1 ! (i + 1) =
                 traj_x t1 ! i - learningRate s * g
                   + (if i = 0 then Num 0 else momentum s * (traj_x t1 ! i - traj_x t1 ! (i - 1)))) \<and>
            (optimiserType s = ''Newton'' \<longrightarrow>
               traj_x t1 ! (i + 1) = traj_x t1 ! i - g / h) \<and>
            traj_y t1 ! (i + 1) =
              (let v = evaluateNumber (fn a1) [''x'' \<mapsto> traj_x t1 ! (i + 1)]
               in if isFinite v then v else traj_y t1 ! i)) \<and>
         (computeTrajectory2D a2 s = Inr t2 \<and> i < n \<and> \<not> stalls2D a2 s (traj_x t2) (traj_y t2) i \<longrightarrow>
            (optimiserType s = ''Gradient Descent'' \<longrightarrow>
               traj_x t2 ! (i + 1) =
                 traj_x t2 ! i - learningRate s * gX
                   + (if i = 0 then Num 0 else momentum s * (traj_x t2 ! i - traj_x t2 ! (i - 1))) \<and>
               traj_y t2 ! (i + 1) =
                 traj_y t2 ! i - learningRate s * gY
                   + (if i = 0 then Num 0 else momentum s * (traj_y t2 ! i - traj_y t2 ! (i - 1)))) \<and>
            (optimiserType s = ''Adam'' \<longrightarrow>
               (case adam_moments_spec a2 s (traj_x t2) (traj_y t2) (i + 1) of (mx, my, vx, vy) \<Rightarrow>
                  traj_x t2 ! (i + 1) =
                    traj_x t2 ! i - learningRate s * (mx / correction_denominator (beta1 s) i)
                                     / (Math_sqrt (vx / correction_denominator (beta2 s) i) + ADAM_EPSILON) \<and>
                  traj_y t2 ! (i + 1) =
                    traj_y t2 ! i - learningRate s * (my / correction_denominator (beta1 s) i)
                                     / (Math_sqrt (vy / correction_denominator (beta2 s) i) + ADAM_EPSILON))) \<and>
            (optimiserType s = ''Newton'' \<longrightarrow>
               (\<exists>m. invert2x2 hxx hxy hyx hyy = Some m \<and>
                  traj_x t2 ! (i + 1) = traj_x t2 ! i - (xx m * gX + xy m * gY) \<and>
                  traj_y t2 ! (i + 1) = traj_y t2 ! i - (yx m * gX + yy m * gY))) \<and>
            traj_z t2 ! (i + 1) =
              (let v = evaluateNumber (fn a2) [''x'' \<mapsto> traj_x t2 ! (i + 1), ''y'' \<mapsto> traj_y t2 ! (i + 1)]
               in if isFinite v then v else traj_z t2 ! i)) \<and>
         map_sum id traj_x (computeTrajectory1D (a1\<lparr>fn := f\<rparr>) s) =
           map_sum id traj_x (computeTrajectory1D a1 s) \<and>
         map_sum id (\<lambda>t. (traj_x t, traj_y t)) (computeTrajectory2D (a2\<lparr>fn := f\<rparr>) s) =
           map_sum id (\<lambda>t. (traj_x t, traj_y t)) (computeTrajectory2D a2 s)"
proof -
  have one: "(optimiserType s = ''Gradient Descent'' \<longrightarrow>
               traj_x t1 ! (i + 1) =
                 traj_x t1 ! i - learningRate s * g
                   + (if i = 0 then Num 0 else momentum s * (traj_x t1 ! i - traj_x t1 ! (i - 1)))) \<and>
            (optimiserType s = ''Newton'' \<longrightarrow>
               traj_x t1 ! (i + 1) = traj_x t1 ! i - g / h) \<and>
            traj_y t1 ! (i + 1) =
              (let v = evaluateNumber (fn a1) [''x'' \<mapsto> traj_x t1 ! (i + 1)]
               in if isFinite v then v else traj_y t1 ! i)"
    if h1: "computeTrajectory1D a1 s = Inr t1 \<and> i < n \<and> \<not> stalls1D a1 s (traj_x t1) i"
  proof -
    have r: "computeTrajectory1D a1 s = Inr t1" and i: "i < numSteps_of s"
      and ns: "\<not> stalls1D a1 s (traj_x t1) i" using h1 by (simp_all add: n_def)
    have l: "Suc i < length (traj_x t1)" "Suc i < length (traj_y t1)"
      using traj1D_base[OF r] i by simp_all
    have obj: "traj_y t1 ! (i + 1) =
              (let v = evaluateNumber (fn a1) [''x'' \<mapsto> traj_x t1 ! (i + 1)]
               in if isFinite v then v else traj_y t1 ! i)"
      using traj1D_step[OF r i] ns by (simp add: ensureValue_def Let_def)
    have gd: "traj_x t1 ! (i + 1) =
                 traj_x t1 ! i - learningRate s * g
                   + (if i = 0 then Num 0 else momentum s * (traj_x t1 ! i - traj_x t1 ! (i - 1)))"
      if ty: "optimiserType s = ''Gradient Descent''"
      using gd1_fix_step[OF gd1_traj[OF r ty i] l] ns ty
      unfolding g_def by (simp add: stalls1D_def Let_def)
    have nw: "traj_x t1 ! (i + 1) = traj_x t1 ! i - g / h"
      if ty: "optimiserType s = ''Newton''"
      using nw1_fix_step[OF nw1_traj[OF r ty i] l] ns ty
      unfolding g_def h_def by (simp add: stalls1D_def Let_def)
    show ?thesis using obj gd nw by blast
  qed
  have two: "(optimiserType s = ''Gradient Descent'' \<longrightarrow>
               traj_x t2 ! (i + 1) =
                 traj_x t2 ! i - learningRate s * gX
                   + (if i = 0 then Num 0 else momentum s * (traj_x t2 ! i - traj_x t2 ! (i - 1))) \<and>
               traj_y t2 ! (i + 1) =
                 traj_y t2 ! i - learningRate s * gY
                   + (if i = 0 then Num 0 else momentum s * (traj_y t2 ! i - traj_y t2 ! (i - 1)))) \<and>
            (optimiserType s = ''Adam'' \<longrightarrow>
               (case adam_moments_spec a2 s (traj_x t2) (traj_y t2) (i + 1) of (mx, my, vx, vy) \<Rightarrow>
                  traj_x t2 ! (i + 1) =
                    traj_x t2 ! i - learningRate s * (mx / correction_denominator (beta1 s) i)
                                     / (Math_sqrt (vx / correction_denominator (beta2 s) i) + ADAM_EPSILON) \<and>
                  traj_y t2 ! (i + 1) =
                    traj_y t2 ! i - learningRate s * (my / correction_denominator (beta1 s) i)
                                     / (Math_sqrt (vy / correction_denominator (beta2 s) i) + ADAM_EPSILON))) \<and>
            (optimiserType s = ''Newton'' \<longrightarrow>
               (\<exists>m. invert2x2 hxx hxy hyx hyy = Some m \<and>
                  traj_x t2 ! (i + 1) = traj_x t2 ! i - (xx m * gX + xy m * gY) \<and>
                  traj_y t2 ! (i + 1) = traj_y t2 ! i - (yx m * gX + yy m * gY))) \<and>
            traj_z t2 ! (i + 1) =
              (let v = evaluateNumber (fn a2) [''x'' \<mapsto> traj_x t2 ! (i + 1), ''y'' \<mapsto> traj_y t2 ! (i + 1)]
               in if isFinite v then v else traj_z t2 ! i)"
    if h2: "computeTrajectory2D a2 s = Inr t2 \<and> i < n \<and> \<not> stalls2D a2 s (traj_x t2) (traj_y t2) i"
  proof -
    have r: "computeTrajectory2D a2 s = Inr t2" and i: "i < numSteps_of s"
      and ns: "\<not> stalls2D a2 s (traj_x t2) (traj_y t2) i" using h2 by (simp_all add: n_def)
    have l: "Suc i < length (traj_x t2)" "Suc i < length (traj_y t2)" "Suc i < length (traj_z t2)"
      using traj2D_base[OF r] i by simp_all
    have obj: "traj_z t2 ! (i + 1) =
              (let v = evaluateNumber (fn a2) [''x'' \<mapsto> traj_x t2 ! (i + 1), ''y'' \<mapsto> traj_y t2 ! (i + 1)]
               in if isFinite v then v else traj_z t2 ! i)"
      using traj2D_step[OF r i] ns by (simp add: ensureValue_def Let_def)
    have gd: "traj_x t2 ! (i + 1) =
                 traj_x t2 ! i - learningRate s * gX
                   + (if i = 0 then Num 0 else momentum s * (traj_x t2 ! i - traj_x t2 ! (i - 1))) \<and>
               traj_y t2 ! (i + 1) =
                 traj_y t2 ! i - learningRate s * gY
                   + (if i = 0 then Num 0 else momentum s * (traj_y t2 ! i - traj_y t2 ! (i - 1)))"
      if ty: "optimiserType s = ''Gradient Descent''"
      using gd2_fix_step[OF gd2_traj[OF r ty i] l] ns ty
      unfolding gX_def gY_def by (simp add: stalls2D_def Let_def)
    have ad: "case adam_moments_spec a2 s (traj_x t2) (traj_y t2) (i + 1) of (mx, my, vx, vy) \<Rightarrow>
                  traj_x t2 ! (i + 1) =
                    traj_x t2 ! i - learningRate s * (mx / correction_denominator (beta1 s) i)
                                     / (Math_sqrt (vx / correction_denominator (beta2 s) i) + ADAM_EPSILON) \<and>
                  traj_y t2 ! (i + 1) =
                    traj_y t2 ! i - learningRate s * (my / correction_denominator (beta1 s) i)
                                     / (Math_sqrt (vy / correction_denominator (beta2 s) i) + ADAM_EPSILON)"
      if ty: "optimiserType s = ''Adam''"
    proof -
      obtain mx0 my0 vx0 vy0 where m0: "adam_moments_spec a2 s (traj_x t2) (traj_y t2) i = (mx0, my0, vx0, vy0)"
        by (cases "adam_moments_spec a2 s (traj_x t2) (traj_y t2) i") auto
      obtain mx my vx vy where m1: "adam_moments_spec a2 s (traj_x t2) (traj_y t2) (Suc i) = (mx, my, vx, vy)"
        by (cases "adam_moments_spec a2 s (traj_x t2) (traj_y t2) (Suc i)") auto
      show ?thesis
        using adam_fix_step[OF adam_traj[OF r ty i, unfolded m0 m1] l] ns ty
        by (simp add: stalls2D_def Let_def m1)
    qed
    have nw: "\<exists>m. invert2x2 hxx hxy hyx hyy = Some m \<and>
                  traj_x t2 ! (i + 1) = traj_x t2 ! i - (xx m * gX + xy m * gY) \<and>
                  traj_y t2 ! (i + 1) = traj_y t2 ! i - (yx m * gX + yy m * gY)"
      if ty: "optimiserType s = ''Newton''"
    proof -
      have fin: "\<forall>v \<in> set [gX, gY, hxx, hxy, hyx, hyy]. isFinite v"
        and inv: "invert2x2 hxx hxy hyx hyy \<noteq> None"
        using ns ty unfolding gX_def gY_def hxx_def hxy_def hyx_def hyy_def
        by (simp_all add: stalls2D_def Let_def)
      then obtain m where m: "invert2x2 hxx hxy hyx hyy = Some m" by blast
      have "traj_x t2 ! Suc i = traj_x t2 ! i - (xx m * gX + xy m * gY) \<and>
            traj_y t2 ! Suc i = traj_y t2 ! i - (yx m * gX + yy m * gY)"
        using nw2_fix_step[OF nw2_traj[OF r ty i] l, THEN conjunct2, THEN spec, of m] fin m
        unfolding gX_def gY_def hxx_def hxy_def hyx_def hyy_def by blast
      then show ?thesis using m by simp
    qed
    show ?thesis using obj gd ad nw by blast
  qed
  show ?thesis
    using one two computeTrajectory1D_fn[where a = a1 and f = f and s = s]
      computeTrajectory2D_fn[where a = a2 and f = f and s = s] by blast
qed

theorem objective_after_step_witness:
  "computeTrajectory1D (square1D\<lparr>fn := lift1 (\<lambda>u. Num 1 / (u - Num (3 / 8)))\<rparr>) one_step =
     Inr \<lparr>traj_x = [Num (1 / 2), Num (3 / 8)], traj_y = [Num 8, Num 8]\<rparr> \<and>
   \<not> stalls1D (square1D\<lparr>fn := lift1 (\<lambda>u. Num 1 / (u - Num (3 / 8)))\<rparr>) one_step
       [Num (1 / 2), Num (3 / 8)] 0 \<and>
   \<not> isFinite (evaluateNumber (lift1 (\<lambda>u. Num 1 / (u - Num (3 / 8)))) [''x'' \<mapsto> Num (3 / 8)]) \<and>
   [Num (1 / 2), Num (3 / 8)] ! (0 + 1) = Num (1 / 2) - Num (1 / 8) * Num 1 + Num 0 \<and>
   [Num 8, Num (8 :: real)] ! (0 + 1) = [Num 8, Num 8] ! 0 \<and>
   computeTrajectory2D bowl2D (one_step\<lparr>optimiserType := ''Newton''\<rparr>) =
     Inr \<lparr>traj_x = [Num (1 / 2), Num 0], traj_y = [Num (1 / 2), Num 0], traj_z = [Num (1 / 2), Num 0]\<rparr> \<and>
   \<not> stalls2D bowl2D (one_step\<lparr>optimiserType := ''Newton''\<rparr>) [Num (1 / 2), Num 0] [Num (1 / 2), Num 0] 0 \<and>
   invert2x2 (Num 2) (Num 0) (Num 0) (Num 2) =
     Some \<lparr>xx = Num (1 / 2), xy = Num 0, yx = Num 0, yy = Num (1 / 2)\<rparr> \<and>
   [Num (1 / 2), Num 0] ! (0 + 1) = Num (1 / 2) - (Num (1 / 2) * Num 1 + Num 0 * Num 1) \<and>
   [Num (1 / 2), Num 0] ! (0 + 1) = evaluateNumber (fn bowl2D) [''x'' \<mapsto> Num 0, ''y'' \<mapsto> Num 0]"
proof -
  let ?a1 = "square1D\<lparr>fn := lift1 (\<lambda>u. Num 1 / (u - Num (3 / 8)))\<rparr>"
  let ?s2 = "one_step\<lparr>optimiserType := ''Newton''\<rparr>"
  let ?t1 = "\<lparr>traj_x = [Num (1 / 2), Num (3 / 8)], traj_y = [Num 8, Num 8]\<rparr>"
  let ?t2 = "\<lparr>traj_x = [Num (1 / 2), Num 0], traj_y = [Num (1 / 2), Num 0], traj_z = [Num (1 / 2), Num 0]\<rparr>"
  let ?m = "\<lparr>xx = Num (1 / 2), xy = Num 0, yx = Num 0, yy = Num (1 / 2)\<rparr>"
  have r1: "computeTrajectory1D ?a1 one_step = Inr ?t1"
    by (simp add: example_defs run_defs infinity_of_sign_def)
  have g1: "evaluateNumber (gradient ?a1) [''x'' \<mapsto> Num (1 / 2)] = Num 1"
    by (simp add: example_defs evaluateNumber_def r64)
  have s1: "\<not> stalls1D ?a1 one_step (traj_x ?t1) 0"
    by (simp add: stalls1D_def example_defs evaluateNumber_def r64)
  have e1: "\<not> isFinite (evaluateNumber (fn ?a1) [''x'' \<mapsto> traj_x ?t1 ! (0 + 1)])"
    by (simp add: example_defs evaluateNumber_def infinity_of_sign_def r64)
  have r2: "computeTrajectory2D bowl2D ?s2 = Inr ?t2"
    by (simp add: example_defs run_defs)
  have v2: "evaluateNumber (grad_x (gradient bowl2D)) [''x'' \<mapsto> Num (1 / 2), ''y'' \<mapsto> Num (1 / 2)] = Num 1"
      "evaluateNumber (grad_y (gradient bowl2D)) [''x'' \<mapsto> Num (1 / 2), ''y'' \<mapsto> Num (1 / 2)] = Num 1"
      "evaluateNumber (hess_xx (hessian bowl2D)) [''x'' \<mapsto> Num (1 / 2), ''y'' \<mapsto> Num (1 / 2)] = Num 2"
      "evaluateNumber (hess_xy (hessian bowl2D)) [''x'' \<mapsto> Num (1 / 2), ''y'' \<mapsto> Num (1 / 2)] = Num 0"
      "evaluateNumber (hess_yx (hessian bowl2D)) [''x'' \<mapsto> Num (1 / 2), ''y'' \<mapsto> Num (1 / 2)] = Num 0"
      "evaluateNumber (hess_yy (hessian bowl2D)) [''x'' \<mapsto> Num (1 / 2), ''y'' \<mapsto> Num (1 / 2)] = Num 2"
    by (simp_all add: example_defs evaluateNumber_def r64)
  have i2: "invert2x2 (Num 2) (Num 0) (Num 0) (Num 2) = Some ?m"
    by (simp add: invert2x2_def Let_def EPSILON_value r64)
  have s2: "\<not> stalls2D bowl2D ?s2 (traj_x ?t2) (traj_y ?t2) 0"
    by (simp add: stalls2D_def one_step_def v2 i2)
  have e2: "isFinite (evaluateNumber (fn bowl2D) [''x'' \<mapsto> traj_x ?t2 ! (0 + 1), ''y'' \<mapsto> traj_y ?t2 ! (0 + 1)])"
    by (simp add: example_defs evaluateNumber_def r64)
  have n: "numSteps_of one_step = 1" "numSteps_of ?s2 = 1"
      "optimiserType one_step = ''Gradient Descent''" "optimiserType ?s2 = ''Newton''"
      "learningRate one_step = Num (1 / 8)"
    by (simp_all add: numSteps_of_def one_step_def)
  have c1: "traj_x ?t1 ! (0 + 1) = Num (1 / 2) - Num (1 / 8) * Num 1 + Num 0 \<and>
      traj_y ?t1 ! (0 + 1) = traj_y ?t1 ! 0"
    using objective_after_step[where ?a1.0 = ?a1 and s = one_step and ?t1.0 = ?t1 and i = 0] r1 s1 e1 g1
    unfolding n Let_def by auto
  have c2: "traj_x ?t2 ! (0 + 1) = Num (1 / 2) - (xx ?m * Num 1 + xy ?m * Num 1) \<and>
      traj_z ?t2 ! (0 + 1) =
      evaluateNumber (fn bowl2D) [''x'' \<mapsto> traj_x ?t2 ! (0 + 1), ''y'' \<mapsto> traj_y ?t2 ! (0 + 1)]"
    using objective_after_step[where ?a2.0 = bowl2D and s = ?s2 and ?t2.0 = ?t2 and i = 0] r2 s2 e2
    unfolding n Let_def by (auto simp add: v2 i2)
  show ?thesis using r1 s1 e1 c1 r2 s2 i2 c2 by simp
qed

text \<open>
  C9. If the gradient evaluator yields no finite value at any point (in two variables:
  if at every point at least one of the two partial derivatives is not finite), every
  position of the trajectory is the initial point and every objective is the one at
  index 0, for every optimiser.
\<close>

theorem invalid_gradient_freezes:
  fixes a1 :: analysis1D and a2 :: analysis2D and s :: settings
  defines "n \<equiv> numSteps_of s"
  shows "((\<forall>p. \<not> isFinite (evaluateNumber (gradient a1) p)) \<and> computeTrajectory1D a1 s = Inr t1 \<longrightarrow>
            (\<forall>i\<le>n. traj_x t1 ! i = initialX s \<and> traj_y t1 ! i = traj_y t1 ! 0)) \<and>
         ((\<forall>p. \<not> isFinite (evaluateNumber (grad_x (gradient a2)) p) \<or>
                \<not> isFinite (evaluateNumber (grad_y (gradient a2)) p)) \<and>
          computeTrajectory2D a2 s = Inr t2 \<longrightarrow>
            (\<forall>i\<le>n. traj_x t2 ! i = initialX s \<and> traj_y t2 ! i = initialY s \<and>
                    traj_z t2 ! i = traj_z t2 ! 0))"
proof (intro conjI impI allI)
  fix i
  assume h: "(\<forall>p. \<not> isFinite (evaluateNumber (gradient a1) p)) \<and> computeTrajectory1D a1 s = Inr t1"
    and i: "i \<le> n"
  then have r: "computeTrajectory1D a1 s = Inr t1" by simp
  have "stalls1D a1 s (traj_x t1) j" for j
    using h computeTrajectory1D_Inr[OF r] by (auto simp add: stalls1D_def Let_def)
  then have "traj_x t1 ! i = traj_x t1 ! 0 \<and> traj_y t1 ! i = traj_y t1 ! 0"
    using traj1D_all_stalled[OF r, of i] i by (simp add: n_def)
  then show "traj_x t1 ! i = initialX s" "traj_y t1 ! i = traj_y t1 ! 0"
    using traj1D_base[OF r] by simp_all
next
  fix i
  assume h: "(\<forall>p. \<not> isFinite (evaluateNumber (grad_x (gradient a2)) p) \<or>
                \<not> isFinite (evaluateNumber (grad_y (gradient a2)) p)) \<and>
          computeTrajectory2D a2 s = Inr t2"
    and i: "i \<le> n"
  then have r: "computeTrajectory2D a2 s = Inr t2" by simp
  have "stalls2D a2 s (traj_x t2) (traj_y t2) j" for j
    using h computeTrajectory2D_Inr[OF r] by (auto simp add: stalls2D_def Let_def)
  then have "traj_x t2 ! i = traj_x t2 ! 0 \<and> traj_y t2 ! i = traj_y t2 ! 0 \<and> traj_z t2 ! i = traj_z t2 ! 0"
    using traj2D_all_stalled[OF r, of i] i by (simp add: n_def)
  then show "traj_x t2 ! i = initialX s" "traj_y t2 ! i = initialY s" "traj_z t2 ! i = traj_z t2 ! 0"
    using traj2D_base[OF r] by simp_all
qed

theorem invalid_gradient_freezes_witness:
  "(\<forall>p. \<not> isFinite (evaluateNumber (gradient (square1D\<lparr>gradient := always NaN\<rparr>)) p)) \<and>
   computeTrajectory1D (square1D\<lparr>gradient := always NaN\<rparr>) one_step =
     Inr \<lparr>traj_x = [Num (1 / 2), Num (1 / 2)], traj_y = [Num (1 / 4), Num (1 / 4)]\<rparr> \<and>
   [Num (1 / 2), Num (1 / 2)] ! 1 = initialX one_step \<and>
   [Num (1 / 4), Num (1 / 4)] ! 1 = [Num (1 / 4), Num (1 / 4 :: real)] ! 0 \<and>
   (\<forall>p. \<not> isFinite (evaluateNumber
           (grad_x (gradient (bowl2D\<lparr>gradient := \<lparr>grad_x = throwing, grad_y = always (Num 1)\<rparr>\<rparr>))) p)) \<and>
   computeTrajectory2D (bowl2D\<lparr>gradient := \<lparr>grad_x = throwing, grad_y = always (Num 1)\<rparr>\<rparr>)
       (one_step\<lparr>optimiserType := ''Adam''\<rparr>) =
     Inr \<lparr>traj_x = [Num (1 / 2), Num (1 / 2)], traj_y = [Num (1 / 2), Num (1 / 2)],
          traj_z = [Num (1 / 2), Num (1 / 2)]\<rparr> \<and>
   [Num (1 / 2), Num (1 / 2)] ! 1 = initialY one_step"
proof -
  let ?a1 = "square1D\<lparr>gradient := always NaN\<rparr>"
  let ?a2 = "bowl2D\<lparr>gradient := \<lparr>grad_x = throwing, grad_y = always (Num 1)\<rparr>\<rparr>"
  let ?s2 = "one_step\<lparr>optimiserType := ''Adam''\<rparr>"
  let ?t1 = "\<lparr>traj_x = [Num (1 / 2), Num (1 / 2)], traj_y = [Num (1 / 4), Num (1 / 4)]\<rparr>"
  let ?t2 = "\<lparr>traj_x = [Num (1 / 2), Num (1 / 2)], traj_y = [Num (1 / 2), Num (1 / 2)],
          traj_z = [Num (1 / 2), Num (1 / 2)]\<rparr>"
  have h1: "\<forall>p. \<not> isFinite (evaluateNumber (gradient ?a1) p)"
    by (simp add: example_defs evaluateNumber_def r64)
  have r1: "computeTrajectory1D ?a1 one_step = Inr ?t1"
    by (simp add: example_defs run_defs)
  have h2: "\<forall>p. \<not> isFinite (evaluateNumber (grad_x (gradient ?a2)) p)"
    by (simp add: example_defs evaluateNumber_def r64)
  have r2: "computeTrajectory2D ?a2 ?s2 = Inr ?t2"
    by (simp add: example_defs run_defs)
  have n: "numSteps_of one_step = 1" "numSteps_of ?s2 = 1"
    by (simp_all add: numSteps_of_def one_step_def)
  have c1: "traj_x ?t1 ! 1 = initialX one_step \<and> traj_y ?t1 ! 1 = traj_y ?t1 ! 0"
    using invalid_gradient_freezes[where ?a1.0 = ?a1 and s = one_step and ?t1.0 = ?t1] h1 r1
    unfolding n by blast
  have c2: "traj_y ?t2 ! 1 = initialY ?s2"
    using invalid_gradient_freezes[where ?a2.0 = ?a2 and s = ?s2 and ?t2.0 = ?t2] h2 r2
    unfolding n by blast
  show ?thesis using h1 r1 h2 r2 c1 c2 by (simp add: one_step_def)
qed

text \<open>
  C10. If the objective has no finite value at the initial point, the objective at
  index 0 is the number 0, and so is the objective at every index that only stalled
  steps lead to.
\<close>

theorem invalid_initial_objective_is_zero:
  fixes a1 :: analysis1D and a2 :: analysis2D and s :: settings
  defines "n \<equiv> numSteps_of s"
  shows "(\<not> isFinite (evaluateNumber (fn a1) [''x'' \<mapsto> initialX s]) \<and>
          computeTrajectory1D a1 s = Inr t1 \<longrightarrow>
            traj_y t1 ! 0 = Num 0 \<and>
            (\<forall>k\<le>n. (\<forall>i<k. stalls1D a1 s (traj_x t1) i) \<longrightarrow> traj_y t1 ! k = Num 0)) \<and>
         (\<not> isFinite (evaluateNumber (fn a2) [''x'' \<mapsto> initialX s, ''y'' \<mapsto> initialY s]) \<and>
          computeTrajectory2D a2 s = Inr t2 \<longrightarrow>
            traj_z t2 ! 0 = Num 0 \<and>
            (\<forall>k\<le>n. (\<forall>i<k. stalls2D a2 s (traj_x t2) (traj_y t2) i) \<longrightarrow> traj_z t2 ! k = Num 0))"
proof (rule conjI; rule impI)
  assume h: "\<not> isFinite (evaluateNumber (fn a1) [''x'' \<mapsto> initialX s]) \<and>
          computeTrajectory1D a1 s = Inr t1"
  then have r: "computeTrajectory1D a1 s = Inr t1" by simp
  have z: "traj_y t1 ! 0 = Num 0"
    using traj1D_base[OF r] h by (simp add: ensureValue_def)
  show "traj_y t1 ! 0 = Num 0 \<and>
            (\<forall>k\<le>n. (\<forall>i<k. stalls1D a1 s (traj_x t1) i) \<longrightarrow> traj_y t1 ! k = Num 0)"
  proof (intro conjI allI impI)
    show "traj_y t1 ! 0 = Num 0" by (rule z)
    fix k assume "k \<le> n" and "\<forall>i<k. stalls1D a1 s (traj_x t1) i"
    then have "traj_y t1 ! k = traj_y t1 ! 0"
      using traj1D_all_stalled[OF r, of k] unfolding n_def by blast
    then show "traj_y t1 ! k = Num 0" by (simp only: z)
  qed
next
  assume h: "\<not> isFinite (evaluateNumber (fn a2) [''x'' \<mapsto> initialX s, ''y'' \<mapsto> initialY s]) \<and>
          computeTrajectory2D a2 s = Inr t2"
  then have r: "computeTrajectory2D a2 s = Inr t2" by simp
  have z: "traj_z t2 ! 0 = Num 0"
    using traj2D_base[OF r] h by (simp add: ensureValue_def)
  show "traj_z t2 ! 0 = Num 0 \<and>
            (\<forall>k\<le>n. (\<forall>i<k. stalls2D a2 s (traj_x t2) (traj_y t2) i) \<longrightarrow> traj_z t2 ! k = Num 0)"
  proof (intro conjI allI impI)
    show "traj_z t2 ! 0 = Num 0" by (rule z)
    fix k assume "k \<le> n" and "\<forall>i<k. stalls2D a2 s (traj_x t2) (traj_y t2) i"
    then have "traj_z t2 ! k = traj_z t2 ! 0"
      using traj2D_all_stalled[OF r, of k] unfolding n_def by blast
    then show "traj_z t2 ! k = Num 0" by (simp only: z)
  qed
qed

theorem invalid_initial_objective_is_zero_witness:
  "\<not> isFinite (evaluateNumber (fn (square1D\<lparr>fn := throwing, gradient := always NaN\<rparr>))
        [''x'' \<mapsto> initialX one_step]) \<and>
   computeTrajectory1D (square1D\<lparr>fn := throwing, gradient := always NaN\<rparr>) one_step =
     Inr \<lparr>traj_x = [Num (1 / 2), Num (1 / 2)], traj_y = [Num 0, Num 0]\<rparr> \<and>
   stalls1D (square1D\<lparr>fn := throwing, gradient := always NaN\<rparr>) one_step [Num (1 / 2), Num (1 / 2)] 0 \<and>
   [Num 0, Num (0 :: real)] ! 1 = Num 0 \<and>
   \<not> isFinite (evaluateNumber (fn (bowl2D\<lparr>fn := always PosInf, hessian := hessian plane2D\<rparr>))
        [''x'' \<mapsto> initialX one_step, ''y'' \<mapsto> initialY one_step]) \<and>
   computeTrajectory2D (bowl2D\<lparr>fn := always PosInf, hessian := hessian plane2D\<rparr>)
       (one_step\<lparr>optimiserType := ''Newton''\<rparr>) =
     Inr \<lparr>traj_x = [Num (1 / 2), Num (1 / 2)], traj_y = [Num (1 / 2), Num (1 / 2)],
          traj_z = [Num 0, Num 0]\<rparr> \<and>
   stalls2D (bowl2D\<lparr>fn := always PosInf, hessian := hessian plane2D\<rparr>)
       (one_step\<lparr>optimiserType := ''Newton''\<rparr>) [Num (1 / 2), Num (1 / 2)] [Num (1 / 2), Num (1 / 2)] 0"
proof -
  let ?a1 = "square1D\<lparr>fn := throwing, gradient := always NaN\<rparr>"
  let ?a2 = "bowl2D\<lparr>fn := always PosInf, hessian := hessian plane2D\<rparr>"
  let ?s2 = "one_step\<lparr>optimiserType := ''Newton''\<rparr>"
  let ?t1 = "\<lparr>traj_x = [Num (1 / 2), Num (1 / 2)], traj_y = [Num 0, Num 0]\<rparr>"
  let ?t2 = "\<lparr>traj_x = [Num (1 / 2), Num (1 / 2)], traj_y = [Num (1 / 2), Num (1 / 2)],
          traj_z = [Num 0, Num 0]\<rparr>"
  have h1: "\<not> isFinite (evaluateNumber (fn ?a1) [''x'' \<mapsto> initialX one_step])"
    by (simp add: example_defs evaluateNumber_def r64)
  have r1: "computeTrajectory1D ?a1 one_step = Inr ?t1"
    by (simp add: example_defs run_defs)
  have s1: "stalls1D ?a1 one_step (traj_x ?t1) 0"
    by (simp add: stalls1D_def example_defs evaluateNumber_def)
  have h2: "\<not> isFinite (evaluateNumber (fn ?a2) [''x'' \<mapsto> initialX ?s2, ''y'' \<mapsto> initialY ?s2])"
    by (simp add: example_defs evaluateNumber_def r64)
  have r2: "computeTrajectory2D ?a2 ?s2 = Inr ?t2"
    by (simp add: example_defs run_defs)
  have s2: "stalls2D ?a2 ?s2 (traj_x ?t2) (traj_y ?t2) 0"
    by (simp add: stalls2D_def example_defs evaluateNumber_def invert2x2_def EPSILON_value r64 minus_jsnum_def)
  have n: "numSteps_of one_step = 1" "numSteps_of ?s2 = 1"
    by (simp_all add: numSteps_of_def one_step_def)
  have c1: "traj_y ?t1 ! 1 = Num 0"
    using invalid_initial_objective_is_zero[where ?a1.0 = ?a1 and s = one_step and ?t1.0 = ?t1] h1 r1 s1
    unfolding n by auto
  have c2: "traj_z ?t2 ! 1 = Num 0"
    using invalid_initial_objective_is_zero[where ?a2.0 = ?a2 and s = ?s2 and ?t2.0 = ?t2] h2 r2 s2
    unfolding n by auto
  show ?thesis using h1 r1 s1 h2 r2 s2 c1 c2 by simp
qed


end
